theory Spec2Isabelle
  imports Main "HOL-Library.Word" "HOL-Library.Product_Lexorder"
begin

section \<open>Failures\<close>

text \<open>
  Every way a request handler of \<^verbatim>\<open>main.py\<close> can fail is a value of \<open>error\<close>.
  \<open>HTTPException\<close> is the only exception the handlers raise themselves (always with
  status 204); the others are raised by the libraries the handlers call and are caught
  nowhere in the source:
  \<^item> \<open>RequestValidationError\<close>: the request body does not validate against the
    pydantic model of the route;
  \<^item> \<open>ValueError\<close>: \<^verbatim>\<open>datetime.strptime\<close> on a string that does not match the format;
  \<^item> \<open>InvalidId\<close>: \<^verbatim>\<open>ObjectId(id)\<close> on a string that it refuses;
  \<^item> \<open>OverflowError\<close>: an integer that does not fit the 8-byte integers of BSON;
  \<^item> \<open>TypeError\<close>: subscripting \<^verbatim>\<open>None\<close>;
  \<^item> \<open>DuplicateKeyError\<close>, \<open>WriteError\<close>: faults reported by the store.
\<close>

datatype error =
    HTTPException nat string
  | RequestValidationError
  | ValueError
  | InvalidId
  | OverflowError
  | TypeError
  | DuplicateKeyError
  | WriteError

text \<open>
  The status the web framework answers with: the status of an \<open>HTTPException\<close>, 422 for
  a body that does not validate, and 500 (internal server error) for every exception
  that no handler catches.
\<close>

fun status_code :: "error \<Rightarrow> nat" where
  "status_code (HTTPException s d) = s"
| "status_code RequestValidationError = 422"
| "status_code e = 500"

definition client_error :: "nat \<Rightarrow> bool" where
  "client_error s = (400 \<le> s \<and> s < 500)"

section \<open>Object identifiers\<close>

text \<open>
  A \<^verbatim>\<open>bson.ObjectId\<close> made by the driver is 12 bytes. \<^verbatim>\<open>ObjectId(s)\<close>, for a string
  \<open>s\<close>, raises \<open>InvalidId\<close> unless \<open>s\<close> has 24 characters, and then takes
  \<^verbatim>\<open>bytes.fromhex(s)\<close> as the identifier, raising \<open>InvalidId\<close> when that fails.
  \<^verbatim>\<open>bytes.fromhex\<close> reads pairs of hexadecimal digits (either case) and skips ASCII white
  space before a pair and at the end, not inside a pair. So a string of 24 hexadecimal
  digits gives 12 bytes, and a string of 24 characters with white space between pairs is
  accepted too, with fewer than 12 bytes. \<^verbatim>\<open>str(oid)\<close> is the lower-case hexadecimal
  form.
\<close>

type_synonym ObjectId = "8 word list"

definition hex_value :: "char \<Rightarrow> nat option" where
  "hex_value c =
     (let n = (of_char c :: nat) in
      if 48 \<le> n \<and> n \<le> 57 then Some (n - 48)
      else if 97 \<le> n \<and> n \<le> 102 then Some (n - 87)
      else if 65 \<le> n \<and> n \<le> 70 then Some (n - 55)
      else None)"

definition hex_char :: "nat \<Rightarrow> char" where
  "hex_char n = (if n < 10 then char_of (48 + n) else char_of (87 + n))"

definition isspace :: "char \<Rightarrow> bool" where
  "isspace c = (let n = (of_char c :: nat) in n = 32 \<or> (9 \<le> n \<and> n \<le> 13))"

fun fromhex :: "string \<Rightarrow> 8 word list option" where
  "fromhex [] = Some []"
| "fromhex [c] = (if isspace c then Some [] else None)"
| "fromhex (c # d # cs) =
     (if isspace c then fromhex (d # cs)
      else
        (case hex_value c of
           None \<Rightarrow> None
         | Some h \<Rightarrow>
             (case hex_value d of
                None \<Rightarrow> None
              | Some l \<Rightarrow>
                  (case fromhex cs of
                     None \<Rightarrow> None
                   | Some bs \<Rightarrow> Some (word_of_nat (16 * h + l) # bs)))))"

fun hexlify :: "8 word list \<Rightarrow> string" where
  "hexlify [] = []"
| "hexlify (b # bs) = hex_char (unat b div 16) # hex_char (unat b mod 16) # hexlify bs"

definition ObjectId :: "string \<Rightarrow> error + ObjectId" where
  "ObjectId oid =
     (if length oid = 24 then
        (case fromhex oid of None \<Rightarrow> Inl InvalidId | Some bs \<Rightarrow> Inr bs)
      else Inl InvalidId)"

definition str_oid :: "ObjectId \<Rightarrow> string" where
  "str_oid oid = hexlify oid"

section \<open>Dates and times\<close>

text \<open>
  A naive \<^verbatim>\<open>datetime\<close>. \<^verbatim>\<open>datetime.utcnow()\<close> is an input of the handlers that read
  the clock.
\<close>

record datetime =
  year :: nat
  month :: nat
  day :: nat
  hour :: nat
  minute :: nat
  second :: nat
  microsecond :: nat

definition is_leap :: "nat \<Rightarrow> bool" where
  "is_leap y = (y mod 4 = 0 \<and> (y mod 100 \<noteq> 0 \<or> y mod 400 = 0))"

definition days_in_month :: "nat \<Rightarrow> nat \<Rightarrow> nat" where
  "days_in_month y m =
     (if m = 2 then (if is_leap y then 29 else 28)
      else if m = 4 \<or> m = 6 \<or> m = 9 \<or> m = 11 then 30
      else 31)"

text \<open>The constructor \<^verbatim>\<open>datetime(y, m, d, H, M, S)\<close>, which checks every field.\<close>

definition mk_datetime :: "nat \<Rightarrow> nat \<Rightarrow> nat \<Rightarrow> nat \<Rightarrow> nat \<Rightarrow> nat \<Rightarrow> error + datetime" where
  "mk_datetime y m d H M S =
     (if 1 \<le> y \<and> y \<le> 9999 \<and> 1 \<le> m \<and> m \<le> 12 \<and> 1 \<le> d \<and> d \<le> days_in_month y m
         \<and> H < 24 \<and> M < 60 \<and> S < 60
      then Inr \<lparr>year = y, month = m, day = d, hour = H, minute = M, second = S,
                 microsecond = 0\<rparr>
      else Inl ValueError)"

text \<open>
  \<^verbatim>\<open>datetime.strptime\<close> turns the format into a regular expression and matches it at
  the start of the string, by backtracking; a directive is a choice between
  alternatives, tried in order. A parser below returns every way its expression matches
  at the start of a string, in the order the matcher tries them, each with the rest of
  the string.
\<close>

definition rng :: "nat \<Rightarrow> nat \<Rightarrow> char \<Rightarrow> bool" where
  "rng lo hi c = (48 + lo \<le> (of_char c :: nat) \<and> (of_char c :: nat) \<le> 48 + hi)"

definition digit :: "char \<Rightarrow> nat" where
  "digit c = of_char c - 48"

fun one :: "(char \<Rightarrow> bool) \<Rightarrow> string \<Rightarrow> (nat \<times> string) list" where
  "one p (a # cs) = (if p a then [(digit a, cs)] else [])"
| "one p [] = []"

fun two :: "(char \<Rightarrow> bool) \<Rightarrow> (char \<Rightarrow> bool) \<Rightarrow> string \<Rightarrow> (nat \<times> string) list" where
  "two p q (a # b # cs) = (if p a \<and> q b then [(10 * digit a + digit b, cs)] else [])"
| "two p q cs = []"

fun lit :: "(char \<Rightarrow> bool) \<Rightarrow> string \<Rightarrow> string list" where
  "lit p (a # cs) = (if p a then [cs] else [])"
| "lit p [] = []"

text \<open>\<^verbatim>\<open>%Y\<close> is \<^verbatim>\<open>\d\d\d\d\<close>.\<close>

fun directive_Y :: "string \<Rightarrow> (nat \<times> string) list" where
  "directive_Y (a # b # c # d # cs) =
     (if rng 0 9 a \<and> rng 0 9 b \<and> rng 0 9 c \<and> rng 0 9 d
      then [(1000 * digit a + 100 * digit b + 10 * digit c + digit d, cs)] else [])"
| "directive_Y cs = []"

text \<open>\<^verbatim>\<open>%m\<close> is \<^verbatim>\<open>1[0-2]|0[1-9]|[1-9]\<close>.\<close>

definition directive_m :: "string \<Rightarrow> (nat \<times> string) list" where
  "directive_m s = two (rng 1 1) (rng 0 2) s @ two (rng 0 0) (rng 1 9) s @ one (rng 1 9) s"

text \<open>\<^verbatim>\<open>%d\<close> is \<^verbatim>\<open>3[0-1]|[1-2]\d|0[1-9]|[1-9]| [1-9]\<close>.\<close>

definition directive_d :: "string \<Rightarrow> (nat \<times> string) list" where
  "directive_d s =
     two (rng 3 3) (rng 0 1) s @ two (rng 1 2) (rng 0 9) s @ two (rng 0 0) (rng 1 9) s
     @ one (rng 1 9) s @ concat (map (one (rng 1 9)) (lit (\<lambda>c. c = CHR '' '') s))"

text \<open>\<^verbatim>\<open>%H\<close> is \<^verbatim>\<open>2[0-3]|[0-1]\d|\d\<close>.\<close>

definition directive_H :: "string \<Rightarrow> (nat \<times> string) list" where
  "directive_H s = two (rng 2 2) (rng 0 3) s @ two (rng 0 1) (rng 0 9) s @ one (rng 0 9) s"

text \<open>\<^verbatim>\<open>%M\<close> is \<^verbatim>\<open>[0-5]\d|\d\<close>.\<close>

definition directive_M :: "string \<Rightarrow> (nat \<times> string) list" where
  "directive_M s = two (rng 0 5) (rng 0 9) s @ one (rng 0 9) s"

text \<open>\<^verbatim>\<open>%S\<close> is \<^verbatim>\<open>6[0-1]|[0-5]\d|\d\<close>.\<close>

definition directive_S :: "string \<Rightarrow> (nat \<times> string) list" where
  "directive_S s = two (rng 6 6) (rng 0 1) s @ two (rng 0 5) (rng 0 9) s @ one (rng 0 9) s"

definition hyphen :: "char \<Rightarrow> bool" where
  "hyphen c = (c = CHR ''-'')"

definition colon :: "char \<Rightarrow> bool" where
  "colon c = (c = CHR '':'')"

text \<open>The expression is compiled ignoring case, so the letter of the format matches both cases.\<close>

definition letter_T :: "char \<Rightarrow> bool" where
  "letter_T c = (c = CHR ''T'' \<or> c = CHR ''t'')"

text \<open>The matches of \<^verbatim>\<open>%Y-%m-%d\<close>: year, month, day and the unconverted rest.\<close>

definition match_date :: "string \<Rightarrow> (nat \<times> nat \<times> nat \<times> string) list" where
  "match_date s =
     [(y, m, d, r5).
        (y, r1) \<leftarrow> directive_Y s, r2 \<leftarrow> lit hyphen r1,
        (m, r3) \<leftarrow> directive_m r2, r4 \<leftarrow> lit hyphen r3,
        (d, r5) \<leftarrow> directive_d r4]"

text \<open>The matches of \<^verbatim>\<open>T%H:%M:%S\<close>.\<close>

definition match_time :: "string \<Rightarrow> (nat \<times> nat \<times> nat \<times> string) list" where
  "match_time s =
     [(H, M, S, r6).
        r1 \<leftarrow> lit letter_T s,
        (H, r2) \<leftarrow> directive_H r1, r3 \<leftarrow> lit colon r2,
        (M, r4) \<leftarrow> directive_M r3, r5 \<leftarrow> lit colon r4,
        (S, r6) \<leftarrow> directive_S r5]"

text \<open>
  \<^verbatim>\<open>datetime.strptime(s, '%Y-%m-%d')\<close>: the first match counts; no match, unconverted
  data after it, and a date that does not exist are \<open>ValueError\<close>.
\<close>

definition strptime_date :: "string \<Rightarrow> error + datetime" where
  "strptime_date s =
     (case match_date s of
        [] \<Rightarrow> Inl ValueError
      | (y, m, d, rest) # other \<Rightarrow>
          if rest \<noteq> [] then Inl ValueError else mk_datetime y m d 0 0 0)"

text \<open>\<^verbatim>\<open>datetime.strptime(s, '%Y-%m-%dT%H:%M:%S')\<close>.\<close>

definition strptime_datetime :: "string \<Rightarrow> error + datetime" where
  "strptime_datetime s =
     (case [(y, m, d, H, M, S, r2). (y, m, d, r1) \<leftarrow> match_date s, (H, M, S, r2) \<leftarrow> match_time r1] of
        [] \<Rightarrow> Inl ValueError
      | (y, m, d, H, M, S, rest) # other \<Rightarrow>
          if rest \<noteq> [] then Inl ValueError else mk_datetime y m d H M S)"

text \<open>
  BSON stores a date as milliseconds: a \<^verbatim>\<open>datetime\<close> written to the store and read
  back has lost the microseconds below the millisecond.
\<close>

definition bson_datetime :: "datetime \<Rightarrow> datetime" where
  "bson_datetime t = t\<lparr>microsecond := microsecond t div 1000 * 1000\<rparr>"

text \<open>The order of dates in the store, for \<^verbatim>\<open>$gt\<close>.\<close>

definition datetime_key :: "datetime \<Rightarrow> nat \<times> nat \<times> nat \<times> nat \<times> nat \<times> nat \<times> nat" where
  "datetime_key t = (year t, month t, day t, hour t, minute t, second t, microsecond t)"

definition datetime_gt :: "datetime \<Rightarrow> datetime \<Rightarrow> bool" where
  "datetime_gt a b = (datetime_key b < datetime_key a)"

text \<open>BSON integers have at most 8 bytes; the encoder raises \<open>OverflowError\<close> beyond.\<close>

definition bson_int_ok :: "int \<Rightarrow> bool" where
  "bson_int_ok n = (- (2 ^ 63) \<le> n \<and> n < 2 ^ 63)"

section \<open>Data model\<close>

text \<open>
  The pydantic models of the request bodies. A field of type \<^verbatim>\<open>Optional[...]\<close> is
  \<open>None\<close> when the body omits it or gives \<^verbatim>\<open>null\<close>. \<open>UpdateItem\<close> is polymorphic in
  the type of the expiry date: a string in the request, a \<^verbatim>\<open>datetime\<close> once
  \<^verbatim>\<open>update_item\<close> has parsed it.
\<close>

record Item =
  name :: string
  email :: string
  item_name :: string
  quantity :: int
  expiry_date :: string

record 'e UpdateItem =
  upd_name :: "string option"
  upd_email :: "string option"
  upd_item_name :: "string option"
  upd_quantity :: "int option"
  upd_expiry_date :: "'e option"

record ClockInRecord =
  ci_email :: string
  ci_location :: string

record UpdateClockInRecord =
  upd_ci_email :: "string option"
  upd_ci_location :: "string option"

text \<open>
  The documents of the two collections, without their \<^verbatim>\<open>_id\<close>: a collection is a
  list of pairs of an \<^verbatim>\<open>_id\<close> and a document, in the order of the store.
\<close>

record item_doc =
  doc_name :: string
  doc_email :: string
  doc_item_name :: string
  doc_quantity :: int
  doc_expiry_date :: datetime
  doc_insert_date :: datetime

record clock_in_doc =
  cdoc_email :: string
  cdoc_location :: string
  cdoc_insert_datetime :: datetime

type_synonym 'a collection = "(ObjectId \<times> 'a) list"

text \<open>
  The database \<^verbatim>\<open>db\<close>. \<open>empty_set_rejected\<close> says whether the server refuses an
  update whose \<^verbatim>\<open>$set\<close> document is empty (MongoDB before 5.0 does, with a write
  error; later servers accept it and change nothing).
\<close>

record database =
  items :: "item_doc collection"
  clock_in_records :: "clock_in_doc collection"
  empty_set_rejected :: bool

text \<open>The mappings the handlers return.\<close>

record item_out =
  out_id :: string
  out_name :: string
  out_email :: string
  out_item_name :: string
  out_quantity :: int
  out_expiry_date :: datetime
  out_insert_date :: datetime

record clock_in_out =
  cout_id :: string
  cout_email :: string
  cout_location :: string
  cout_insert_datetime :: datetime

section \<open>The store\<close>

text \<open>\<^verbatim>\<open>find_one({"_id": oid})\<close>: the first document with that \<^verbatim>\<open>_id\<close>, or \<^verbatim>\<open>None\<close>.\<close>

definition find_one :: "ObjectId \<Rightarrow> 'a collection \<Rightarrow> (ObjectId \<times> 'a) option" where
  "find_one oid coll = List.find (\<lambda>d. fst d = oid) coll"

text \<open>
  \<^verbatim>\<open>insert_one(doc)\<close>: the driver gives the document the fresh \<^verbatim>\<open>_id\<close> \<open>new_id\<close>;
  the store refuses an \<^verbatim>\<open>_id\<close> it already holds.
\<close>

definition insert_one :: "ObjectId \<Rightarrow> 'a \<Rightarrow> 'a collection \<Rightarrow> error + 'a collection" where
  "insert_one new_id doc coll =
     (if new_id \<in> set (map fst coll) then Inl DuplicateKeyError
      else Inr (coll @ [(new_id, doc)]))"

text \<open>
  \<^verbatim>\<open>update_one({"_id": oid}, {"$set": ...})\<close>: \<open>f\<close> is the effect of the \<^verbatim>\<open>$set\<close>
  document on a document; the result is \<^verbatim>\<open>matched_count\<close> and the collection.
\<close>

fun update_one :: "ObjectId \<Rightarrow> ('a \<Rightarrow> 'a) \<Rightarrow> 'a collection \<Rightarrow> nat \<times> 'a collection" where
  "update_one oid f [] = (0, [])"
| "update_one oid f (d # ds) =
     (if fst d = oid then (1, (fst d, f (snd d)) # ds)
      else (case update_one oid f ds of (n, ds') \<Rightarrow> (n, d # ds')))"

text \<open>\<^verbatim>\<open>delete_one({"_id": oid})\<close>: the result is \<^verbatim>\<open>deleted_count\<close> and the collection.\<close>

fun delete_one :: "ObjectId \<Rightarrow> 'a collection \<Rightarrow> nat \<times> 'a collection" where
  "delete_one oid [] = (0, [])"
| "delete_one oid (d # ds) =
     (if fst d = oid then (1, ds)
      else (case delete_one oid ds of (n, ds') \<Rightarrow> (n, d # ds')))"

text \<open>\<^verbatim>\<open>cursor.to_list(n)\<close>.\<close>

definition to_list :: "nat \<Rightarrow> 'a list \<Rightarrow> 'a list" where
  "to_list n cursor = take n cursor"

text \<open>
  The \<^verbatim>\<open>$group\<close> stage with \<^verbatim>\<open>{"$sum": 1}\<close>: one accumulator per key, created at 1
  by the first document of the key and incremented by each later one.
\<close>

fun accumulate :: "'k \<Rightarrow> ('k \<times> int) list \<Rightarrow> ('k \<times> int) list" where
  "accumulate k [] = [(k, 1)]"
| "accumulate k (g # gs) =
     (if fst g = k then (fst g, snd g + 1) # gs else g # accumulate k gs)"

definition group_count :: "'k list \<Rightarrow> ('k \<times> int) list" where
  "group_count ks = foldl (\<lambda>gs k. accumulate k gs) [] ks"

text \<open>What the items collection does with a document it is given: encode, then insert.\<close>

definition bson_item :: "item_doc \<Rightarrow> error + item_doc" where
  "bson_item d =
     (if bson_int_ok (doc_quantity d)
      then Inr (d\<lparr>doc_expiry_date := bson_datetime (doc_expiry_date d),
                  doc_insert_date := bson_datetime (doc_insert_date d)\<rparr>)
      else Inl OverflowError)"

definition items_insert_one :: "database \<Rightarrow> ObjectId \<Rightarrow> item_doc \<Rightarrow> error + database" where
  "items_insert_one db new_id item_data =
     (case bson_item item_data of
        Inl e \<Rightarrow> Inl e
      | Inr doc \<Rightarrow>
          (case insert_one new_id doc (items db) of
             Inl e \<Rightarrow> Inl e
           | Inr coll \<Rightarrow> Inr (db\<lparr>items := coll\<rparr>)))"

definition bson_clock_in :: "clock_in_doc \<Rightarrow> clock_in_doc" where
  "bson_clock_in d = d\<lparr>cdoc_insert_datetime := bson_datetime (cdoc_insert_datetime d)\<rparr>"

definition clock_in_insert_one :: "database \<Rightarrow> ObjectId \<Rightarrow> clock_in_doc \<Rightarrow> error + database" where
  "clock_in_insert_one db new_id clock_in_data =
     (case insert_one new_id (bson_clock_in clock_in_data) (clock_in_records db) of
        Inl e \<Rightarrow> Inl e
      | Inr coll \<Rightarrow> Inr (db\<lparr>clock_in_records := coll\<rparr>))"

text \<open>The effect of \<^verbatim>\<open>{"$set": update_data}\<close> on a document: a key that is absent keeps its value.\<close>

definition set_item :: "datetime UpdateItem \<Rightarrow> item_doc \<Rightarrow> item_doc" where
  "set_item u d =
     \<lparr>doc_name = (case upd_name u of None \<Rightarrow> doc_name d | Some v \<Rightarrow> v),
      doc_email = (case upd_email u of None \<Rightarrow> doc_email d | Some v \<Rightarrow> v),
      doc_item_name = (case upd_item_name u of None \<Rightarrow> doc_item_name d | Some v \<Rightarrow> v),
      doc_quantity = (case upd_quantity u of None \<Rightarrow> doc_quantity d | Some v \<Rightarrow> v),
      doc_expiry_date =
        (case upd_expiry_date u of None \<Rightarrow> doc_expiry_date d | Some v \<Rightarrow> bson_datetime v),
      doc_insert_date = doc_insert_date d\<rparr>"

definition empty_update :: "'e UpdateItem \<Rightarrow> bool" where
  "empty_update u =
     (upd_name u = None \<and> upd_email u = None \<and> upd_item_name u = None
      \<and> upd_quantity u = None \<and> upd_expiry_date u = None)"

definition items_update_one ::
  "database \<Rightarrow> ObjectId \<Rightarrow> datetime UpdateItem \<Rightarrow> error + nat \<times> database" where
  "items_update_one db oid update_data =
     (if (case upd_quantity update_data of None \<Rightarrow> False | Some q \<Rightarrow> \<not> bson_int_ok q)
      then Inl OverflowError
      else if empty_update update_data \<and> empty_set_rejected db then Inl WriteError
      else (case update_one oid (set_item update_data) (items db) of
              (matched_count, coll) \<Rightarrow> Inr (matched_count, db\<lparr>items := coll\<rparr>)))"

definition set_clock_in :: "UpdateClockInRecord \<Rightarrow> clock_in_doc \<Rightarrow> clock_in_doc" where
  "set_clock_in u d =
     \<lparr>cdoc_email = (case upd_ci_email u of None \<Rightarrow> cdoc_email d | Some v \<Rightarrow> v),
      cdoc_location = (case upd_ci_location u of None \<Rightarrow> cdoc_location d | Some v \<Rightarrow> v),
      cdoc_insert_datetime = cdoc_insert_datetime d\<rparr>"

definition empty_clock_in_update :: "UpdateClockInRecord \<Rightarrow> bool" where
  "empty_clock_in_update u = (upd_ci_email u = None \<and> upd_ci_location u = None)"

definition clock_in_update_one ::
  "database \<Rightarrow> ObjectId \<Rightarrow> UpdateClockInRecord \<Rightarrow> error + nat \<times> database" where
  "clock_in_update_one db oid update_data =
     (if empty_clock_in_update update_data \<and> empty_set_rejected db then Inl WriteError
      else (case update_one oid (set_clock_in update_data) (clock_in_records db) of
              (matched_count, coll) \<Rightarrow> Inr (matched_count, db\<lparr>clock_in_records := coll\<rparr>)))"

text \<open>
  The query documents the filters build: a key that is absent (\<open>None\<close>) constrains
  nothing; \<open>q_email\<close> is an equality, the dates are \<^verbatim>\<open>$gt\<close>, the quantity is \<^verbatim>\<open>$gte\<close>.
\<close>

record item_query =
  q_email :: "string option"
  q_expiry_date :: "datetime option"
  q_insert_date :: "datetime option"
  q_quantity :: "int option"

definition item_matches :: "item_query \<Rightarrow> ObjectId \<times> item_doc \<Rightarrow> bool" where
  "item_matches q d =
     ((case q_email q of None \<Rightarrow> True | Some e \<Rightarrow> doc_email (snd d) = e)
      \<and> (case q_expiry_date q of None \<Rightarrow> True
          | Some t \<Rightarrow> datetime_gt (doc_expiry_date (snd d)) t)
      \<and> (case q_insert_date q of None \<Rightarrow> True
          | Some t \<Rightarrow> datetime_gt (doc_insert_date (snd d)) t)
      \<and> (case q_quantity q of None \<Rightarrow> True | Some n \<Rightarrow> n \<le> doc_quantity (snd d)))"

definition items_find :: "database \<Rightarrow> item_query \<Rightarrow> error + (ObjectId \<times> item_doc) list" where
  "items_find db q =
     (if (case q_quantity q of None \<Rightarrow> False | Some n \<Rightarrow> \<not> bson_int_ok n)
      then Inl OverflowError
      else Inr (filter (item_matches q) (items db)))"

record clock_in_query =
  cq_email :: "string option"
  cq_location :: "string option"
  cq_insert_datetime :: "datetime option"

definition clock_in_matches :: "clock_in_query \<Rightarrow> ObjectId \<times> clock_in_doc \<Rightarrow> bool" where
  "clock_in_matches q d =
     ((case cq_email q of None \<Rightarrow> True | Some e \<Rightarrow> cdoc_email (snd d) = e)
      \<and> (case cq_location q of None \<Rightarrow> True | Some l \<Rightarrow> cdoc_location (snd d) = l)
      \<and> (case cq_insert_datetime q of None \<Rightarrow> True
          | Some t \<Rightarrow> datetime_gt (cdoc_insert_datetime (snd d)) t))"

definition clock_in_find ::
  "database \<Rightarrow> clock_in_query \<Rightarrow> (ObjectId \<times> clock_in_doc) list" where
  "clock_in_find db q = filter (clock_in_matches q) (clock_in_records db)"

section \<open>Validation of request bodies\<close>

text \<open>
  The framework validates the JSON object of a \<^verbatim>\<open>POST /items\<close> request against the
  model \<open>Item\<close> before it calls the handler: each of the five fields is required and
  must validate as its declared type. Which JSON values validate as \<^verbatim>\<open>str\<close> and as
  \<^verbatim>\<open>int\<close> is the validation library's matter: the two validators are parameters.
\<close>

definition validate_Item ::
  "('j \<Rightarrow> string option) \<Rightarrow> ('j \<Rightarrow> int option) \<Rightarrow> (string \<rightharpoonup> 'j) \<Rightarrow> error + Item" where
  "validate_Item str_validator int_validator body =
     (case (Option.bind (body ''name'') str_validator,
            Option.bind (body ''email'') str_validator,
            Option.bind (body ''item_name'') str_validator,
            Option.bind (body ''quantity'') int_validator,
            Option.bind (body ''expiry_date'') str_validator) of
        (Some n, Some e, Some i, Some q, Some x) \<Rightarrow>
          Inr \<lparr>name = n, email = e, item_name = i, quantity = q, expiry_date = x\<rparr>
      | _ \<Rightarrow> Inl RequestValidationError)"

section \<open>Items\<close>

definition item_serializer :: "ObjectId \<times> item_doc \<Rightarrow> item_out" where
  "item_serializer item =
     \<lparr>out_id = str_oid (fst item),
      out_name = doc_name (snd item),
      out_email = doc_email (snd item),
      out_item_name = doc_item_name (snd item),
      out_quantity = doc_quantity (snd item),
      out_expiry_date = doc_expiry_date (snd item),
      out_insert_date = doc_insert_date (snd item)\<rparr>"

text \<open>
  \<^verbatim>\<open>create_item\<close>. \<open>utcnow\<close> is the clock and \<open>new_id\<close> the identifier the driver
  generates for the document. Every handler that writes returns its outcome and the
  database it leaves.
\<close>

definition create_item ::
  "database \<Rightarrow> datetime \<Rightarrow> ObjectId \<Rightarrow> Item \<Rightarrow> (error + item_out) \<times> database" where
  "create_item db utcnow new_id item =
     (case strptime_date (expiry_date item) of
        Inl e \<Rightarrow> (Inl e, db)
      | Inr expiry \<Rightarrow>
          (case items_insert_one db new_id
                  \<lparr>doc_name = name item, doc_email = email item,
                   doc_item_name = item_name item, doc_quantity = quantity item,
                   doc_expiry_date = expiry, doc_insert_date = utcnow\<rparr> of
             Inl e \<Rightarrow> (Inl e, db)
           | Inr db' \<Rightarrow>
               (case find_one new_id (items db') of
                  None \<Rightarrow> (Inl TypeError, db')
                | Some new_item \<Rightarrow> (Inr (item_serializer new_item), db'))))"

text \<open>The route \<^verbatim>\<open>POST /items\<close>: validation of the body, then the handler.\<close>

definition post_items ::
  "('j \<Rightarrow> string option) \<Rightarrow> ('j \<Rightarrow> int option) \<Rightarrow> database \<Rightarrow> datetime \<Rightarrow> ObjectId
     \<Rightarrow> (string \<rightharpoonup> 'j) \<Rightarrow> (error + item_out) \<times> database" where
  "post_items str_validator int_validator db utcnow new_id body =
     (case validate_Item str_validator int_validator body of
        Inl e \<Rightarrow> (Inl e, db)
      | Inr item \<Rightarrow> create_item db utcnow new_id item)"

text \<open>
  \<^verbatim>\<open>if v: query[k] = ...\<close> tests the truth value of the parameter: \<^verbatim>\<open>None\<close>, the
  empty string and 0 are false.
\<close>

fun if_str :: "string option \<Rightarrow> string option" where
  "if_str None = None"
| "if_str (Some s) = (if s = [] then None else Some s)"

fun if_int :: "int option \<Rightarrow> int option" where
  "if_int None = None"
| "if_int (Some n) = (if n = 0 then None else Some n)"

fun if_date :: "(string \<Rightarrow> error + datetime) \<Rightarrow> string option \<Rightarrow> error + datetime option" where
  "if_date strptime None = Inr None"
| "if_date strptime (Some s) =
     (if s = [] then Inr None
      else (case strptime s of Inl e \<Rightarrow> Inl e | Inr t \<Rightarrow> Inr (Some t)))"

definition filter_items_query ::
  "string option \<Rightarrow> string option \<Rightarrow> string option \<Rightarrow> int option \<Rightarrow> error + item_query" where
  "filter_items_query email_p expiry_date_after insert_date_after quantity_gte =
     (case if_date strptime_date expiry_date_after of
        Inl e \<Rightarrow> Inl e
      | Inr expiry \<Rightarrow>
          (case if_date strptime_date insert_date_after of
             Inl e \<Rightarrow> Inl e
           | Inr ins \<Rightarrow>
               Inr \<lparr>q_email = if_str email_p, q_expiry_date = expiry, q_insert_date = ins,
                    q_quantity = if_int quantity_gte\<rparr>))"

definition filter_items ::
  "database \<Rightarrow> string option \<Rightarrow> string option \<Rightarrow> string option \<Rightarrow> int option
     \<Rightarrow> error + item_out list" where
  "filter_items db email_p expiry_date_after insert_date_after quantity_gte =
     (case filter_items_query email_p expiry_date_after insert_date_after quantity_gte of
        Inl e \<Rightarrow> Inl e
      | Inr query \<Rightarrow>
          (case items_find db query of
             Inl e \<Rightarrow> Inl e
           | Inr cursor \<Rightarrow> Inr (map item_serializer (to_list 100 cursor))))"

text \<open>\<^verbatim>\<open>aggregate_items\<close>: a row \<^verbatim>\<open>{"_id": e, "count": n}\<close> is the pair \<open>(e, n)\<close>.\<close>

definition aggregate_items :: "database \<Rightarrow> (string \<times> int) list" where
  "aggregate_items db = group_count (map (\<lambda>d. doc_email (snd d)) (items db))"

definition get_item :: "database \<Rightarrow> string \<Rightarrow> error + item_out" where
  "get_item db id_str =
     (case ObjectId id_str of
        Inl e \<Rightarrow> Inl e
      | Inr oid \<Rightarrow>
          (case find_one oid (items db) of
             Some item \<Rightarrow> Inr (item_serializer item)
           | None \<Rightarrow> Inl (HTTPException 204 ''Item not found'')))"

text \<open>Lines 133 to 135 of \<^verbatim>\<open>update_item\<close>: the fields that are not \<^verbatim>\<open>None\<close>, the expiry date parsed.\<close>

definition update_fields :: "string UpdateItem \<Rightarrow> error + datetime UpdateItem" where
  "update_fields u =
     (case upd_expiry_date u of
        None \<Rightarrow>
          Inr \<lparr>upd_name = upd_name u, upd_email = upd_email u,
               upd_item_name = upd_item_name u, upd_quantity = upd_quantity u,
               upd_expiry_date = None\<rparr>
      | Some s \<Rightarrow>
          (case strptime_date s of
             Inl e \<Rightarrow> Inl e
           | Inr t \<Rightarrow>
               Inr \<lparr>upd_name = upd_name u, upd_email = upd_email u,
                    upd_item_name = upd_item_name u, upd_quantity = upd_quantity u,
                    upd_expiry_date = Some t\<rparr>))"

definition update_item ::
  "database \<Rightarrow> string \<Rightarrow> string UpdateItem \<Rightarrow> (error + item_out) \<times> database" where
  "update_item db id_str update_data =
     (case update_fields update_data of
        Inl e \<Rightarrow> (Inl e, db)
      | Inr set_doc \<Rightarrow>
          (case ObjectId id_str of
             Inl e \<Rightarrow> (Inl e, db)
           | Inr oid \<Rightarrow>
               (case items_update_one db oid set_doc of
                  Inl e \<Rightarrow> (Inl e, db)
                | Inr (matched_count, db') \<Rightarrow>
                    if matched_count \<noteq> 0 then
                      (case find_one oid (items db') of
                         None \<Rightarrow> (Inl TypeError, db')
                       | Some updated_item \<Rightarrow> (Inr (item_serializer updated_item), db'))
                    else (Inl (HTTPException 204 ''Item not found''), db'))))"

definition delete_item :: "database \<Rightarrow> string \<Rightarrow> (error + string) \<times> database" where
  "delete_item db id_str =
     (case ObjectId id_str of
        Inl e \<Rightarrow> (Inl e, db)
      | Inr oid \<Rightarrow>
          (case delete_one oid (items db) of
             (deleted_count, coll) \<Rightarrow>
               if deleted_count \<noteq> 0 then (Inr ''Item deleted'', db\<lparr>items := coll\<rparr>)
               else (Inl (HTTPException 204 ''Item not found''), db\<lparr>items := coll\<rparr>)))"

section \<open>Clock-in records\<close>

definition clock_in_serializer :: "ObjectId \<times> clock_in_doc \<Rightarrow> clock_in_out" where
  "clock_in_serializer record =
     \<lparr>cout_id = str_oid (fst record),
      cout_email = cdoc_email (snd record),
      cout_location = cdoc_location (snd record),
      cout_insert_datetime = cdoc_insert_datetime (snd record)\<rparr>"

definition create_clock_in ::
  "database \<Rightarrow> datetime \<Rightarrow> ObjectId \<Rightarrow> ClockInRecord \<Rightarrow> (error + clock_in_out) \<times> database" where
  "create_clock_in db utcnow new_id clock_in =
     (case clock_in_insert_one db new_id
             \<lparr>cdoc_email = ci_email clock_in, cdoc_location = ci_location clock_in,
              cdoc_insert_datetime = utcnow\<rparr> of
        Inl e \<Rightarrow> (Inl e, db)
      | Inr db' \<Rightarrow>
          (case find_one new_id (clock_in_records db') of
             None \<Rightarrow> (Inl TypeError, db')
           | Some new_record \<Rightarrow> (Inr (clock_in_serializer new_record), db')))"

definition filter_clock_in_query ::
  "string option \<Rightarrow> string option \<Rightarrow> string option \<Rightarrow> error + clock_in_query" where
  "filter_clock_in_query email_p location insert_datetime_after =
     (case if_date strptime_datetime insert_datetime_after of
        Inl e \<Rightarrow> Inl e
      | Inr ins \<Rightarrow>
          Inr \<lparr>cq_email = if_str email_p, cq_location = if_str location,
               cq_insert_datetime = ins\<rparr>)"

definition filter_clock_in ::
  "database \<Rightarrow> string option \<Rightarrow> string option \<Rightarrow> string option \<Rightarrow> error + clock_in_out list" where
  "filter_clock_in db email_p location insert_datetime_after =
     (case filter_clock_in_query email_p location insert_datetime_after of
        Inl e \<Rightarrow> Inl e
      | Inr query \<Rightarrow> Inr (map clock_in_serializer (to_list 100 (clock_in_find db query))))"

definition get_clock_in :: "database \<Rightarrow> string \<Rightarrow> error + clock_in_out" where
  "get_clock_in db id_str =
     (case ObjectId id_str of
        Inl e \<Rightarrow> Inl e
      | Inr oid \<Rightarrow>
          (case find_one oid (clock_in_records db) of
             Some clock_in \<Rightarrow> Inr (clock_in_serializer clock_in)
           | None \<Rightarrow> Inl (HTTPException 204 ''Clock-in record not found'')))"

definition update_clock_in ::
  "database \<Rightarrow> string \<Rightarrow> UpdateClockInRecord \<Rightarrow> (error + clock_in_out) \<times> database" where
  "update_clock_in db id_str update_data =
     (case ObjectId id_str of
        Inl e \<Rightarrow> (Inl e, db)
      | Inr oid \<Rightarrow>
          (case clock_in_update_one db oid update_data of
             Inl e \<Rightarrow> (Inl e, db)
           | Inr (matched_count, db') \<Rightarrow>
               if matched_count \<noteq> 0 then
                 (case find_one oid (clock_in_records db') of
                    None \<Rightarrow> (Inl TypeError, db')
                  | Some updated_record \<Rightarrow> (Inr (clock_in_serializer updated_record), db'))
               else (Inl (HTTPException 204 ''Clock-in record not found''), db')))"

definition delete_clock_in :: "database \<Rightarrow> string \<Rightarrow> (error + string) \<times> database" where
  "delete_clock_in db id_str =
     (case ObjectId id_str of
        Inl e \<Rightarrow> (Inl e, db)
      | Inr oid \<Rightarrow>
          (case delete_one oid (clock_in_records db) of
             (deleted_count, coll) \<Rightarrow>
               if deleted_count \<noteq> 0
               then (Inr ''Clock-in record deleted'', db\<lparr>clock_in_records := coll\<rparr>)
               else (Inl (HTTPException 204 ''Clock-in record not found''),
                     db\<lparr>clock_in_records := coll\<rparr>)))"

section \<open>Vocabulary of the properties\<close>

text \<open>\<^verbatim>\<open>ObjectId.is_valid\<close>: \<^verbatim>\<open>ObjectId\<close> accepts the string.\<close>

definition is_valid :: "string \<Rightarrow> bool" where
  "is_valid s = (case ObjectId s of Inl e \<Rightarrow> False | Inr oid \<Rightarrow> True)"

text \<open>The string is the identifier of a document of the collection.\<close>

definition matches_record :: "'a collection \<Rightarrow> string \<Rightarrow> bool" where
  "matches_record coll s =
     (case ObjectId s of Inl e \<Rightarrow> False | Inr oid \<Rightarrow> oid \<in> set (map fst coll))"

text \<open>No two documents of a collection share an \<^verbatim>\<open>_id\<close>: the store's unique index.\<close>

definition unique_ids :: "database \<Rightarrow> bool" where
  "unique_ids db = (distinct (map fst (items db)) \<and> distinct (map fst (clock_in_records db)))"

text \<open>
  The string is 24 hexadecimal digits: the form in which the handlers return an
  identifier, and the only one in which \<^verbatim>\<open>ObjectId\<close> yields the 12 bytes of an identifier
  of the store. The properties about identifiers are stated for these strings and for
  the strings that \<^verbatim>\<open>ObjectId\<close> refuses; they say nothing of a string with white space
  that \<^verbatim>\<open>ObjectId\<close> turns into fewer than 12 bytes, which the handlers pass to the driver
  as it is.
\<close>

definition hex24 :: "string \<Rightarrow> bool" where
  "hex24 s = (length s = 24 \<and> list_all (\<lambda>c. hex_value c \<noteq> None) s)"

text \<open>
  The calendar date that a string names: the string is cut at its hyphens, and the three
  pieces are read as decimal numbers, year, month and day. A blank counts as a zero, as
  it does before the single digit of a day.
\<close>

definition decimal :: "string \<Rightarrow> nat" where
  "decimal cs = foldl (\<lambda>n c. 10 * n + digit c) 0 cs"

fun split_on :: "char \<Rightarrow> string \<Rightarrow> string list" where
  "split_on c [] = [[]]"
| "split_on c (x # xs) =
     (if x = c then [] # split_on c xs
      else (case split_on c xs of [] \<Rightarrow> [[x]] | f # fs \<Rightarrow> (x # f) # fs))"

definition named_date :: "string \<Rightarrow> (nat \<times> nat \<times> nat) option" where
  "named_date s =
     (case split_on CHR ''-'' s of
        [ys, ms, ds] \<Rightarrow> Some (decimal ys, decimal ms, decimal ds)
      | _ \<Rightarrow> None)"

text \<open>
  The constraints that a request of the item filter states: a parameter that is absent
  states none, and neither does one whose value is false (the empty string, the
  threshold 0); an email states equality, a date states ``later than'', the threshold
  states ``at least''. The item filter is compared with it below.
\<close>

definition meets_filter ::
  "string option \<Rightarrow> string option \<Rightarrow> string option \<Rightarrow> int option
     \<Rightarrow> ObjectId \<times> item_doc \<Rightarrow> bool" where
  "meets_filter email_p expiry_date_after insert_date_after quantity_gte d =
     ((case email_p of None \<Rightarrow> True | Some s \<Rightarrow> s = [] \<or> doc_email (snd d) = s)
    \<and> (case expiry_date_after of
          None \<Rightarrow> True
        | Some s \<Rightarrow>
            s = [] \<or> (case strptime_date s of
                        Inl e \<Rightarrow> False
                      | Inr t \<Rightarrow> datetime_gt (doc_expiry_date (snd d)) t))
    \<and> (case insert_date_after of
          None \<Rightarrow> True
        | Some s \<Rightarrow>
            s = [] \<or> (case strptime_date s of
                        Inl e \<Rightarrow> False
                      | Inr t \<Rightarrow> datetime_gt (doc_insert_date (snd d)) t))
    \<and> (case quantity_gte of None \<Rightarrow> True | Some n \<Rightarrow> n = 0 \<or> n \<le> doc_quantity (snd d)))"

section \<open>Identifiers and the store: basic facts\<close>

lemma hex_value_hex_char: "n < 16 \<Longrightarrow> hex_value (hex_char n) = Some n"
  by (auto simp: hex_value_def hex_char_def Let_def)

lemma hex_char_not_space: "n < 16 \<Longrightarrow> \<not> isspace (hex_char n)"
  by (auto simp: isspace_def hex_char_def Let_def)

lemma fromhex_hexlify: "fromhex (hexlify bs) = Some bs"
proof (induction bs)
  case Nil
  show ?case by simp
next
  case (Cons b bs)
  have lt: "unat b < 256" using unsigned_less [of b] by simp
  then have hi: "unat b div 16 < 16" by simp
  have lo: "unat b mod 16 < 16" by simp
  have "word_of_nat (16 * (unat b div 16) + unat b mod 16) = b"
    by simp
  with Cons hi lo show ?case
    by (simp add: hex_value_hex_char hex_char_not_space)
qed

lemma length_hexlify: "length (hexlify bs) = 2 * length bs"
  by (induction bs) simp_all

lemma ObjectId_str_oid: "length oid = 12 \<Longrightarrow> ObjectId (str_oid oid) = Inr oid"
  by (simp add: ObjectId_def str_oid_def length_hexlify fromhex_hexlify)

lemma ObjectId_error: "ObjectId s = Inl e \<Longrightarrow> e = InvalidId"
  by (auto simp: ObjectId_def split: if_splits option.splits)

lemma find_one_None: "find_one oid coll = None \<longleftrightarrow> oid \<notin> fst ` set coll"
  by (force simp: find_one_def find_None_iff)

lemma find_one_Some_fst: "find_one oid coll = Some d \<Longrightarrow> fst d = oid \<and> d \<in> set coll"
  by (auto simp: find_one_def find_Some_iff)

lemma find_one_append_new:
  "oid \<notin> fst ` set coll \<Longrightarrow> find_one oid (coll @ [(oid, d)]) = Some (oid, d)"
  by (induction coll) (auto simp: find_one_def)

lemma update_one_count:
  "fst (update_one oid f coll) = (if oid \<in> fst ` set coll then 1 else 0)"
  by (induction coll) (force split: prod.splits)+

lemma update_one_absent: "oid \<notin> fst ` set coll \<Longrightarrow> update_one oid f coll = (0, coll)"
  by (induction coll) (auto split: prod.splits)

lemma find_one_update_one:
  "find_one oid (snd (update_one oid f coll)) = map_option (\<lambda>d. (fst d, f (snd d))) (find_one oid coll)"
  by (induction coll) (auto simp: find_one_def split: prod.splits)

lemma find_one_update_one_other:
  "oid' \<noteq> oid \<Longrightarrow> find_one oid' (snd (update_one oid f coll)) = find_one oid' coll"
  by (induction coll) (auto simp: find_one_def split: prod.splits)

lemma update_one_ids: "map fst (snd (update_one oid f coll)) = map fst coll"
  by (induction coll) (auto split: prod.splits)

lemma delete_one_absent: "oid \<notin> fst ` set coll \<Longrightarrow> delete_one oid coll = (0, coll)"
  by (induction coll) (auto split: prod.splits)

lemma delete_one_present:
  "oid \<in> fst ` set coll \<Longrightarrow> distinct (map fst coll) \<Longrightarrow>
     delete_one oid coll = (1, filter (\<lambda>d. fst d \<noteq> oid) coll)"
proof (induction coll)
  case Nil
  then show ?case by simp
next
  case (Cons d ds)
  show ?case
  proof (cases "fst d = oid")
    case True
    with Cons.prems have "oid \<notin> fst ` set ds" by auto
    then have "filter (\<lambda>d. fst d \<noteq> oid) ds = ds"
      by (auto simp: filter_id_conv)
    with True show ?thesis by simp
  next
    case False
    with Cons show ?thesis by auto
  qed
qed

section \<open>Identifiers that match no record\<close>

lemma strptime_date_error: "strptime_date s = Inl e \<Longrightarrow> e = ValueError"
  by (auto simp: strptime_date_def mk_datetime_def split: list.splits if_splits)

lemma strptime_datetime_error: "strptime_datetime s = Inl e \<Longrightarrow> e = ValueError"
  by (auto simp: strptime_datetime_def mk_datetime_def split: list.splits if_splits)

lemma update_fields_error: "update_fields u = Inl e \<Longrightarrow> e = ValueError"
  by (auto simp: update_fields_def split: option.splits sum.splits dest: strptime_date_error)

lemma update_fields_same:
  assumes "update_fields u = Inr set_doc"
  shows "upd_name set_doc = upd_name u" and "upd_email set_doc = upd_email u"
    and "upd_item_name set_doc = upd_item_name u" and "upd_quantity set_doc = upd_quantity u"
    and "upd_expiry_date set_doc = None \<longleftrightarrow> upd_expiry_date u = None"
  using assms by (auto simp: update_fields_def split: option.splits sum.splits)

lemma update_fields_empty: "update_fields u = Inr set_doc \<Longrightarrow> empty_update set_doc = empty_update u"
  by (simp add: empty_update_def update_fields_same)

lemma items_update_one_absent:
  assumes "oid \<notin> fst ` set (items db)"
    and "\<forall>q. upd_quantity set_doc = Some q \<longrightarrow> bson_int_ok q"
    and "empty_update set_doc \<longrightarrow> \<not> empty_set_rejected db"
  shows "items_update_one db oid set_doc = Inr (0, db)"
proof -
  have "(case upd_quantity set_doc of None \<Rightarrow> False | Some q \<Rightarrow> \<not> bson_int_ok q) = False"
    using assms(2) by (simp split: option.splits)
  moreover have "update_one oid (set_item set_doc) (items db) = (0, items db)"
    using assms(1) by (rule update_one_absent)
  ultimately show ?thesis
    using assms(3) by (simp add: items_update_one_def)
qed

lemma clock_in_update_one_absent:
  assumes "oid \<notin> fst ` set (clock_in_records db)"
    and "empty_clock_in_update u \<longrightarrow> \<not> empty_set_rejected db"
  shows "clock_in_update_one db oid u = Inr (0, db)"
proof -
  have "update_one oid (set_clock_in u) (clock_in_records db) = (0, clock_in_records db)"
    using assms(1) by (rule update_one_absent)
  then show ?thesis
    using assms(2) by (simp add: clock_in_update_one_def)
qed

lemma get_item_unmatched:
  "\<not> matches_record (items db) s \<Longrightarrow>
     get_item db s = Inl (if is_valid s then HTTPException 204 ''Item not found'' else InvalidId)"
  by (auto simp: matches_record_def is_valid_def get_item_def find_one_None [symmetric]
      split: sum.splits option.splits dest: ObjectId_error)

lemma delete_item_unmatched:
  "\<not> matches_record (items db) s \<Longrightarrow>
     delete_item db s =
       (Inl (if is_valid s then HTTPException 204 ''Item not found'' else InvalidId), db)"
  by (auto simp: matches_record_def is_valid_def delete_item_def delete_one_absent
      split: sum.splits dest: ObjectId_error)

lemma update_item_unmatched:
  assumes "\<not> matches_record (items db) s" and "update_fields u = Inr set_doc"
    and "\<forall>q. upd_quantity u = Some q \<longrightarrow> bson_int_ok q"
    and "empty_update u \<longrightarrow> \<not> empty_set_rejected db"
  shows "update_item db s u =
       (Inl (if is_valid s then HTTPException 204 ''Item not found'' else InvalidId), db)"
proof (cases "ObjectId s")
  case (Inl e)
  then have "e = InvalidId" by (rule ObjectId_error)
  with Inl assms(2) show ?thesis
    by (simp add: update_item_def is_valid_def)
next
  case (Inr oid)
  with assms(1) have "oid \<notin> fst ` set (items db)"
    by (simp add: matches_record_def)
  then have "items_update_one db oid set_doc = Inr (0, db)"
    using assms(2-4) by (intro items_update_one_absent) (simp_all add: update_fields_same update_fields_empty)
  with Inr assms(2) show ?thesis
    by (simp add: update_item_def is_valid_def)
qed

lemma get_clock_in_unmatched:
  "\<not> matches_record (clock_in_records db) s \<Longrightarrow>
     get_clock_in db s =
       Inl (if is_valid s then HTTPException 204 ''Clock-in record not found'' else InvalidId)"
  by (auto simp: matches_record_def is_valid_def get_clock_in_def find_one_None [symmetric]
      split: sum.splits option.splits dest: ObjectId_error)

lemma delete_clock_in_unmatched:
  "\<not> matches_record (clock_in_records db) s \<Longrightarrow>
     delete_clock_in db s =
       (Inl (if is_valid s then HTTPException 204 ''Clock-in record not found'' else InvalidId), db)"
  by (auto simp: matches_record_def is_valid_def delete_clock_in_def delete_one_absent
      split: sum.splits dest: ObjectId_error)

lemma update_clock_in_unmatched:
  assumes "\<not> matches_record (clock_in_records db) s"
    and "empty_clock_in_update u \<longrightarrow> \<not> empty_set_rejected db"
  shows "update_clock_in db s u =
       (Inl (if is_valid s then HTTPException 204 ''Clock-in record not found'' else InvalidId), db)"
proof (cases "ObjectId s")
  case (Inl e)
  then have "e = InvalidId" by (rule ObjectId_error)
  with Inl show ?thesis
    by (simp add: update_clock_in_def is_valid_def)
next
  case (Inr oid)
  with assms(1) have "oid \<notin> fst ` set (clock_in_records db)"
    by (simp add: matches_record_def)
  then have "clock_in_update_one db oid u = Inr (0, db)"
    using assms(2) by (rule clock_in_update_one_absent)
  with Inr show ?thesis
    by (simp add: update_clock_in_def is_valid_def)
qed

lemma ObjectId_example:
  "ObjectId ''0123456789abcdefABCDEF01'' = Inr [1, 35, 69, 103, 137, 171, 205, 239, 171, 205, 239, 1]"
  by code_simp

lemma ObjectId_malformed: "ObjectId ''abc'' = Inl InvalidId"
  by (simp add: ObjectId_def)

section \<open>C2: expiry dates that do not parse, bodies that do not validate\<close>

lemma validate_Item_error:
  "validate_Item sv iv body = Inl e \<Longrightarrow> e = RequestValidationError"
  by (auto simp: validate_Item_def split: option.splits)

lemma validate_Item_missing:
  assumes "Option.bind (body ''name'') sv = None \<or> Option.bind (body ''email'') sv = None
    \<or> Option.bind (body ''item_name'') sv = None \<or> Option.bind (body ''quantity'') iv = None
    \<or> Option.bind (body ''expiry_date'') sv = None"
  shows "validate_Item sv iv body = Inl RequestValidationError"
  using assms by (auto simp: validate_Item_def split: option.splits)

lemma strptime_date_malformed: "strptime_date ''01/02/2025'' = Inl ValueError"
  by (simp add: strptime_date_def match_date_def rng_def hyphen_def)

text \<open>
  C2, as stated, fails: a string that \<^verbatim>\<open>strptime\<close> rejects raises \<open>ValueError\<close>, which
  neither handler catches, so the request ends with status 500, which is no client
  error.
\<close>

theorem bad_expiry_date_counterexample:
  "fst (create_item \<lparr>items = [], clock_in_records = [], empty_set_rejected = True\<rparr>
         \<lparr>year = 2025, month = 6, day = 1, hour = 12, minute = 0, second = 0,
          microsecond = 0\<rparr>
         [1, 2, 3, 4, 5, 6, 7, 8, 9, 10, 11, 12]
         \<lparr>name = ''n'', email = ''a@x.com'', item_name = ''i'', quantity = 3,
          expiry_date = ''01/02/2025''\<rparr>) = Inl ValueError
   \<and> status_code ValueError = 500 \<and> \<not> client_error (status_code ValueError)"
  by (simp add: create_item_def strptime_date_malformed client_error_def)

text \<open>
  C2, amended. A create or an update whose expiry date \<^verbatim>\<open>strptime\<close> rejects fails with
  the unhandled \<open>ValueError\<close> (status 500) and leaves the database as it is; a
  \<^verbatim>\<open>POST /items\<close> whose body misses one of the five fields, or has one that does not
  validate as its type, fails with the validation error of status 422, a client error,
  and leaves the database as it is.
\<close>

theorem bad_input_changes_nothing:
  "(strptime_date (expiry_date item) = Inl e \<longrightarrow>
       create_item db utcnow new_id item = (Inl ValueError, db))
   \<and> (upd_expiry_date u = Some s \<and> strptime_date s = Inl e \<longrightarrow>
       update_item db id_str u = (Inl ValueError, db))
   \<and> (Option.bind (body ''name'') sv = None \<or> Option.bind (body ''email'') sv = None
        \<or> Option.bind (body ''item_name'') sv = None
        \<or> Option.bind (body ''quantity'') iv = None
        \<or> Option.bind (body ''expiry_date'') sv = None \<longrightarrow>
       post_items sv iv db utcnow new_id body = (Inl RequestValidationError, db))
   \<and> status_code ValueError = 500
   \<and> client_error (status_code RequestValidationError)"
proof -
  have "create_item db utcnow new_id item = (Inl ValueError, db)"
    if "strptime_date (expiry_date item) = Inl e"
    using that strptime_date_error [OF that] by (simp add: create_item_def)
  moreover have "update_item db id_str u = (Inl ValueError, db)"
    if "upd_expiry_date u = Some s" and "strptime_date s = Inl e"
    using that strptime_date_error [OF that(2)]
    by (simp add: update_item_def update_fields_def)
  moreover have "post_items sv iv db utcnow new_id body = (Inl RequestValidationError, db)"
    if "Option.bind (body ''name'') sv = None \<or> Option.bind (body ''email'') sv = None
        \<or> Option.bind (body ''item_name'') sv = None
        \<or> Option.bind (body ''quantity'') iv = None
        \<or> Option.bind (body ''expiry_date'') sv = None"
    using validate_Item_missing [OF that] by (simp add: post_items_def)
  ultimately show ?thesis
    by (simp add: client_error_def)
qed

theorem bad_input_changes_nothing_witness:
  "create_item \<lparr>items = [], clock_in_records = [], empty_set_rejected = True\<rparr>
      \<lparr>year = 2025, month = 6, day = 1, hour = 12, minute = 0, second = 0, microsecond = 0\<rparr>
      [1, 2, 3, 4, 5, 6, 7, 8, 9, 10, 11, 12]
      \<lparr>name = ''n'', email = ''a@x.com'', item_name = ''i'', quantity = 3,
       expiry_date = ''01/02/2025''\<rparr>
     = (Inl ValueError, \<lparr>items = [], clock_in_records = [], empty_set_rejected = True\<rparr>)
   \<and> update_item \<lparr>items = [], clock_in_records = [], empty_set_rejected = True\<rparr>
      ''0123456789abcdefABCDEF01''
      \<lparr>upd_name = None, upd_email = None, upd_item_name = None, upd_quantity = None,
       upd_expiry_date = Some ''01/02/2025''\<rparr>
     = (Inl ValueError, \<lparr>items = [], clock_in_records = [], empty_set_rejected = True\<rparr>)
   \<and> post_items Some (\<lambda>j. None) \<lparr>items = [], clock_in_records = [], empty_set_rejected = True\<rparr>
      \<lparr>year = 2025, month = 6, day = 1, hour = 12, minute = 0, second = 0, microsecond = 0\<rparr>
      [1, 2, 3, 4, 5, 6, 7, 8, 9, 10, 11, 12]
      [''name'' \<mapsto> ''n'', ''email'' \<mapsto> ''a@x.com'']
     = (Inl RequestValidationError,
        \<lparr>items = [], clock_in_records = [], empty_set_rejected = True\<rparr>)"
  using bad_input_changes_nothing [of
      "\<lparr>name = ''n'', email = ''a@x.com'', item_name = ''i'', quantity = 3,
       expiry_date = ''01/02/2025''\<rparr>"
      ValueError
      "\<lparr>items = [], clock_in_records = [], empty_set_rejected = True\<rparr>"
      "\<lparr>year = 2025, month = 6, day = 1, hour = 12, minute = 0, second = 0, microsecond = 0\<rparr>"
      "[1, 2, 3, 4, 5, 6, 7, 8, 9, 10, 11, 12]"
      "\<lparr>upd_name = None, upd_email = None, upd_item_name = None, upd_quantity = None,
       upd_expiry_date = Some ''01/02/2025''\<rparr>"
      "''01/02/2025''"
      "''0123456789abcdefABCDEF01''"
      "[''name'' \<mapsto> ''n'', ''email'' \<mapsto> ''a@x.com'']"
      Some "\<lambda>j. None"]
  by (simp add: strptime_date_malformed)

section \<open>C9: parameters are tested for truth, not for presence\<close>

lemma filter_items_query_falsy:
  "filter_items_query e x i (Some 0) = filter_items_query e x i None"
  "filter_items_query (Some []) x i q = filter_items_query None x i q"
  "filter_items_query e (Some []) i q = filter_items_query e None i q"
  "filter_items_query e x (Some []) q = filter_items_query e x None q"
  by (simp_all add: filter_items_query_def cong: sum.case_cong)

lemma filter_clock_in_query_falsy:
  "filter_clock_in_query (Some []) l t = filter_clock_in_query None l t"
  "filter_clock_in_query e (Some []) t = filter_clock_in_query e None t"
  "filter_clock_in_query e l (Some []) = filter_clock_in_query e l None"
  by (simp_all add: filter_clock_in_query_def cong: sum.case_cong)

text \<open>
  C9. A \<^verbatim>\<open>quantity_gte\<close> of 0 and an empty string for \<^verbatim>\<open>email\<close>, \<^verbatim>\<open>location\<close> or a
  date parameter are false, so the filters build the query they build when the parameter
  is absent and return the same result.
\<close>

theorem falsy_parameter_is_absent:
  "filter_items db e x i (Some 0) = filter_items db e x i None
   \<and> filter_items db (Some []) x i q = filter_items db None x i q
   \<and> filter_items db e (Some []) i q = filter_items db e None i q
   \<and> filter_items db e x (Some []) q = filter_items db e x None q
   \<and> filter_clock_in db (Some []) l t = filter_clock_in db None l t
   \<and> filter_clock_in db e (Some []) t = filter_clock_in db e None t
   \<and> filter_clock_in db e l (Some []) = filter_clock_in db e l None"
  by (simp add: filter_items_def filter_clock_in_def filter_items_query_falsy
      filter_clock_in_query_falsy)

section \<open>Updates with no field\<close>

lemma update_fields_none:
  "empty_update u \<Longrightarrow>
     update_fields u = Inr \<lparr>upd_name = None, upd_email = None, upd_item_name = None,
       upd_quantity = None, upd_expiry_date = None\<rparr>"
  by (simp add: update_fields_def empty_update_def)

lemma is_valid_example: "is_valid ''0123456789abcdefABCDEF01''"
  by (simp add: is_valid_def ObjectId_example)

section \<open>C5: the aggregate\<close>

lemma map_fst_accumulate:
  "map fst (accumulate k gs) = (if k \<in> set (map fst gs) then map fst gs else map fst gs @ [k])"
  by (induction gs) auto

lemma distinct_foldl_accumulate:
  "distinct (map fst gs) \<Longrightarrow> distinct (map fst (foldl (\<lambda>gs k. accumulate k gs) gs ks))"
  by (induction ks arbitrary: gs) (simp_all add: map_fst_accumulate)

lemma set_foldl_accumulate:
  "set (map fst (foldl (\<lambda>gs k. accumulate k gs) gs ks)) = set (map fst gs) \<union> set ks"
proof (induction ks arbitrary: gs)
  case Nil
  show ?case by simp
next
  case (Cons a ks)
  have "set (map fst (accumulate a gs)) = insert a (set (map fst gs))"
    by (auto simp: map_fst_accumulate)
  with Cons show ?case by simp
qed

lemma map_of_accumulate:
  "map_of (accumulate k gs) k' =
     (if k' = k then Some (case map_of gs k of None \<Rightarrow> 1 | Some n \<Rightarrow> n + 1)
      else map_of gs k')"
  by (induction gs) auto

lemma map_of_foldl_accumulate:
  "map_of (foldl (\<lambda>gs k. accumulate k gs) gs ks) k =
     (if k \<in> set ks
      then Some ((case map_of gs k of None \<Rightarrow> 0 | Some n \<Rightarrow> n)
                 + int (length (filter (\<lambda>x. x = k) ks)))
      else map_of gs k)"
proof (induction ks arbitrary: gs)
  case Nil
  show ?case by simp
next
  case (Cons a ks)
  show ?case
  proof (cases "a = k")
    case True
    then show ?thesis
      by (cases "map_of gs k") (auto simp: Cons.IH map_of_accumulate filter_empty_conv)
  next
    case False
    then show ?thesis
      by (simp add: Cons.IH map_of_accumulate)
  qed
qed

lemma group_count_correct:
  "distinct (map fst (group_count ks))"
  "set (map fst (group_count ks)) = set ks"
  "map_of (group_count ks) k =
       (if k \<in> set ks then Some (int (length (filter (\<lambda>x. x = k) ks))) else None)"
  using set_foldl_accumulate [of "[]" ks]
  by (simp_all add: group_count_def distinct_foldl_accumulate map_of_foldl_accumulate)

text \<open>
  C5. The aggregate has exactly one row for each email that occurs in the items
  collection, and the count of the row of an email is the number of items with that
  email; no item is left out, whatever the size of the collection.
\<close>

theorem aggregate_items_counts:
  "distinct (map fst (aggregate_items db))
   \<and> set (map fst (aggregate_items db)) = set (map (\<lambda>d. doc_email (snd d)) (items db))
   \<and> map_of (aggregate_items db) e =
       (if e \<in> set (map (\<lambda>d. doc_email (snd d)) (items db))
        then Some (int (length (filter (\<lambda>d. doc_email (snd d) = e) (items db))))
        else None)"
proof -
  have "length (filter (\<lambda>x. x = e) (map (\<lambda>d. doc_email (snd d)) (items db)))
      = length (filter (\<lambda>d. doc_email (snd d) = e) (items db))"
    by (simp add: filter_map comp_def)
  then show ?thesis
    unfolding aggregate_items_def
    by (simp only: group_count_correct simp_thms)
qed

text \<open>The example of the specification: two items of one email and one of another.\<close>

lemma aggregate_items_example:
  "aggregate_items
     \<lparr>items =
        [([1], \<lparr>doc_name = ''n'', doc_email = ''a@x.com'', doc_item_name = ''i'',
                doc_quantity = 1, doc_expiry_date = t, doc_insert_date = t\<rparr>),
         ([2], \<lparr>doc_name = ''n'', doc_email = ''b@x.com'', doc_item_name = ''i'',
                doc_quantity = 1, doc_expiry_date = t, doc_insert_date = t\<rparr>),
         ([3], \<lparr>doc_name = ''n'', doc_email = ''a@x.com'', doc_item_name = ''i'',
                doc_quantity = 1, doc_expiry_date = t, doc_insert_date = t\<rparr>)],
      clock_in_records = [], empty_set_rejected = True\<rparr>
   = [(''a@x.com'', 2), (''b@x.com'', 1)]"
  by (simp add: aggregate_items_def group_count_def)

section \<open>The results of the filters\<close>

lemma filter_items_result:
  assumes "filter_items db e x i q = Inr rs"
  obtains query where "filter_items_query e x i q = Inr query"
    and "rs = map item_serializer (take 100 (filter (item_matches query) (items db)))"
  using assms
  by (auto simp: filter_items_def items_find_def to_list_def split: sum.splits if_splits)

lemma filter_items_query_fields:
  assumes "filter_items_query e x i q = Inr query"
  shows "q_email query = if_str e" and "q_quantity query = if_int q"
    and "if_date strptime_date x = Inr (q_expiry_date query)"
    and "if_date strptime_date i = Inr (q_insert_date query)"
  using assms by (auto simp: filter_items_query_def split: sum.splits)

lemma filter_items_total:
  assumes "filter_items_query e x i q = Inr query"
    and "\<forall>n. q_quantity query = Some n \<longrightarrow> bson_int_ok n"
  shows "filter_items db e x i q =
           Inr (map item_serializer (take 100 (filter (item_matches query) (items db))))"
proof -
  have "(case q_quantity query of None \<Rightarrow> False | Some n \<Rightarrow> \<not> bson_int_ok n) = False"
    using assms(2) by (simp split: option.splits)
  then show ?thesis
    using assms(1) by (simp add: filter_items_def items_find_def to_list_def)
qed

lemma filter_clock_in_total:
  assumes "filter_clock_in_query e l t = Inr query"
  shows "filter_clock_in db e l t =
           Inr (map clock_in_serializer
                  (take 100 (filter (clock_in_matches query) (clock_in_records db))))"
  using assms by (simp add: filter_clock_in_def clock_in_find_def to_list_def)

lemma filter_clock_in_result:
  assumes "filter_clock_in db e l t = Inr rs"
  obtains query where "filter_clock_in_query e l t = Inr query"
    and "rs = map clock_in_serializer
                (take 100 (filter (clock_in_matches query) (clock_in_records db)))"
  using assms
  by (auto simp: filter_clock_in_def clock_in_find_def to_list_def split: sum.splits)

lemma filter_items_no_parameter:
  "filter_items db None None None None = Inr (map item_serializer (take 100 (items db)))"
  by (simp add: filter_items_def filter_items_query_def items_find_def to_list_def
      item_matches_def)

lemma str_oid_example: "str_oid [1, 2, 3, 4, 5, 6, 7, 8, 9, 10, 11, 255] = ''0102030405060708090a0bff''"
  by code_simp

section \<open>The threshold 0\<close>

lemma filter_items_zero: "filter_items db e x i (Some 0) = filter_items db e x i None"
  by (simp add: filter_items_def filter_items_query_falsy)

section \<open>Dates that parse\<close>

lemma strptime_date_example:
  "strptime_date ''2025-01-01'' =
     Inr \<lparr>year = 2025, month = 1, day = 1, hour = 0, minute = 0, second = 0, microsecond = 0\<rparr>"
  by code_simp

lemma strptime_datetime_example:
  "strptime_datetime ''2025-01-01T00:00:00'' =
     Inr \<lparr>year = 2025, month = 1, day = 1, hour = 0, minute = 0, second = 0, microsecond = 0\<rparr>"
  by code_simp

section \<open>Deleting a record\<close>

lemma delete_item_present:
  assumes "ObjectId s = Inr oid" and "oid \<in> fst ` set (items db)"
    and "distinct (map fst (items db))"
  shows "delete_item db s =
           (Inr ''Item deleted'', db\<lparr>items := filter (\<lambda>d. fst d \<noteq> oid) (items db)\<rparr>)"
  using assms by (simp add: delete_item_def delete_one_present)

lemma delete_item_absent:
  assumes "ObjectId s = Inr oid" and "oid \<notin> fst ` set (items db)"
  shows "delete_item db s = (Inl (HTTPException 204 ''Item not found''), db)"
  using assms by (simp add: delete_item_def delete_one_absent)

lemma delete_clock_in_present:
  assumes "ObjectId s = Inr oid" and "oid \<in> fst ` set (clock_in_records db)"
    and "distinct (map fst (clock_in_records db))"
  shows "delete_clock_in db s =
           (Inr ''Clock-in record deleted'',
            db\<lparr>clock_in_records := filter (\<lambda>d. fst d \<noteq> oid) (clock_in_records db)\<rparr>)"
  using assms by (simp add: delete_clock_in_def delete_one_present)

lemma delete_clock_in_absent:
  assumes "ObjectId s = Inr oid" and "oid \<notin> fst ` set (clock_in_records db)"
  shows "delete_clock_in db s = (Inl (HTTPException 204 ''Clock-in record not found''), db)"
  using assms by (simp add: delete_clock_in_def delete_one_absent)

lemma ObjectId_example_ff:
  "ObjectId ''0102030405060708090a0bff'' = Inr [1, 2, 3, 4, 5, 6, 7, 8, 9, 10, 11, 255]"
  by code_simp

section \<open>Creating a record\<close>

lemma mk_datetime_fields:
  assumes "mk_datetime y m d H M S = Inr t"
  shows "year t = y" and "month t = m" and "day t = d" and "hour t = H" and "minute t = M"
    and "second t = S" and "microsecond t = 0"
  using assms by (auto simp: mk_datetime_def split: if_splits)

lemma strptime_date_midnight:
  assumes "strptime_date s = Inr t"
  shows "hour t = 0" and "minute t = 0" and "second t = 0" and "microsecond t = 0"
  using assms
  by (auto simp: strptime_date_def split: list.splits if_splits dest: mk_datetime_fields)

lemma bson_datetime_whole: "microsecond t = 0 \<Longrightarrow> bson_datetime t = t"
  by (simp add: bson_datetime_def)

lemma create_item_result:
  assumes "strptime_date (expiry_date item) = Inr t" and "bson_int_ok (quantity item)"
    and "new_id \<notin> fst ` set (items db)"
  shows "create_item db utcnow new_id item =
     (Inr \<lparr>out_id = str_oid new_id, out_name = name item, out_email = email item,
           out_item_name = item_name item, out_quantity = quantity item,
           out_expiry_date = t, out_insert_date = bson_datetime utcnow\<rparr>,
      db\<lparr>items := items db @
           [(new_id, \<lparr>doc_name = name item, doc_email = email item,
                      doc_item_name = item_name item, doc_quantity = quantity item,
                      doc_expiry_date = t, doc_insert_date = bson_datetime utcnow\<rparr>)]\<rparr>)"
proof -
  have t: "bson_datetime t = t"
    using assms(1) by (intro bson_datetime_whole strptime_date_midnight)
  let ?doc = "\<lparr>doc_name = name item, doc_email = email item,
                      doc_item_name = item_name item, doc_quantity = quantity item,
                      doc_expiry_date = t, doc_insert_date = bson_datetime utcnow\<rparr>"
  have ins: "items_insert_one db new_id
      \<lparr>doc_name = name item, doc_email = email item, doc_item_name = item_name item,
       doc_quantity = quantity item, doc_expiry_date = t, doc_insert_date = utcnow\<rparr>
     = Inr (db\<lparr>items := items db @ [(new_id, ?doc)]\<rparr>)"
    using assms(2,3) by (simp add: items_insert_one_def bson_item_def insert_one_def t)
  have "find_one new_id (items db @ [(new_id, ?doc)]) = Some (new_id, ?doc)"
    using assms(3) by (rule find_one_append_new)
  then show ?thesis
    using assms(1) by (simp add: create_item_def ins item_serializer_def)
qed

section \<open>What an update leaves as it is\<close>

lemma get_item_Inr:
  assumes "get_item db s = Inr r"
  obtains oid d where "ObjectId s = Inr oid" and "find_one oid (items db) = Some (oid, d)"
    and "r = item_serializer (oid, d)"
proof -
  from assms obtain oid item where o: "ObjectId s = Inr oid"
    and f: "find_one oid (items db) = Some item" and r: "r = item_serializer item"
    by (auto simp: get_item_def split: sum.splits option.splits)
  from f have "fst item = oid" by (auto dest: find_one_Some_fst)
  then have "item = (oid, snd item)" by (cases item) simp
  with o f r that show ?thesis by metis
qed

lemma get_clock_in_Inr:
  assumes "get_clock_in db s = Inr r"
  obtains oid d where "ObjectId s = Inr oid"
    and "find_one oid (clock_in_records db) = Some (oid, d)"
    and "r = clock_in_serializer (oid, d)"
proof -
  from assms obtain oid item where o: "ObjectId s = Inr oid"
    and f: "find_one oid (clock_in_records db) = Some item"
    and r: "r = clock_in_serializer item"
    by (auto simp: get_clock_in_def split: sum.splits option.splits)
  from f have "fst item = oid" by (auto dest: find_one_Some_fst)
  then have "item = (oid, snd item)" by (cases item) simp
  with o f r that show ?thesis by metis
qed

lemma update_one_present:
  "find_one oid coll = Some (oid, d) \<Longrightarrow> fst (update_one oid f coll) = 1"
  by (simp add: update_one_count find_one_None [symmetric])

lemma update_item_present:
  assumes "ObjectId s = Inr oid" and "find_one oid (items db) = Some (oid, d)"
    and "update_fields u = Inr set_doc"
    and "\<forall>q. upd_quantity u = Some q \<longrightarrow> bson_int_ok q"
    and "empty_update u \<longrightarrow> \<not> empty_set_rejected db"
  shows "update_item db s u =
           (Inr (item_serializer (oid, set_item set_doc d)),
            db\<lparr>items := snd (update_one oid (set_item set_doc) (items db))\<rparr>)"
proof -
  have q: "(case upd_quantity set_doc of None \<Rightarrow> False | Some q \<Rightarrow> \<not> bson_int_ok q) = False"
    using assms(3,4) by (simp add: update_fields_same split: option.splits)
  have e: "\<not> (empty_update set_doc \<and> empty_set_rejected db)"
    using assms(3,5) by (simp add: update_fields_empty)
  obtain n coll where uo: "update_one oid (set_item set_doc) (items db) = (n, coll)"
    by (cases "update_one oid (set_item set_doc) (items db)")
  have n: "n = 1"
    using update_one_present [OF assms(2), of "set_item set_doc"] uo by simp
  have "find_one oid coll = Some (oid, set_item set_doc d)"
    using find_one_update_one [of oid "set_item set_doc" "items db"] uo assms(2) by simp
  then show ?thesis
    using assms(1,3) q e uo n by (simp add: update_item_def items_update_one_def)
qed

lemma update_clock_in_present:
  assumes "ObjectId s = Inr oid" and "find_one oid (clock_in_records db) = Some (oid, d)"
    and "empty_clock_in_update u \<longrightarrow> \<not> empty_set_rejected db"
  shows "update_clock_in db s u =
           (Inr (clock_in_serializer (oid, set_clock_in u d)),
            db\<lparr>clock_in_records := snd (update_one oid (set_clock_in u) (clock_in_records db))\<rparr>)"
proof -
  obtain n coll where uo: "update_one oid (set_clock_in u) (clock_in_records db) = (n, coll)"
    by (cases "update_one oid (set_clock_in u) (clock_in_records db)")
  have n: "n = 1"
    using update_one_present [OF assms(2), of "set_clock_in u"] uo by simp
  have "find_one oid coll = Some (oid, set_clock_in u d)"
    using find_one_update_one [of oid "set_clock_in u" "clock_in_records db"] uo assms(2)
    by simp
  then show ?thesis
    using assms(1,3) uo n by (simp add: update_clock_in_def clock_in_update_one_def)
qed

lemma update_one_keeps:
  assumes "\<And>d. g (f d) = g d"
  shows "map (\<lambda>d. (fst d, g (snd d))) (snd (update_one oid f coll))
       = map (\<lambda>d. (fst d, g (snd d))) coll"
  by (induction coll) (auto simp: assms split: prod.splits)

lemma update_item_state:
  "snd (update_item db s u) = db
   \<or> (\<exists>oid set_doc. snd (update_item db s u)
        = db\<lparr>items := snd (update_one oid (set_item set_doc) (items db))\<rparr>)"
proof (cases "update_fields u")
  case (Inl e)
  then show ?thesis by (simp add: update_item_def)
next
  case (Inr set_doc)
  show ?thesis
  proof (cases "ObjectId s")
    case (Inl e)
    with Inr show ?thesis by (simp add: update_item_def)
  next
    case oid: (Inr oid)
    show ?thesis
    proof (cases "items_update_one db oid set_doc")
      case (Inl e)
      with Inr oid show ?thesis by (simp add: update_item_def)
    next
      case r: (Inr r)
      obtain n db' where r': "r = (n, db')" by (cases r)
      from r r' have "db' = db\<lparr>items := snd (update_one oid (set_item set_doc) (items db))\<rparr>"
        by (auto simp: items_update_one_def split: if_splits prod.splits)
      moreover have "snd (update_item db s u) = db'"
        using Inr oid r r' by (simp add: update_item_def split: option.splits)
      ultimately show ?thesis by blast
    qed
  qed
qed

lemma update_clock_in_state:
  "snd (update_clock_in db s u) = db
   \<or> (\<exists>oid. snd (update_clock_in db s u)
        = db\<lparr>clock_in_records := snd (update_one oid (set_clock_in u) (clock_in_records db))\<rparr>)"
proof (cases "ObjectId s")
  case (Inl e)
  then show ?thesis by (simp add: update_clock_in_def)
next
  case oid: (Inr oid)
  show ?thesis
  proof (cases "clock_in_update_one db oid u")
    case (Inl e)
    with oid show ?thesis by (simp add: update_clock_in_def)
  next
    case r: (Inr r)
    obtain n db' where r': "r = (n, db')" by (cases r)
    from r r' have "db' =
        db\<lparr>clock_in_records := snd (update_one oid (set_clock_in u) (clock_in_records db))\<rparr>"
      by (auto simp: clock_in_update_one_def split: if_splits prod.splits)
    moreover have "snd (update_clock_in db s u) = db'"
      using oid r r' by (simp add: update_clock_in_def split: option.splits)
    ultimately show ?thesis by blast
  qed
qed

lemma update_item_keeps_insert_date:
  "map (\<lambda>d. (fst d, doc_insert_date (snd d))) (items (snd (update_item db s u)))
   = map (\<lambda>d. (fst d, doc_insert_date (snd d))) (items db)"
proof -
  have "doc_insert_date (set_item set_doc d) = doc_insert_date d" for set_doc d
    by (simp add: set_item_def)
  then have "map (\<lambda>d. (fst d, doc_insert_date (snd d)))
               (snd (update_one oid (set_item set_doc) (items db)))
           = map (\<lambda>d. (fst d, doc_insert_date (snd d))) (items db)" for oid set_doc
    by (intro update_one_keeps) simp
  then show ?thesis
    using update_item_state [of db s u] by auto
qed

lemma update_clock_in_keeps_insert_datetime:
  "map (\<lambda>d. (fst d, cdoc_insert_datetime (snd d)))
     (clock_in_records (snd (update_clock_in db s u)))
   = map (\<lambda>d. (fst d, cdoc_insert_datetime (snd d))) (clock_in_records db)"
proof -
  have "cdoc_insert_datetime (set_clock_in u d) = cdoc_insert_datetime d" for d
    by (simp add: set_clock_in_def)
  then have "map (\<lambda>d. (fst d, cdoc_insert_datetime (snd d)))
               (snd (update_one oid (set_clock_in u) (clock_in_records db)))
           = map (\<lambda>d. (fst d, cdoc_insert_datetime (snd d))) (clock_in_records db)" for oid
    by (intro update_one_keeps) simp
  then show ?thesis
    using update_clock_in_state [of db s u] by auto
qed

lemma update_item_frame:
  assumes "get_item db s = Inr r0" and "update_fields u = Inr set_doc"
    and "\<forall>q. upd_quantity u = Some q \<longrightarrow> bson_int_ok q"
    and "empty_update u \<longrightarrow> \<not> empty_set_rejected db"
  obtains r where "fst (update_item db s u) = Inr r"
    and "get_item (snd (update_item db s u)) s = Inr r"
    and "out_id r = out_id r0" and "out_insert_date r = out_insert_date r0"
    and "out_name r = (case upd_name u of None \<Rightarrow> out_name r0 | Some v \<Rightarrow> v)"
    and "out_email r = (case upd_email u of None \<Rightarrow> out_email r0 | Some v \<Rightarrow> v)"
    and "out_item_name r = (case upd_item_name u of None \<Rightarrow> out_item_name r0 | Some v \<Rightarrow> v)"
    and "out_quantity r = (case upd_quantity u of None \<Rightarrow> out_quantity r0 | Some v \<Rightarrow> v)"
    and "upd_expiry_date u = None \<longrightarrow> out_expiry_date r = out_expiry_date r0"
proof -
  from assms(1) obtain oid d where oid: "ObjectId s = Inr oid"
    and f: "find_one oid (items db) = Some (oid, d)" and r0: "r0 = item_serializer (oid, d)"
    by (rule get_item_Inr)
  let ?r = "item_serializer (oid, set_item set_doc d)"
  note up = update_item_present [OF oid f assms(2,3,4)]
  have "find_one oid (snd (update_one oid (set_item set_doc) (items db)))
      = Some (oid, set_item set_doc d)"
    using find_one_update_one [of oid "set_item set_doc" "items db"] f by simp
  then have g: "get_item (snd (update_item db s u)) s = Inr ?r"
    using oid by (simp add: up get_item_def)
  have e: "upd_expiry_date u = None \<longrightarrow> out_expiry_date ?r = out_expiry_date r0"
    using update_fields_same(5) [OF assms(2)]
    by (auto simp: r0 item_serializer_def set_item_def)
  show ?thesis
  proof (rule that [of ?r])
    show "fst (update_item db s u) = Inr ?r" by (simp add: up)
    show "get_item (snd (update_item db s u)) s = Inr ?r" by (rule g)
    show "upd_expiry_date u = None \<longrightarrow> out_expiry_date ?r = out_expiry_date r0" by (rule e)
  qed (simp_all add: r0 item_serializer_def set_item_def update_fields_same [OF assms(2)]
      split: option.splits)
qed

lemma update_clock_in_frame:
  assumes "get_clock_in db s = Inr c0"
    and "empty_clock_in_update u \<longrightarrow> \<not> empty_set_rejected db"
  obtains c where "fst (update_clock_in db s u) = Inr c"
    and "get_clock_in (snd (update_clock_in db s u)) s = Inr c"
    and "cout_id c = cout_id c0" and "cout_insert_datetime c = cout_insert_datetime c0"
    and "cout_email c = (case upd_ci_email u of None \<Rightarrow> cout_email c0 | Some v \<Rightarrow> v)"
    and "cout_location c = (case upd_ci_location u of None \<Rightarrow> cout_location c0 | Some v \<Rightarrow> v)"
proof -
  from assms(1) obtain oid d where oid: "ObjectId s = Inr oid"
    and f: "find_one oid (clock_in_records db) = Some (oid, d)"
    and c0: "c0 = clock_in_serializer (oid, d)"
    by (rule get_clock_in_Inr)
  let ?c = "clock_in_serializer (oid, set_clock_in u d)"
  note up = update_clock_in_present [OF oid f assms(2)]
  have "find_one oid (snd (update_one oid (set_clock_in u) (clock_in_records db)))
      = Some (oid, set_clock_in u d)"
    using find_one_update_one [of oid "set_clock_in u" "clock_in_records db"] f by simp
  then have g: "get_clock_in (snd (update_clock_in db s u)) s = Inr ?c"
    using oid by (simp add: up get_clock_in_def)
  show ?thesis
  proof (rule that [of ?c])
    show "fst (update_clock_in db s u) = Inr ?c" by (simp add: up)
    show "get_clock_in (snd (update_clock_in db s u)) s = Inr ?c" by (rule g)
  qed (simp_all add: c0 clock_in_serializer_def set_clock_in_def split: option.splits)
qed

section \<open>Identifiers of 24 hexadecimal digits\<close>

lemma hex_value_not_space: "hex_value c = Some h \<Longrightarrow> \<not> isspace c"
  by (auto simp: hex_value_def isspace_def Let_def split: if_splits)

lemma fromhex_digits:
  "list_all (\<lambda>c. hex_value c \<noteq> None) s \<Longrightarrow> even (length s) \<Longrightarrow>
     \<exists>bs. fromhex s = Some bs \<and> 2 * length bs = length s"
proof (induction s rule: fromhex.induct)
  case 1
  show ?case by simp
next
  case (2 c)
  then show ?case by simp
next
  case (3 c d cs)
  from "3.prems" obtain h l where h: "hex_value c = Some h" and l: "hex_value d = Some l"
    by auto
  from h have ns: "\<not> isspace c" by (rule hex_value_not_space)
  from "3.prems" have "list_all (\<lambda>c. hex_value c \<noteq> None) cs" and "even (length cs)"
    by simp_all
  with "3.IH"(2) [OF ns h l] obtain bs where "fromhex cs = Some bs" and "2 * length bs = length cs"
    by blast
  with ns h l show ?case by simp
qed

lemma fromhex_length:
  "fromhex s = Some bs \<Longrightarrow>
     2 * length bs \<le> length s
     \<and> (2 * length bs = length s \<longrightarrow> list_all (\<lambda>c. hex_value c \<noteq> None) s)"
proof (induction s arbitrary: bs rule: fromhex.induct)
  case 1
  then show ?case by simp
next
  case (2 c)
  then show ?case by (simp split: if_splits)
next
  case (3 c d cs)
  show ?case
  proof (cases "isspace c")
    case True
    with "3.prems" have "fromhex (d # cs) = Some bs" by simp
    from "3.IH"(1) [OF True this] show ?thesis by simp
  next
    case False
    with "3.prems" obtain h l bs' where h: "hex_value c = Some h" and l: "hex_value d = Some l"
      and r: "fromhex cs = Some bs'" and bs: "bs = word_of_nat (16 * h + l) # bs'"
      by (auto split: option.splits)
    from "3.IH"(2) [OF False h l r] show ?thesis
      using h l bs by simp
  qed
qed

lemma hex24_ObjectId: "hex24 s \<longleftrightarrow> (\<exists>oid. ObjectId s = Inr oid \<and> length oid = 12)"
proof
  assume a: "hex24 s"
  then have "list_all (\<lambda>c. hex_value c \<noteq> None) s" and "even (length s)"
    by (simp_all add: hex24_def)
  then obtain bs where "fromhex s = Some bs" and "2 * length bs = length s"
    using fromhex_digits by blast
  with a show "\<exists>oid. ObjectId s = Inr oid \<and> length oid = 12"
    by (simp add: hex24_def ObjectId_def)
next
  assume "\<exists>oid. ObjectId s = Inr oid \<and> length oid = 12"
  then obtain oid where o: "ObjectId s = Inr oid" and l: "length oid = 12"
    by blast
  from o have len: "length s = 24" and f: "fromhex s = Some oid"
    by (auto simp: ObjectId_def split: if_splits option.splits)
  from fromhex_length [OF f] len l show "hex24 s"
    by (simp add: hex24_def)
qed

lemma hex24_is_valid: "hex24 s \<Longrightarrow> is_valid s"
  by (auto simp: hex24_ObjectId is_valid_def)

lemma not_is_valid: "\<not> is_valid s \<longleftrightarrow> ObjectId s = Inl InvalidId"
  by (auto simp: is_valid_def split: sum.splits dest: ObjectId_error)

lemma ObjectId_white_space:
  "ObjectId ''0102030405060708090a0b  '' = Inr [1, 2, 3, 4, 5, 6, 7, 8, 9, 10, 11]"
  by code_simp

lemma hex24_example: "hex24 ''0123456789abcdefABCDEF01''"
  by code_simp

lemma hex24_example_ff: "hex24 ''0102030405060708090a0bff''"
  by code_simp

section \<open>C1: identifiers that are malformed or match no record\<close>

text \<open>
  C1, as stated, fails: for a malformed identifier \<^verbatim>\<open>ObjectId(id)\<close> raises \<open>InvalidId\<close>,
  which no handler catches, so the request ends as a server error and not with the
  status 204 of the handlers' own \<open>HTTPException\<close>.
\<close>

theorem malformed_id_counterexample:
  "\<not> is_valid ''abc''
   \<and> get_item \<lparr>items = [], clock_in_records = [], empty_set_rejected = True\<rparr> ''abc''
       = Inl InvalidId
   \<and> fst (delete_item \<lparr>items = [], clock_in_records = [], empty_set_rejected = True\<rparr> ''abc'')
       = Inl InvalidId
   \<and> InvalidId \<noteq> HTTPException 204 ''Item not found''
   \<and> status_code InvalidId \<noteq> 204"
  by (simp add: is_valid_def get_item_def delete_item_def ObjectId_malformed)

text \<open>
  C1, amended. For an identifier of 24 hexadecimal digits that names no record of a
  collection, get and delete on that collection fail with the \<open>HTTPException\<close> of
  status 204 and leave the database as it is, and update does the same once its own
  document is in order: the expiry date parses, the quantity fits a BSON integer, and
  the document is not empty on a store that refuses an empty \<^verbatim>\<open>$set\<close>. For an
  identifier that \<^verbatim>\<open>ObjectId\<close> refuses, get, update and delete on both collections fail
  with \<open>InvalidId\<close>, which no handler catches (status 500), and leave the database as
  it is; the update of an item does so once its expiry date, if given, has parsed.
\<close>

theorem unmatched_id_outcome:
  "(hex24 s \<and> \<not> matches_record (items db) s \<longrightarrow>
      get_item db s = Inl (HTTPException 204 ''Item not found'')
      \<and> delete_item db s = (Inl (HTTPException 204 ''Item not found''), db)
      \<and> ((\<exists>set_doc. update_fields u = Inr set_doc)
            \<and> (\<forall>q. upd_quantity u = Some q \<longrightarrow> bson_int_ok q)
            \<and> (empty_update u \<longrightarrow> \<not> empty_set_rejected db) \<longrightarrow>
          update_item db s u = (Inl (HTTPException 204 ''Item not found''), db)))
   \<and> (hex24 s \<and> \<not> matches_record (clock_in_records db) s \<longrightarrow>
      get_clock_in db s = Inl (HTTPException 204 ''Clock-in record not found'')
      \<and> delete_clock_in db s = (Inl (HTTPException 204 ''Clock-in record not found''), db)
      \<and> ((empty_clock_in_update cu \<longrightarrow> \<not> empty_set_rejected db) \<longrightarrow>
          update_clock_in db s cu =
            (Inl (HTTPException 204 ''Clock-in record not found''), db)))
   \<and> (\<not> is_valid s \<longrightarrow>
      get_item db s = Inl InvalidId
      \<and> delete_item db s = (Inl InvalidId, db)
      \<and> ((\<exists>set_doc. update_fields u = Inr set_doc) \<longrightarrow>
          update_item db s u = (Inl InvalidId, db))
      \<and> get_clock_in db s = Inl InvalidId
      \<and> delete_clock_in db s = (Inl InvalidId, db)
      \<and> update_clock_in db s cu = (Inl InvalidId, db))
   \<and> status_code (HTTPException 204 detail) = 204 \<and> status_code InvalidId = 500"
proof -
  have i: "get_item db s = Inl (HTTPException 204 ''Item not found'')
      \<and> delete_item db s = (Inl (HTTPException 204 ''Item not found''), db)
      \<and> ((\<exists>set_doc. update_fields u = Inr set_doc)
            \<and> (\<forall>q. upd_quantity u = Some q \<longrightarrow> bson_int_ok q)
            \<and> (empty_update u \<longrightarrow> \<not> empty_set_rejected db) \<longrightarrow>
          update_item db s u = (Inl (HTTPException 204 ''Item not found''), db))"
    if "hex24 s" and "\<not> matches_record (items db) s"
    using that hex24_is_valid [of s]
    by (auto simp: get_item_unmatched delete_item_unmatched update_item_unmatched)
  have c: "get_clock_in db s = Inl (HTTPException 204 ''Clock-in record not found'')
      \<and> delete_clock_in db s = (Inl (HTTPException 204 ''Clock-in record not found''), db)
      \<and> ((empty_clock_in_update cu \<longrightarrow> \<not> empty_set_rejected db) \<longrightarrow>
          update_clock_in db s cu =
            (Inl (HTTPException 204 ''Clock-in record not found''), db))"
    if "hex24 s" and "\<not> matches_record (clock_in_records db) s"
    using that hex24_is_valid [of s]
    by (auto simp: get_clock_in_unmatched delete_clock_in_unmatched update_clock_in_unmatched)
  have m: "get_item db s = Inl InvalidId
      \<and> delete_item db s = (Inl InvalidId, db)
      \<and> ((\<exists>set_doc. update_fields u = Inr set_doc) \<longrightarrow>
          update_item db s u = (Inl InvalidId, db))
      \<and> get_clock_in db s = Inl InvalidId
      \<and> delete_clock_in db s = (Inl InvalidId, db)
      \<and> update_clock_in db s cu = (Inl InvalidId, db)"
    if "\<not> is_valid s"
  proof -
    from that have o: "ObjectId s = Inl InvalidId"
      by (simp add: not_is_valid)
    then show ?thesis
      by (auto simp: get_item_def delete_item_def update_item_def get_clock_in_def
          delete_clock_in_def update_clock_in_def)
  qed
  from i c m show ?thesis
    by simp
qed

theorem unmatched_id_outcome_witness:
  "hex24 ''0102030405060708090a0bff''
   \<and> \<not> matches_record
        (items \<lparr>items = [], clock_in_records =
           [([1, 2, 3, 4, 5, 6, 7, 8, 9, 10, 11, 255],
             \<lparr>cdoc_email = ''a@x.com'', cdoc_location = ''here'',
              cdoc_insert_datetime = \<lparr>year = 2024, month = 1, day = 1, hour = 0, minute = 0,
                second = 0, microsecond = 0\<rparr>\<rparr>)], empty_set_rejected = True\<rparr>)
        ''0102030405060708090a0bff''
   \<and> get_item \<lparr>items = [], clock_in_records =
           [([1, 2, 3, 4, 5, 6, 7, 8, 9, 10, 11, 255],
             \<lparr>cdoc_email = ''a@x.com'', cdoc_location = ''here'',
              cdoc_insert_datetime = \<lparr>year = 2024, month = 1, day = 1, hour = 0, minute = 0,
                second = 0, microsecond = 0\<rparr>\<rparr>)], empty_set_rejected = True\<rparr>
        ''0102030405060708090a0bff''
      = Inl (HTTPException 204 ''Item not found'')
   \<and> update_item \<lparr>items = [], clock_in_records =
           [([1, 2, 3, 4, 5, 6, 7, 8, 9, 10, 11, 255],
             \<lparr>cdoc_email = ''a@x.com'', cdoc_location = ''here'',
              cdoc_insert_datetime = \<lparr>year = 2024, month = 1, day = 1, hour = 0, minute = 0,
                second = 0, microsecond = 0\<rparr>\<rparr>)], empty_set_rejected = True\<rparr>
        ''0102030405060708090a0bff''
        \<lparr>upd_name = None, upd_email = None, upd_item_name = None, upd_quantity = Some 5,
         upd_expiry_date = None\<rparr>
      = (Inl (HTTPException 204 ''Item not found''),
         \<lparr>items = [], clock_in_records =
           [([1, 2, 3, 4, 5, 6, 7, 8, 9, 10, 11, 255],
             \<lparr>cdoc_email = ''a@x.com'', cdoc_location = ''here'',
              cdoc_insert_datetime = \<lparr>year = 2024, month = 1, day = 1, hour = 0, minute = 0,
                second = 0, microsecond = 0\<rparr>\<rparr>)], empty_set_rejected = True\<rparr>)
   \<and> hex24 ''0123456789abcdefABCDEF01''
   \<and> \<not> matches_record
        (clock_in_records \<lparr>items = [], clock_in_records =
           [([1, 2, 3, 4, 5, 6, 7, 8, 9, 10, 11, 255],
             \<lparr>cdoc_email = ''a@x.com'', cdoc_location = ''here'',
              cdoc_insert_datetime = \<lparr>year = 2024, month = 1, day = 1, hour = 0, minute = 0,
                second = 0, microsecond = 0\<rparr>\<rparr>)], empty_set_rejected = True\<rparr>)
        ''0123456789abcdefABCDEF01''
   \<and> delete_clock_in \<lparr>items = [], clock_in_records =
           [([1, 2, 3, 4, 5, 6, 7, 8, 9, 10, 11, 255],
             \<lparr>cdoc_email = ''a@x.com'', cdoc_location = ''here'',
              cdoc_insert_datetime = \<lparr>year = 2024, month = 1, day = 1, hour = 0, minute = 0,
                second = 0, microsecond = 0\<rparr>\<rparr>)], empty_set_rejected = True\<rparr>
        ''0123456789abcdefABCDEF01''
      = (Inl (HTTPException 204 ''Clock-in record not found''),
         \<lparr>items = [], clock_in_records =
           [([1, 2, 3, 4, 5, 6, 7, 8, 9, 10, 11, 255],
             \<lparr>cdoc_email = ''a@x.com'', cdoc_location = ''here'',
              cdoc_insert_datetime = \<lparr>year = 2024, month = 1, day = 1, hour = 0, minute = 0,
                second = 0, microsecond = 0\<rparr>\<rparr>)], empty_set_rejected = True\<rparr>)
   \<and> update_clock_in \<lparr>items = [], clock_in_records =
           [([1, 2, 3, 4, 5, 6, 7, 8, 9, 10, 11, 255],
             \<lparr>cdoc_email = ''a@x.com'', cdoc_location = ''here'',
              cdoc_insert_datetime = \<lparr>year = 2024, month = 1, day = 1, hour = 0, minute = 0,
                second = 0, microsecond = 0\<rparr>\<rparr>)], empty_set_rejected = True\<rparr>
        ''0123456789abcdefABCDEF01'' \<lparr>upd_ci_email = Some ''b@x.com'', upd_ci_location = None\<rparr>
      = (Inl (HTTPException 204 ''Clock-in record not found''),
         \<lparr>items = [], clock_in_records =
           [([1, 2, 3, 4, 5, 6, 7, 8, 9, 10, 11, 255],
             \<lparr>cdoc_email = ''a@x.com'', cdoc_location = ''here'',
              cdoc_insert_datetime = \<lparr>year = 2024, month = 1, day = 1, hour = 0, minute = 0,
                second = 0, microsecond = 0\<rparr>\<rparr>)], empty_set_rejected = True\<rparr>)
   \<and> \<not> is_valid ''0123456789abcdefABCDEF0g''
   \<and> delete_item \<lparr>items = [], clock_in_records =
           [([1, 2, 3, 4, 5, 6, 7, 8, 9, 10, 11, 255],
             \<lparr>cdoc_email = ''a@x.com'', cdoc_location = ''here'',
              cdoc_insert_datetime = \<lparr>year = 2024, month = 1, day = 1, hour = 0, minute = 0,
                second = 0, microsecond = 0\<rparr>\<rparr>)], empty_set_rejected = True\<rparr>
        ''0123456789abcdefABCDEF0g''
      = (Inl InvalidId,
         \<lparr>items = [], clock_in_records =
           [([1, 2, 3, 4, 5, 6, 7, 8, 9, 10, 11, 255],
             \<lparr>cdoc_email = ''a@x.com'', cdoc_location = ''here'',
              cdoc_insert_datetime = \<lparr>year = 2024, month = 1, day = 1, hour = 0, minute = 0,
                second = 0, microsecond = 0\<rparr>\<rparr>)], empty_set_rejected = True\<rparr>)
   \<and> get_clock_in \<lparr>items = [], clock_in_records =
           [([1, 2, 3, 4, 5, 6, 7, 8, 9, 10, 11, 255],
             \<lparr>cdoc_email = ''a@x.com'', cdoc_location = ''here'',
              cdoc_insert_datetime = \<lparr>year = 2024, month = 1, day = 1, hour = 0, minute = 0,
                second = 0, microsecond = 0\<rparr>\<rparr>)], empty_set_rejected = True\<rparr>
        ''0123456789abcdefABCDEF0g''
      = Inl InvalidId"
proof -
  let ?db = "\<lparr>items = [], clock_in_records =
           [([1, 2, 3, 4, 5, 6, 7, 8, 9, 10, 11, 255],
             \<lparr>cdoc_email = ''a@x.com'', cdoc_location = ''here'',
              cdoc_insert_datetime = \<lparr>year = 2024, month = 1, day = 1, hour = 0, minute = 0,
                second = 0, microsecond = 0\<rparr>\<rparr>)], empty_set_rejected = True\<rparr>"
  let ?u = "\<lparr>upd_name = None, upd_email = None, upd_item_name = None, upd_quantity = Some 5,
         upd_expiry_date = None :: string option\<rparr>"
  let ?cu = "\<lparr>upd_ci_email = Some ''b@x.com'', upd_ci_location = None\<rparr>"
  have h1: "hex24 ''0102030405060708090a0bff''"
    by (rule hex24_example_ff)
  have n1: "\<not> matches_record (items ?db) ''0102030405060708090a0bff''"
    by (simp add: matches_record_def ObjectId_example_ff)
  have u1: "(\<exists>set_doc. update_fields ?u = Inr set_doc)
      \<and> (\<forall>q. upd_quantity ?u = Some q \<longrightarrow> bson_int_ok q)
      \<and> (empty_update ?u \<longrightarrow> \<not> empty_set_rejected ?db)"
    by (simp add: update_fields_def bson_int_ok_def empty_update_def)
  have h2: "hex24 ''0123456789abcdefABCDEF01''"
    by (rule hex24_example)
  have n2: "\<not> matches_record (clock_in_records ?db) ''0123456789abcdefABCDEF01''"
    by (simp add: matches_record_def ObjectId_example)
  have u2: "empty_clock_in_update ?cu \<longrightarrow> \<not> empty_set_rejected ?db"
    by (simp add: empty_clock_in_update_def)
  have n3: "\<not> is_valid ''0123456789abcdefABCDEF0g''"
    by code_simp
  note t1 = unmatched_id_outcome [of "''0102030405060708090a0bff''" ?db ?u ?cu "''''"]
  note t2 = unmatched_id_outcome [of "''0123456789abcdefABCDEF01''" ?db ?u ?cu "''''"]
  note t3 = unmatched_id_outcome [of "''0123456789abcdefABCDEF0g''" ?db ?u ?cu "''''"]
  from t1 h1 n1 u1 have a: "get_item ?db ''0102030405060708090a0bff''
        = Inl (HTTPException 204 ''Item not found'')"
    and b: "update_item ?db ''0102030405060708090a0bff'' ?u
        = (Inl (HTTPException 204 ''Item not found''), ?db)"
    by blast+
  from t2 h2 n2 u2 have c: "delete_clock_in ?db ''0123456789abcdefABCDEF01''
        = (Inl (HTTPException 204 ''Clock-in record not found''), ?db)"
    and d: "update_clock_in ?db ''0123456789abcdefABCDEF01'' ?cu
        = (Inl (HTTPException 204 ''Clock-in record not found''), ?db)"
    by blast+
  from t3 n3 have e: "delete_item ?db ''0123456789abcdefABCDEF0g'' = (Inl InvalidId, ?db)"
    and f: "get_clock_in ?db ''0123456789abcdefABCDEF0g'' = Inl InvalidId"
    by blast+
  from h1 n1 a b h2 n2 c d n3 e f show ?thesis
    by (intro conjI)
qed

section \<open>Deleting with an identifier that is refused\<close>

lemma ObjectId_not_an_id: "ObjectId ''not-an-id'' = Inl InvalidId"
  by (simp add: ObjectId_def)

section \<open>C7: delete by id\<close>

text \<open>
  C7, as stated, fails: an identifier that \<^verbatim>\<open>ObjectId\<close> refuses matches no record, and
  deleting it does not fail with the \<open>HTTPException\<close> of status 204 but with
  \<open>InvalidId\<close>, which no handler catches (status 500).
\<close>

theorem delete_malformed_id_counterexample:
  "\<not> matches_record
        (clock_in_records \<lparr>items = [], clock_in_records =
           [([1, 2, 3, 4, 5, 6, 7, 8, 9, 10, 11, 255],
             \<lparr>cdoc_email = ''a@x.com'', cdoc_location = ''here'',
              cdoc_insert_datetime = \<lparr>year = 2024, month = 1, day = 1, hour = 0, minute = 0,
                second = 0, microsecond = 0\<rparr>\<rparr>)], empty_set_rejected = True\<rparr>)
        ''not-an-id''
   \<and> fst (delete_clock_in \<lparr>items = [], clock_in_records =
           [([1, 2, 3, 4, 5, 6, 7, 8, 9, 10, 11, 255],
             \<lparr>cdoc_email = ''a@x.com'', cdoc_location = ''here'',
              cdoc_insert_datetime = \<lparr>year = 2024, month = 1, day = 1, hour = 0, minute = 0,
                second = 0, microsecond = 0\<rparr>\<rparr>)], empty_set_rejected = True\<rparr>
        ''not-an-id'')
      = Inl InvalidId
   \<and> InvalidId \<noteq> HTTPException 204 ''Clock-in record not found''
   \<and> status_code InvalidId = 500"
  by (simp add: matches_record_def delete_clock_in_def ObjectId_not_an_id)

text \<open>
  C7, amended. For an identifier of 24 hexadecimal digits, in a store whose identifiers
  are unique: if a record matches, delete removes exactly that record, returns the
  confirmation, and a second delete of the same identifier fails with the
  \<open>HTTPException\<close> of status 204 and changes nothing; if no record matches, delete
  fails with that exception and the store is unchanged. For an identifier that
  \<^verbatim>\<open>ObjectId\<close> refuses, delete fails with \<open>InvalidId\<close> (status 500) and the store is
  unchanged. The same holds for clock-in records.
\<close>

theorem delete_by_id:
  "(hex24 s \<and> unique_ids db \<longrightarrow>
      (matches_record (items db) s \<longrightarrow>
         delete_item db s =
           (Inr ''Item deleted'',
            db\<lparr>items := filter (\<lambda>d. ObjectId s \<noteq> Inr (fst d)) (items db)\<rparr>)
         \<and> delete_item (snd (delete_item db s)) s =
           (Inl (HTTPException 204 ''Item not found''), snd (delete_item db s)))
    \<and> (\<not> matches_record (items db) s \<longrightarrow>
         delete_item db s = (Inl (HTTPException 204 ''Item not found''), db))
    \<and> (matches_record (clock_in_records db) s \<longrightarrow>
         delete_clock_in db s =
           (Inr ''Clock-in record deleted'',
            db\<lparr>clock_in_records :=
                 filter (\<lambda>d. ObjectId s \<noteq> Inr (fst d)) (clock_in_records db)\<rparr>)
         \<and> delete_clock_in (snd (delete_clock_in db s)) s =
           (Inl (HTTPException 204 ''Clock-in record not found''),
            snd (delete_clock_in db s)))
    \<and> (\<not> matches_record (clock_in_records db) s \<longrightarrow>
         delete_clock_in db s =
           (Inl (HTTPException 204 ''Clock-in record not found''), db)))
   \<and> (\<not> is_valid s \<longrightarrow>
        delete_item db s = (Inl InvalidId, db) \<and> delete_clock_in db s = (Inl InvalidId, db))
   \<and> status_code (HTTPException 204 detail) = 204 \<and> status_code InvalidId = 500"
proof -
  have wf: "(matches_record (items db) s \<longrightarrow>
         delete_item db s =
           (Inr ''Item deleted'',
            db\<lparr>items := filter (\<lambda>d. ObjectId s \<noteq> Inr (fst d)) (items db)\<rparr>)
         \<and> delete_item (snd (delete_item db s)) s =
           (Inl (HTTPException 204 ''Item not found''), snd (delete_item db s)))
    \<and> (\<not> matches_record (items db) s \<longrightarrow>
         delete_item db s = (Inl (HTTPException 204 ''Item not found''), db))
    \<and> (matches_record (clock_in_records db) s \<longrightarrow>
         delete_clock_in db s =
           (Inr ''Clock-in record deleted'',
            db\<lparr>clock_in_records :=
                 filter (\<lambda>d. ObjectId s \<noteq> Inr (fst d)) (clock_in_records db)\<rparr>)
         \<and> delete_clock_in (snd (delete_clock_in db s)) s =
           (Inl (HTTPException 204 ''Clock-in record not found''),
            snd (delete_clock_in db s)))
    \<and> (\<not> matches_record (clock_in_records db) s \<longrightarrow>
         delete_clock_in db s =
           (Inl (HTTPException 204 ''Clock-in record not found''), db))"
    if h: "hex24 s" and u: "unique_ids db"
  proof -
    from h obtain oid where o: "ObjectId s = Inr oid"
      by (auto simp: hex24_ObjectId)
    from u have d1: "distinct (map fst (items db))"
      and d2: "distinct (map fst (clock_in_records db))"
      by (simp_all add: unique_ids_def)
    have m1: "matches_record (items db) s \<longleftrightarrow> oid \<in> fst ` set (items db)"
      and m2: "matches_record (clock_in_records db) s
                 \<longleftrightarrow> oid \<in> fst ` set (clock_in_records db)"
      using o by (simp_all add: matches_record_def)
    have f: "(\<lambda>d. ObjectId s \<noteq> Inr (fst d)) = (\<lambda>d. fst d \<noteq> oid)" for d :: "ObjectId \<times> 'a"
      using o by auto
    have a1: "delete_item db s =
                (Inr ''Item deleted'', db\<lparr>items := filter (\<lambda>d. fst d \<noteq> oid) (items db)\<rparr>)"
      and b1: "delete_item (snd (delete_item db s)) s =
                (Inl (HTTPException 204 ''Item not found''), snd (delete_item db s))"
      if "oid \<in> fst ` set (items db)"
    proof -
      show a: "delete_item db s =
                (Inr ''Item deleted'', db\<lparr>items := filter (\<lambda>d. fst d \<noteq> oid) (items db)\<rparr>)"
        using o that d1 by (rule delete_item_present)
      have "oid \<notin> fst ` set (items (snd (delete_item db s)))"
        by (auto simp: a)
      with o show "delete_item (snd (delete_item db s)) s =
                (Inl (HTTPException 204 ''Item not found''), snd (delete_item db s))"
        by (rule delete_item_absent)
    qed
    have a2: "delete_clock_in db s =
                (Inr ''Clock-in record deleted'',
                 db\<lparr>clock_in_records := filter (\<lambda>d. fst d \<noteq> oid) (clock_in_records db)\<rparr>)"
      and b2: "delete_clock_in (snd (delete_clock_in db s)) s =
                (Inl (HTTPException 204 ''Clock-in record not found''),
                 snd (delete_clock_in db s))"
      if "oid \<in> fst ` set (clock_in_records db)"
    proof -
      show a: "delete_clock_in db s =
                (Inr ''Clock-in record deleted'',
                 db\<lparr>clock_in_records := filter (\<lambda>d. fst d \<noteq> oid) (clock_in_records db)\<rparr>)"
        using o that d2 by (rule delete_clock_in_present)
      have "oid \<notin> fst ` set (clock_in_records (snd (delete_clock_in db s)))"
        by (auto simp: a)
      with o show "delete_clock_in (snd (delete_clock_in db s)) s =
                (Inl (HTTPException 204 ''Clock-in record not found''),
                 snd (delete_clock_in db s))"
        by (rule delete_clock_in_absent)
    qed
    show ?thesis
      using a1 b1 a2 b2 delete_item_absent [OF o, of db] delete_clock_in_absent [OF o, of db]
      by (simp add: m1 m2 f)
  qed
  have bad: "delete_item db s = (Inl InvalidId, db) \<and> delete_clock_in db s = (Inl InvalidId, db)"
    if "\<not> is_valid s"
    using that by (simp add: not_is_valid delete_item_def delete_clock_in_def)
  show ?thesis
    by (rule conjI, rule impI, erule conjE, erule (1) wf, rule conjI, rule impI, erule bad,
        simp)
qed

theorem delete_by_id_witness:
  "hex24 ''0102030405060708090a0bff''
   \<and> unique_ids
     \<lparr>items =
        [([1, 2, 3, 4, 5, 6, 7, 8, 9, 10, 11, 255],
          \<lparr>doc_name = ''n'', doc_email = ''a@x.com'', doc_item_name = ''i'',
           doc_quantity = 7,
           doc_expiry_date = \<lparr>year = 2025, month = 1, day = 1, hour = 0, minute = 0,
             second = 0, microsecond = 0\<rparr>,
           doc_insert_date = \<lparr>year = 2024, month = 1, day = 1, hour = 0, minute = 0,
             second = 0, microsecond = 0\<rparr>\<rparr>),
         ([1, 35, 69, 103, 137, 171, 205, 239, 171, 205, 239, 1],
          \<lparr>doc_name = ''m'', doc_email = ''b@x.com'', doc_item_name = ''j'',
           doc_quantity = 2,
           doc_expiry_date = \<lparr>year = 2026, month = 2, day = 3, hour = 0, minute = 0,
             second = 0, microsecond = 0\<rparr>,
           doc_insert_date = \<lparr>year = 2024, month = 1, day = 2, hour = 0, minute = 0,
             second = 0, microsecond = 0\<rparr>\<rparr>)],
      clock_in_records = [], empty_set_rejected = True\<rparr>
   \<and> delete_item
     \<lparr>items =
        [([1, 2, 3, 4, 5, 6, 7, 8, 9, 10, 11, 255],
          \<lparr>doc_name = ''n'', doc_email = ''a@x.com'', doc_item_name = ''i'',
           doc_quantity = 7,
           doc_expiry_date = \<lparr>year = 2025, month = 1, day = 1, hour = 0, minute = 0,
             second = 0, microsecond = 0\<rparr>,
           doc_insert_date = \<lparr>year = 2024, month = 1, day = 1, hour = 0, minute = 0,
             second = 0, microsecond = 0\<rparr>\<rparr>),
         ([1, 35, 69, 103, 137, 171, 205, 239, 171, 205, 239, 1],
          \<lparr>doc_name = ''m'', doc_email = ''b@x.com'', doc_item_name = ''j'',
           doc_quantity = 2,
           doc_expiry_date = \<lparr>year = 2026, month = 2, day = 3, hour = 0, minute = 0,
             second = 0, microsecond = 0\<rparr>,
           doc_insert_date = \<lparr>year = 2024, month = 1, day = 2, hour = 0, minute = 0,
             second = 0, microsecond = 0\<rparr>\<rparr>)],
      clock_in_records = [], empty_set_rejected = True\<rparr>
     ''0102030405060708090a0bff''
   = (Inr ''Item deleted'',
      \<lparr>items =
        [([1, 35, 69, 103, 137, 171, 205, 239, 171, 205, 239, 1],
          \<lparr>doc_name = ''m'', doc_email = ''b@x.com'', doc_item_name = ''j'',
           doc_quantity = 2,
           doc_expiry_date = \<lparr>year = 2026, month = 2, day = 3, hour = 0, minute = 0,
             second = 0, microsecond = 0\<rparr>,
           doc_insert_date = \<lparr>year = 2024, month = 1, day = 2, hour = 0, minute = 0,
             second = 0, microsecond = 0\<rparr>\<rparr>)],
       clock_in_records = [], empty_set_rejected = True\<rparr>)
   \<and> delete_item
      \<lparr>items =
        [([1, 35, 69, 103, 137, 171, 205, 239, 171, 205, 239, 1],
          \<lparr>doc_name = ''m'', doc_email = ''b@x.com'', doc_item_name = ''j'',
           doc_quantity = 2,
           doc_expiry_date = \<lparr>year = 2026, month = 2, day = 3, hour = 0, minute = 0,
             second = 0, microsecond = 0\<rparr>,
           doc_insert_date = \<lparr>year = 2024, month = 1, day = 2, hour = 0, minute = 0,
             second = 0, microsecond = 0\<rparr>\<rparr>)],
       clock_in_records = [], empty_set_rejected = True\<rparr>
     ''0102030405060708090a0bff''
   = (Inl (HTTPException 204 ''Item not found''),
      \<lparr>items =
        [([1, 35, 69, 103, 137, 171, 205, 239, 171, 205, 239, 1],
          \<lparr>doc_name = ''m'', doc_email = ''b@x.com'', doc_item_name = ''j'',
           doc_quantity = 2,
           doc_expiry_date = \<lparr>year = 2026, month = 2, day = 3, hour = 0, minute = 0,
             second = 0, microsecond = 0\<rparr>,
           doc_insert_date = \<lparr>year = 2024, month = 1, day = 2, hour = 0, minute = 0,
             second = 0, microsecond = 0\<rparr>\<rparr>)],
       clock_in_records = [], empty_set_rejected = True\<rparr>)
   \<and> delete_clock_in
     \<lparr>items =
        [([1, 2, 3, 4, 5, 6, 7, 8, 9, 10, 11, 255],
          \<lparr>doc_name = ''n'', doc_email = ''a@x.com'', doc_item_name = ''i'',
           doc_quantity = 7,
           doc_expiry_date = \<lparr>year = 2025, month = 1, day = 1, hour = 0, minute = 0,
             second = 0, microsecond = 0\<rparr>,
           doc_insert_date = \<lparr>year = 2024, month = 1, day = 1, hour = 0, minute = 0,
             second = 0, microsecond = 0\<rparr>\<rparr>),
         ([1, 35, 69, 103, 137, 171, 205, 239, 171, 205, 239, 1],
          \<lparr>doc_name = ''m'', doc_email = ''b@x.com'', doc_item_name = ''j'',
           doc_quantity = 2,
           doc_expiry_date = \<lparr>year = 2026, month = 2, day = 3, hour = 0, minute = 0,
             second = 0, microsecond = 0\<rparr>,
           doc_insert_date = \<lparr>year = 2024, month = 1, day = 2, hour = 0, minute = 0,
             second = 0, microsecond = 0\<rparr>\<rparr>)],
      clock_in_records = [], empty_set_rejected = True\<rparr>
     ''0102030405060708090a0bff''
   = (Inl (HTTPException 204 ''Clock-in record not found''),
      \<lparr>items =
        [([1, 2, 3, 4, 5, 6, 7, 8, 9, 10, 11, 255],
          \<lparr>doc_name = ''n'', doc_email = ''a@x.com'', doc_item_name = ''i'',
           doc_quantity = 7,
           doc_expiry_date = \<lparr>year = 2025, month = 1, day = 1, hour = 0, minute = 0,
             second = 0, microsecond = 0\<rparr>,
           doc_insert_date = \<lparr>year = 2024, month = 1, day = 1, hour = 0, minute = 0,
             second = 0, microsecond = 0\<rparr>\<rparr>),
         ([1, 35, 69, 103, 137, 171, 205, 239, 171, 205, 239, 1],
          \<lparr>doc_name = ''m'', doc_email = ''b@x.com'', doc_item_name = ''j'',
           doc_quantity = 2,
           doc_expiry_date = \<lparr>year = 2026, month = 2, day = 3, hour = 0, minute = 0,
             second = 0, microsecond = 0\<rparr>,
           doc_insert_date = \<lparr>year = 2024, month = 1, day = 2, hour = 0, minute = 0,
             second = 0, microsecond = 0\<rparr>\<rparr>)],
      clock_in_records = [], empty_set_rejected = True\<rparr>)"
proof -
  let ?d1 = "([1, 2, 3, 4, 5, 6, 7, 8, 9, 10, 11, 255 :: 8 word],
          \<lparr>doc_name = ''n'', doc_email = ''a@x.com'', doc_item_name = ''i'',
           doc_quantity = 7,
           doc_expiry_date = \<lparr>year = 2025, month = 1, day = 1, hour = 0, minute = 0,
             second = 0, microsecond = 0\<rparr>,
           doc_insert_date = \<lparr>year = 2024, month = 1, day = 1, hour = 0, minute = 0,
             second = 0, microsecond = 0\<rparr>\<rparr>)"
  let ?d2 = "([1, 35, 69, 103, 137, 171, 205, 239, 171, 205, 239, 1 :: 8 word],
          \<lparr>doc_name = ''m'', doc_email = ''b@x.com'', doc_item_name = ''j'',
           doc_quantity = 2,
           doc_expiry_date = \<lparr>year = 2026, month = 2, day = 3, hour = 0, minute = 0,
             second = 0, microsecond = 0\<rparr>,
           doc_insert_date = \<lparr>year = 2024, month = 1, day = 2, hour = 0, minute = 0,
             second = 0, microsecond = 0\<rparr>\<rparr>)"
  let ?db = "\<lparr>items = [?d1, ?d2], clock_in_records = [], empty_set_rejected = True\<rparr>"
  have h: "hex24 ''0102030405060708090a0bff''"
    by (rule hex24_example_ff)
  have u: "unique_ids ?db"
    by (simp add: unique_ids_def)
  have m: "matches_record (items ?db) ''0102030405060708090a0bff''"
    and n: "\<not> matches_record (clock_in_records ?db) ''0102030405060708090a0bff''"
    by (simp_all add: matches_record_def ObjectId_example_ff)
  from delete_by_id [of "''0102030405060708090a0bff''" ?db "''''"] h u m n
  have a: "delete_item ?db ''0102030405060708090a0bff''
      = (Inr ''Item deleted'',
         ?db\<lparr>items := filter (\<lambda>d. ObjectId ''0102030405060708090a0bff'' \<noteq> Inr (fst d))
                           (items ?db)\<rparr>)"
    and b: "delete_item (snd (delete_item ?db ''0102030405060708090a0bff''))
           ''0102030405060708090a0bff''
      = (Inl (HTTPException 204 ''Item not found''),
         snd (delete_item ?db ''0102030405060708090a0bff''))"
    and c: "delete_clock_in ?db ''0102030405060708090a0bff''
      = (Inl (HTTPException 204 ''Clock-in record not found''), ?db)"
    by blast+
  from a have a': "delete_item ?db ''0102030405060708090a0bff''
      = (Inr ''Item deleted'',
         \<lparr>items = [?d2], clock_in_records = [], empty_set_rejected = True\<rparr>)"
    by (simp add: ObjectId_example_ff)
  from b have b': "delete_item \<lparr>items = [?d2], clock_in_records = [], empty_set_rejected = True\<rparr>
           ''0102030405060708090a0bff''
      = (Inl (HTTPException 204 ''Item not found''),
         \<lparr>items = [?d2], clock_in_records = [], empty_set_rejected = True\<rparr>)"
    unfolding a' by simp
  from h u a' b' c show ?thesis
    by (intro conjI)
qed

section \<open>Updates that change nothing\<close>

lemma update_one_same:
  "(\<And>d. f d = d) \<Longrightarrow>
     update_one oid f coll = (if oid \<in> fst ` set coll then 1 else 0, coll)"
  by (induction coll) auto

lemma set_item_none:
  "set_item \<lparr>upd_name = None, upd_email = None, upd_item_name = None, upd_quantity = None,
     upd_expiry_date = None\<rparr> d = d"
  by (simp add: set_item_def)

lemma set_clock_in_none: "empty_clock_in_update cu \<Longrightarrow> set_clock_in cu d = d"
  by (simp add: set_clock_in_def empty_clock_in_update_def)

lemma update_item_empty_accepted:
  assumes "empty_update u" and "ObjectId s = Inr oid" and "\<not> empty_set_rejected db"
  shows "update_item db s u = (get_item db s, db)"
proof -
  let ?e = "\<lparr>upd_name = None, upd_email = None, upd_item_name = None, upd_quantity = None,
     upd_expiry_date = None :: datetime option\<rparr>"
  have f: "update_fields u = Inr ?e"
    using assms(1) by (rule update_fields_none)
  have uo: "update_one oid (set_item ?e) (items db)
      = (if oid \<in> fst ` set (items db) then 1 else 0, items db)"
    by (rule update_one_same) (rule set_item_none)
  have io: "items_update_one db oid ?e
      = Inr (if oid \<in> fst ` set (items db) then 1 else 0, db)"
    using assms(3) by (simp add: items_update_one_def uo)
  show ?thesis
  proof (cases "find_one oid (items db)")
    case None
    then have "oid \<notin> fst ` set (items db)"
      by (simp add: find_one_None)
    with None assms(2) show ?thesis
      by (simp add: update_item_def f io get_item_def)
  next
    case (Some item)
    then have "oid \<in> fst ` set (items db)"
      using find_one_None [of oid "items db"] by auto
    with Some assms(2) show ?thesis
      by (simp add: update_item_def f io get_item_def)
  qed
qed

lemma update_clock_in_empty_accepted:
  assumes "empty_clock_in_update cu" and "ObjectId s = Inr oid" and "\<not> empty_set_rejected db"
  shows "update_clock_in db s cu = (get_clock_in db s, db)"
proof -
  have uo: "update_one oid (set_clock_in cu) (clock_in_records db)
      = (if oid \<in> fst ` set (clock_in_records db) then 1 else 0, clock_in_records db)"
    by (rule update_one_same) (rule set_clock_in_none [OF assms(1)])
  have io: "clock_in_update_one db oid cu
      = Inr (if oid \<in> fst ` set (clock_in_records db) then 1 else 0, db)"
    using assms(3) by (simp add: clock_in_update_one_def uo)
  show ?thesis
  proof (cases "find_one oid (clock_in_records db)")
    case None
    then have "oid \<notin> fst ` set (clock_in_records db)"
      by (simp add: find_one_None)
    with None assms(2) show ?thesis
      by (simp add: update_clock_in_def io get_clock_in_def)
  next
    case (Some item)
    then have "oid \<in> fst ` set (clock_in_records db)"
      using find_one_None [of oid "clock_in_records db"] by auto
    with Some assms(2) show ?thesis
      by (simp add: update_clock_in_def io get_clock_in_def)
  qed
qed

lemma update_item_empty_rejected:
  assumes "empty_update u" and "ObjectId s = Inr oid" and "empty_set_rejected db"
  shows "update_item db s u = (Inl WriteError, db)"
  using assms
  by (simp add: update_item_def update_fields_none items_update_one_def empty_update_def)

lemma update_clock_in_empty_rejected:
  assumes "empty_clock_in_update cu" and "ObjectId s = Inr oid" and "empty_set_rejected db"
  shows "update_clock_in db s cu = (Inl WriteError, db)"
  using assms by (simp add: update_clock_in_def clock_in_update_one_def)

section \<open>C10: an update with no field\<close>

text \<open>
  C10, as stated, fails on a store that accepts an empty \<^verbatim>\<open>$set\<close> document: there the
  update of an existing record with every field null is no fault; it returns the record
  as it is.
\<close>

theorem empty_update_accepted_counterexample:
  "empty_update \<lparr>upd_name = None, upd_email = None, upd_item_name = None,
      upd_quantity = None, upd_expiry_date = None :: string option\<rparr>
   \<and> update_item
       \<lparr>items =
          [([1, 2, 3, 4, 5, 6, 7, 8, 9, 10, 11, 255],
            \<lparr>doc_name = ''n'', doc_email = ''a@x.com'', doc_item_name = ''i'',
             doc_quantity = 3,
             doc_expiry_date = \<lparr>year = 2025, month = 1, day = 1, hour = 0, minute = 0,
               second = 0, microsecond = 0\<rparr>,
             doc_insert_date = \<lparr>year = 2024, month = 1, day = 1, hour = 0, minute = 0,
               second = 0, microsecond = 0\<rparr>\<rparr>)],
        clock_in_records = [], empty_set_rejected = False\<rparr>
       ''0102030405060708090a0bff''
       \<lparr>upd_name = None, upd_email = None, upd_item_name = None, upd_quantity = None,
        upd_expiry_date = None\<rparr>
     = (Inr \<lparr>out_id = ''0102030405060708090a0bff'', out_name = ''n'',
             out_email = ''a@x.com'', out_item_name = ''i'', out_quantity = 3,
             out_expiry_date = \<lparr>year = 2025, month = 1, day = 1, hour = 0, minute = 0,
               second = 0, microsecond = 0\<rparr>,
             out_insert_date = \<lparr>year = 2024, month = 1, day = 1, hour = 0, minute = 0,
               second = 0, microsecond = 0\<rparr>\<rparr>,
        \<lparr>items =
          [([1, 2, 3, 4, 5, 6, 7, 8, 9, 10, 11, 255],
            \<lparr>doc_name = ''n'', doc_email = ''a@x.com'', doc_item_name = ''i'',
             doc_quantity = 3,
             doc_expiry_date = \<lparr>year = 2025, month = 1, day = 1, hour = 0, minute = 0,
               second = 0, microsecond = 0\<rparr>,
             doc_insert_date = \<lparr>year = 2024, month = 1, day = 1, hour = 0, minute = 0,
               second = 0, microsecond = 0\<rparr>\<rparr>)],
        clock_in_records = [], empty_set_rejected = False\<rparr>)"
  by (simp add: empty_update_def update_item_def update_fields_def ObjectId_example_ff
      items_update_one_def set_item_def find_one_def item_serializer_def str_oid_example)

text \<open>
  C10, amended. An update in which every field is omitted or null leaves no field for
  the \<^verbatim>\<open>$set\<close> document, and the handlers send the empty document all the same. For an
  identifier of 24 hexadecimal digits, on a store that refuses the empty document the
  request fails with the store's write error, which no handler catches (status 500),
  whether or not the identifier matches a record, and nothing is written; on a store
  that accepts it the request answers as get-by-id does, with the unchanged record or
  with status 204, and nothing is written. For an identifier that \<^verbatim>\<open>ObjectId\<close> refuses the
  request fails with \<open>InvalidId\<close> before the store is asked.
\<close>

theorem empty_update_is_store_fault:
  "(empty_update u \<longrightarrow>
      update_fields u = Inr \<lparr>upd_name = None, upd_email = None, upd_item_name = None,
        upd_quantity = None, upd_expiry_date = None\<rparr>
      \<and> (hex24 s \<and> empty_set_rejected db \<longrightarrow> update_item db s u = (Inl WriteError, db))
      \<and> (hex24 s \<and> \<not> empty_set_rejected db \<longrightarrow> update_item db s u = (get_item db s, db))
      \<and> (\<not> is_valid s \<longrightarrow> update_item db s u = (Inl InvalidId, db)))
   \<and> (empty_clock_in_update cu \<longrightarrow>
      (hex24 s \<and> empty_set_rejected db \<longrightarrow> update_clock_in db s cu = (Inl WriteError, db))
      \<and> (hex24 s \<and> \<not> empty_set_rejected db \<longrightarrow>
           update_clock_in db s cu = (get_clock_in db s, db))
      \<and> (\<not> is_valid s \<longrightarrow> update_clock_in db s cu = (Inl InvalidId, db)))
   \<and> status_code WriteError = 500 \<and> status_code InvalidId = 500"
proof -
  have i: "update_fields u = Inr \<lparr>upd_name = None, upd_email = None, upd_item_name = None,
        upd_quantity = None, upd_expiry_date = None\<rparr>
      \<and> (hex24 s \<and> empty_set_rejected db \<longrightarrow> update_item db s u = (Inl WriteError, db))
      \<and> (hex24 s \<and> \<not> empty_set_rejected db \<longrightarrow> update_item db s u = (get_item db s, db))
      \<and> (\<not> is_valid s \<longrightarrow> update_item db s u = (Inl InvalidId, db))"
    if e: "empty_update u"
  proof (intro conjI impI)
    show f: "update_fields u = Inr \<lparr>upd_name = None, upd_email = None, upd_item_name = None,
        upd_quantity = None, upd_expiry_date = None\<rparr>"
      using e by (rule update_fields_none)
    show "update_item db s u = (Inl WriteError, db)" if "hex24 s \<and> empty_set_rejected db"
      using that e by (auto simp: hex24_ObjectId intro: update_item_empty_rejected)
    show "update_item db s u = (get_item db s, db)" if "hex24 s \<and> \<not> empty_set_rejected db"
      using that e by (auto simp: hex24_ObjectId intro: update_item_empty_accepted)
    show "update_item db s u = (Inl InvalidId, db)" if "\<not> is_valid s"
      using that f by (simp add: not_is_valid update_item_def)
  qed
  have c: "(hex24 s \<and> empty_set_rejected db \<longrightarrow> update_clock_in db s cu = (Inl WriteError, db))
      \<and> (hex24 s \<and> \<not> empty_set_rejected db \<longrightarrow>
           update_clock_in db s cu = (get_clock_in db s, db))
      \<and> (\<not> is_valid s \<longrightarrow> update_clock_in db s cu = (Inl InvalidId, db))"
    if e: "empty_clock_in_update cu"
  proof (intro conjI impI)
    show "update_clock_in db s cu = (Inl WriteError, db)" if "hex24 s \<and> empty_set_rejected db"
      using that e by (auto simp: hex24_ObjectId intro: update_clock_in_empty_rejected)
    show "update_clock_in db s cu = (get_clock_in db s, db)"
      if "hex24 s \<and> \<not> empty_set_rejected db"
      using that e by (auto simp: hex24_ObjectId intro: update_clock_in_empty_accepted)
    show "update_clock_in db s cu = (Inl InvalidId, db)" if "\<not> is_valid s"
      using that by (simp add: not_is_valid update_clock_in_def)
  qed
  show ?thesis
    by (rule conjI, rule impI, erule i, rule conjI, rule impI, erule c, simp)
qed

theorem empty_update_is_store_fault_witness:
  "empty_update \<lparr>upd_name = None, upd_email = None, upd_item_name = None,
      upd_quantity = None, upd_expiry_date = None :: string option\<rparr>
   \<and> empty_clock_in_update \<lparr>upd_ci_email = None, upd_ci_location = None\<rparr>
   \<and> hex24 ''0102030405060708090a0bff''
   \<and> empty_set_rejected
       \<lparr>items =
          [([1, 2, 3, 4, 5, 6, 7, 8, 9, 10, 11, 255],
            \<lparr>doc_name = ''n'', doc_email = ''a@x.com'', doc_item_name = ''i'',
             doc_quantity = 3,
             doc_expiry_date = \<lparr>year = 2025, month = 1, day = 1, hour = 0, minute = 0,
               second = 0, microsecond = 0\<rparr>,
             doc_insert_date = \<lparr>year = 2024, month = 1, day = 1, hour = 0, minute = 0,
               second = 0, microsecond = 0\<rparr>\<rparr>)],
        clock_in_records = [], empty_set_rejected = True\<rparr>
   \<and> update_item
       \<lparr>items =
          [([1, 2, 3, 4, 5, 6, 7, 8, 9, 10, 11, 255],
            \<lparr>doc_name = ''n'', doc_email = ''a@x.com'', doc_item_name = ''i'',
             doc_quantity = 3,
             doc_expiry_date = \<lparr>year = 2025, month = 1, day = 1, hour = 0, minute = 0,
               second = 0, microsecond = 0\<rparr>,
             doc_insert_date = \<lparr>year = 2024, month = 1, day = 1, hour = 0, minute = 0,
               second = 0, microsecond = 0\<rparr>\<rparr>)],
        clock_in_records = [], empty_set_rejected = True\<rparr>
       ''0102030405060708090a0bff''
       \<lparr>upd_name = None, upd_email = None, upd_item_name = None, upd_quantity = None,
        upd_expiry_date = None\<rparr>
     = (Inl WriteError,
        \<lparr>items =
          [([1, 2, 3, 4, 5, 6, 7, 8, 9, 10, 11, 255],
            \<lparr>doc_name = ''n'', doc_email = ''a@x.com'', doc_item_name = ''i'',
             doc_quantity = 3,
             doc_expiry_date = \<lparr>year = 2025, month = 1, day = 1, hour = 0, minute = 0,
               second = 0, microsecond = 0\<rparr>,
             doc_insert_date = \<lparr>year = 2024, month = 1, day = 1, hour = 0, minute = 0,
               second = 0, microsecond = 0\<rparr>\<rparr>)],
        clock_in_records = [], empty_set_rejected = True\<rparr>)
   \<and> update_clock_in
       \<lparr>items =
          [([1, 2, 3, 4, 5, 6, 7, 8, 9, 10, 11, 255],
            \<lparr>doc_name = ''n'', doc_email = ''a@x.com'', doc_item_name = ''i'',
             doc_quantity = 3,
             doc_expiry_date = \<lparr>year = 2025, month = 1, day = 1, hour = 0, minute = 0,
               second = 0, microsecond = 0\<rparr>,
             doc_insert_date = \<lparr>year = 2024, month = 1, day = 1, hour = 0, minute = 0,
               second = 0, microsecond = 0\<rparr>\<rparr>)],
        clock_in_records = [], empty_set_rejected = True\<rparr>
       ''0102030405060708090a0bff'' \<lparr>upd_ci_email = None, upd_ci_location = None\<rparr>
     = (Inl WriteError,
        \<lparr>items =
          [([1, 2, 3, 4, 5, 6, 7, 8, 9, 10, 11, 255],
            \<lparr>doc_name = ''n'', doc_email = ''a@x.com'', doc_item_name = ''i'',
             doc_quantity = 3,
             doc_expiry_date = \<lparr>year = 2025, month = 1, day = 1, hour = 0, minute = 0,
               second = 0, microsecond = 0\<rparr>,
             doc_insert_date = \<lparr>year = 2024, month = 1, day = 1, hour = 0, minute = 0,
               second = 0, microsecond = 0\<rparr>\<rparr>)],
        clock_in_records = [], empty_set_rejected = True\<rparr>)
   \<and> \<not> empty_set_rejected \<lparr>items = [], clock_in_records = [], empty_set_rejected = False\<rparr>
   \<and> update_item \<lparr>items = [], clock_in_records = [], empty_set_rejected = False\<rparr>
       ''0102030405060708090a0bff''
       \<lparr>upd_name = None, upd_email = None, upd_item_name = None, upd_quantity = None,
        upd_expiry_date = None\<rparr>
     = (Inl (HTTPException 204 ''Item not found''),
        \<lparr>items = [], clock_in_records = [], empty_set_rejected = False\<rparr>)
   \<and> \<not> is_valid ''0102030405060708090a0bf''
   \<and> update_item \<lparr>items = [], clock_in_records = [], empty_set_rejected = False\<rparr>
       ''0102030405060708090a0bf''
       \<lparr>upd_name = None, upd_email = None, upd_item_name = None, upd_quantity = None,
        upd_expiry_date = None\<rparr>
     = (Inl InvalidId, \<lparr>items = [], clock_in_records = [], empty_set_rejected = False\<rparr>)"
proof -
  let ?db = "\<lparr>items =
          [([1, 2, 3, 4, 5, 6, 7, 8, 9, 10, 11, 255],
            \<lparr>doc_name = ''n'', doc_email = ''a@x.com'', doc_item_name = ''i'',
             doc_quantity = 3,
             doc_expiry_date = \<lparr>year = 2025, month = 1, day = 1, hour = 0, minute = 0,
               second = 0, microsecond = 0\<rparr>,
             doc_insert_date = \<lparr>year = 2024, month = 1, day = 1, hour = 0, minute = 0,
               second = 0, microsecond = 0\<rparr>\<rparr>)],
        clock_in_records = [], empty_set_rejected = True\<rparr>"
  let ?dbz = "\<lparr>items = [], clock_in_records = [], empty_set_rejected = False\<rparr>"
  let ?u = "\<lparr>upd_name = None, upd_email = None, upd_item_name = None,
      upd_quantity = None, upd_expiry_date = None :: string option\<rparr>"
  let ?cu = "\<lparr>upd_ci_email = None, upd_ci_location = None\<rparr>"
  have e: "empty_update ?u"
    by (simp add: empty_update_def)
  have ec: "empty_clock_in_update ?cu"
    by (simp add: empty_clock_in_update_def)
  have h: "hex24 ''0102030405060708090a0bff''"
    by (rule hex24_example_ff)
  have r: "empty_set_rejected ?db" and r0: "\<not> empty_set_rejected ?dbz"
    by simp_all
  have n: "\<not> is_valid ''0102030405060708090a0bf''"
    by (simp add: is_valid_def ObjectId_def)
  have g: "get_item ?dbz ''0102030405060708090a0bff'' = Inl (HTTPException 204 ''Item not found'')"
    by (simp add: get_item_def ObjectId_example_ff find_one_def)
  note t1 = empty_update_is_store_fault [of ?u "''0102030405060708090a0bff''" ?db ?cu]
  note t2 = empty_update_is_store_fault [of ?u "''0102030405060708090a0bff''" ?dbz ?cu]
  note t3 = empty_update_is_store_fault [of ?u "''0102030405060708090a0bf''" ?dbz ?cu]
  from t1 e ec h r have a: "update_item ?db ''0102030405060708090a0bff'' ?u = (Inl WriteError, ?db)"
    and b: "update_clock_in ?db ''0102030405060708090a0bff'' ?cu = (Inl WriteError, ?db)"
    by blast+
  from t2 e h r0 have "update_item ?dbz ''0102030405060708090a0bff'' ?u
      = (get_item ?dbz ''0102030405060708090a0bff'', ?dbz)"
    by blast
  then have c: "update_item ?dbz ''0102030405060708090a0bff'' ?u
      = (Inl (HTTPException 204 ''Item not found''), ?dbz)"
    unfolding g .
  from t3 e n have d: "update_item ?dbz ''0102030405060708090a0bf'' ?u = (Inl InvalidId, ?dbz)"
    by blast
  from e ec h r a b r0 c n d show ?thesis
    by (intro conjI)
qed

section \<open>Filters that fail\<close>

lemma if_date_error: "if_date strptime_date p = Inl e \<Longrightarrow> e = ValueError"
  by (cases p) (auto split: if_splits sum.splits dest: strptime_date_error)

lemma if_datetime_error: "if_date strptime_datetime p = Inl e \<Longrightarrow> e = ValueError"
  by (cases p) (auto split: if_splits sum.splits dest: strptime_datetime_error)

lemma filter_items_query_error: "filter_items_query e x i q = Inl err \<Longrightarrow> err = ValueError"
  by (auto simp: filter_items_query_def split: sum.splits dest: if_date_error)

lemma filter_clock_in_query_error: "filter_clock_in_query e l t = Inl err \<Longrightarrow> err = ValueError"
  by (auto simp: filter_clock_in_query_def split: sum.splits dest: if_datetime_error)

lemma filter_items_overflow:
  assumes "filter_items_query e x i q = Inr query" and "q_quantity query = Some n"
    and "\<not> bson_int_ok n"
  shows "filter_items db e x i q = Inl OverflowError"
  using assms by (simp add: filter_items_def items_find_def)

lemma strptime_datetime_malformed: "strptime_datetime ''2025-01-01 00:00:00'' = Inl ValueError"
  by code_simp

lemma length_n_lists_12: "length (List.n_lists 12 [0, 1 :: 8 word]) = 4096"
proof -
  have "length (List.n_lists 12 [0, 1 :: 8 word]) = length [0, 1 :: 8 word] ^ 12"
    by (rule length_n_lists)
  also have "length [0, 1 :: 8 word] = 2"
    by simp
  also have "(2 :: nat) ^ 12 = 4096"
    by simp
  finally show ?thesis .
qed

lemma length_first_ids: "length (take 101 (List.n_lists 12 [0, 1 :: 8 word])) = 101"
  by (simp add: length_n_lists_12)

lemma distinct_first_ids: "distinct (take 101 (List.n_lists 12 [0, 1 :: 8 word]))"
  by (intro distinct_take distinct_n_lists) simp

section \<open>C8: the cap of the filters\<close>

text \<open>
  C8, as stated, fails: on an empty store no record matches, and yet a filter request
  whose date parameter does not parse, and an item filter request whose threshold is
  beyond 8 bytes, end in an error and not in the empty sequence.
\<close>

theorem filter_error_counterexample:
  "items \<lparr>items = [], clock_in_records = [], empty_set_rejected = True\<rparr> = []
   \<and> clock_in_records \<lparr>items = [], clock_in_records = [], empty_set_rejected = True\<rparr> = []
   \<and> filter_items \<lparr>items = [], clock_in_records = [], empty_set_rejected = True\<rparr>
        None (Some ''01/02/2025'') None None = Inl ValueError
   \<and> filter_items \<lparr>items = [], clock_in_records = [], empty_set_rejected = True\<rparr>
        None None None (Some (2 ^ 63)) = Inl OverflowError
   \<and> filter_clock_in \<lparr>items = [], clock_in_records = [], empty_set_rejected = True\<rparr>
        None None (Some ''2025-01-01 00:00:00'') = Inl ValueError"
  by (simp add: filter_items_def filter_items_query_def strptime_date_malformed
      items_find_def bson_int_ok_def filter_clock_in_def filter_clock_in_query_def
      strptime_datetime_malformed)

text \<open>
  C8, amended. A filter returns at most 100 records. A request whose query can be built
  (the date strings that are given and not empty parse, and the threshold fits a BSON
  integer) has a result, and when no document matches the query the result is the empty
  list, not a failure. A request with a date string that does not parse fails with the
  \<open>ValueError\<close> of the parser, and an item request whose threshold does not fit fails
  with the \<open>OverflowError\<close> of the encoder, whatever the store holds; no handler
  catches either (status 500).
\<close>

theorem filter_at_most_100:
  "(filter_items db e x i q = Inr rs \<longrightarrow> length rs \<le> 100)
   \<and> (filter_items_query e x i q = Inr query
        \<and> (\<forall>n. q_quantity query = Some n \<longrightarrow> bson_int_ok n) \<longrightarrow>
      (\<exists>rs'. filter_items db e x i q = Inr rs')
      \<and> ((\<forall>d \<in> set (items db). \<not> item_matches query d) \<longrightarrow>
           filter_items db e x i q = Inr []))
   \<and> (filter_items_query e x i q = Inl err \<longrightarrow>
        err = ValueError \<and> filter_items db e x i q = Inl ValueError)
   \<and> (filter_items_query e x i q = Inr query
        \<and> (\<exists>n. q_quantity query = Some n \<and> \<not> bson_int_ok n) \<longrightarrow>
        filter_items db e x i q = Inl OverflowError)
   \<and> (filter_clock_in db ce l t = Inr crs \<longrightarrow> length crs \<le> 100)
   \<and> (filter_clock_in_query ce l t = Inr cquery \<longrightarrow>
      (\<exists>crs'. filter_clock_in db ce l t = Inr crs')
      \<and> ((\<forall>d \<in> set (clock_in_records db). \<not> clock_in_matches cquery d) \<longrightarrow>
           filter_clock_in db ce l t = Inr []))
   \<and> (filter_clock_in_query ce l t = Inl cerr \<longrightarrow>
        cerr = ValueError \<and> filter_clock_in db ce l t = Inl ValueError)
   \<and> status_code ValueError = 500 \<and> status_code OverflowError = 500"
proof -
  have a: "length rs \<le> 100" if "filter_items db e x i q = Inr rs"
    using that by (rule filter_items_result) simp
  have b: "length crs \<le> 100" if "filter_clock_in db ce l t = Inr crs"
    using that by (rule filter_clock_in_result) simp
  have c: "(\<exists>rs'. filter_items db e x i q = Inr rs')
      \<and> ((\<forall>d \<in> set (items db). \<not> item_matches query d) \<longrightarrow>
           filter_items db e x i q = Inr [])"
    if h: "filter_items_query e x i q = Inr query
        \<and> (\<forall>n. q_quantity query = Some n \<longrightarrow> bson_int_ok n)"
  proof -
    from h have t: "filter_items db e x i q =
           Inr (map item_serializer (take 100 (filter (item_matches query) (items db))))"
      by (intro filter_items_total) simp_all
    have "filter (item_matches query) (items db) = []"
      if "\<forall>d \<in> set (items db). \<not> item_matches query d"
      using that by (simp add: filter_empty_conv)
    with t show ?thesis by simp
  qed
  have d: "(\<exists>crs'. filter_clock_in db ce l t = Inr crs')
      \<and> ((\<forall>d \<in> set (clock_in_records db). \<not> clock_in_matches cquery d) \<longrightarrow>
           filter_clock_in db ce l t = Inr [])"
    if h: "filter_clock_in_query ce l t = Inr cquery"
  proof -
    note t = filter_clock_in_total [OF h, of db]
    have "filter (clock_in_matches cquery) (clock_in_records db) = []"
      if "\<forall>d \<in> set (clock_in_records db). \<not> clock_in_matches cquery d"
      using that by (simp add: filter_empty_conv)
    with t show ?thesis by simp
  qed
  have e: "err = ValueError \<and> filter_items db e x i q = Inl ValueError"
    if h: "filter_items_query e x i q = Inl err"
  proof -
    from h have "err = ValueError" by (rule filter_items_query_error)
    with h show ?thesis by (simp add: filter_items_def)
  qed
  have f: "cerr = ValueError \<and> filter_clock_in db ce l t = Inl ValueError"
    if h: "filter_clock_in_query ce l t = Inl cerr"
  proof -
    from h have "cerr = ValueError" by (rule filter_clock_in_query_error)
    with h show ?thesis by (simp add: filter_clock_in_def)
  qed
  have g: "filter_items db e x i q = Inl OverflowError"
    if "filter_items_query e x i q = Inr query
        \<and> (\<exists>n. q_quantity query = Some n \<and> \<not> bson_int_ok n)"
    using that by (auto intro: filter_items_overflow)
  have st: "status_code ValueError = 500" "status_code OverflowError = 500"
    by simp_all
  from a b c d e f g st show ?thesis
    by blast
qed

theorem filter_at_most_100_witness:
  "length (items
      \<lparr>items = zip (take 101 (List.n_lists 12 [0, 1]))
         (replicate 101
           \<lparr>doc_name = ''n'', doc_email = ''a@x.com'', doc_item_name = ''i'',
            doc_quantity = 7,
            doc_expiry_date = \<lparr>year = 2025, month = 1, day = 1, hour = 0, minute = 0,
              second = 0, microsecond = 0\<rparr>,
            doc_insert_date = \<lparr>year = 2024, month = 1, day = 1, hour = 0, minute = 0,
              second = 0, microsecond = 0\<rparr>\<rparr>),
       clock_in_records = [], empty_set_rejected = True\<rparr>) = 101
   \<and> unique_ids
      \<lparr>items = zip (take 101 (List.n_lists 12 [0, 1]))
         (replicate 101
           \<lparr>doc_name = ''n'', doc_email = ''a@x.com'', doc_item_name = ''i'',
            doc_quantity = 7,
            doc_expiry_date = \<lparr>year = 2025, month = 1, day = 1, hour = 0, minute = 0,
              second = 0, microsecond = 0\<rparr>,
            doc_insert_date = \<lparr>year = 2024, month = 1, day = 1, hour = 0, minute = 0,
              second = 0, microsecond = 0\<rparr>\<rparr>),
       clock_in_records = [], empty_set_rejected = True\<rparr>
   \<and> filter_items
      \<lparr>items = zip (take 101 (List.n_lists 12 [0, 1]))
         (replicate 101
           \<lparr>doc_name = ''n'', doc_email = ''a@x.com'', doc_item_name = ''i'',
            doc_quantity = 7,
            doc_expiry_date = \<lparr>year = 2025, month = 1, day = 1, hour = 0, minute = 0,
              second = 0, microsecond = 0\<rparr>,
            doc_insert_date = \<lparr>year = 2024, month = 1, day = 1, hour = 0, minute = 0,
              second = 0, microsecond = 0\<rparr>\<rparr>),
       clock_in_records = [], empty_set_rejected = True\<rparr>
      None None None None
     = Inr (map item_serializer (take 100
         (zip (take 101 (List.n_lists 12 [0, 1]))
           (replicate 101
             \<lparr>doc_name = ''n'', doc_email = ''a@x.com'', doc_item_name = ''i'',
              doc_quantity = 7,
              doc_expiry_date = \<lparr>year = 2025, month = 1, day = 1, hour = 0, minute = 0,
                second = 0, microsecond = 0\<rparr>,
              doc_insert_date = \<lparr>year = 2024, month = 1, day = 1, hour = 0, minute = 0,
                second = 0, microsecond = 0\<rparr>\<rparr>))))
   \<and> length (map item_serializer (take 100
         (zip (take 101 (List.n_lists 12 [0, 1]))
           (replicate 101
             \<lparr>doc_name = ''n'', doc_email = ''a@x.com'', doc_item_name = ''i'',
              doc_quantity = 7,
              doc_expiry_date = \<lparr>year = 2025, month = 1, day = 1, hour = 0, minute = 0,
                second = 0, microsecond = 0\<rparr>,
              doc_insert_date = \<lparr>year = 2024, month = 1, day = 1, hour = 0, minute = 0,
                second = 0, microsecond = 0\<rparr>\<rparr>)))) \<le> 100
   \<and> length (map item_serializer (take 100
         (zip (take 101 (List.n_lists 12 [0, 1]))
           (replicate 101
             \<lparr>doc_name = ''n'', doc_email = ''a@x.com'', doc_item_name = ''i'',
              doc_quantity = 7,
              doc_expiry_date = \<lparr>year = 2025, month = 1, day = 1, hour = 0, minute = 0,
                second = 0, microsecond = 0\<rparr>,
              doc_insert_date = \<lparr>year = 2024, month = 1, day = 1, hour = 0, minute = 0,
                second = 0, microsecond = 0\<rparr>\<rparr>)))) = 100
   \<and> filter_items_query (Some ''b@x.com'') (Some ''2025-01-01'') None (Some 5)
     = Inr \<lparr>q_email = Some ''b@x.com'',
         q_expiry_date = Some \<lparr>year = 2025, month = 1, day = 1, hour = 0, minute = 0,
             second = 0, microsecond = 0\<rparr>,
         q_insert_date = None, q_quantity = Some 5\<rparr>
   \<and> bson_int_ok 5
   \<and> \<not> item_matches
       \<lparr>q_email = Some ''b@x.com'',
         q_expiry_date = Some \<lparr>year = 2025, month = 1, day = 1, hour = 0, minute = 0,
             second = 0, microsecond = 0\<rparr>,
         q_insert_date = None, q_quantity = Some 5\<rparr>
       ([1, 2, 3, 4, 5, 6, 7, 8, 9, 10, 11, 255],
          \<lparr>doc_name = ''n'', doc_email = ''a@x.com'', doc_item_name = ''i'',
           doc_quantity = 7,
           doc_expiry_date = \<lparr>year = 2025, month = 1, day = 1, hour = 0, minute = 0,
             second = 0, microsecond = 0\<rparr>,
           doc_insert_date = \<lparr>year = 2024, month = 1, day = 1, hour = 0, minute = 0,
             second = 0, microsecond = 0\<rparr>\<rparr>)
   \<and> filter_items
     \<lparr>items =
        [([1, 2, 3, 4, 5, 6, 7, 8, 9, 10, 11, 255],
          \<lparr>doc_name = ''n'', doc_email = ''a@x.com'', doc_item_name = ''i'',
           doc_quantity = 7,
           doc_expiry_date = \<lparr>year = 2025, month = 1, day = 1, hour = 0, minute = 0,
             second = 0, microsecond = 0\<rparr>,
           doc_insert_date = \<lparr>year = 2024, month = 1, day = 1, hour = 0, minute = 0,
             second = 0, microsecond = 0\<rparr>\<rparr>)],
      clock_in_records =
        [([1, 2, 3, 4, 5, 6, 7, 8, 9, 10, 11, 254],
          \<lparr>cdoc_email = ''a@x.com'', cdoc_location = ''here'',
           cdoc_insert_datetime = \<lparr>year = 2024, month = 1, day = 1, hour = 0, minute = 0,
             second = 0, microsecond = 0\<rparr>\<rparr>)],
      empty_set_rejected = True\<rparr>
     (Some ''b@x.com'') (Some ''2025-01-01'') None (Some 5) = Inr []
   \<and> filter_clock_in_query None None (Some ''2025-01-01T00:00:00'')
     = Inr \<lparr>cq_email = None, cq_location = None,
         cq_insert_datetime = Some \<lparr>year = 2025, month = 1, day = 1, hour = 0, minute = 0,
             second = 0, microsecond = 0\<rparr>\<rparr>
   \<and> \<not> clock_in_matches
       \<lparr>cq_email = None, cq_location = None,
         cq_insert_datetime = Some \<lparr>year = 2025, month = 1, day = 1, hour = 0, minute = 0,
             second = 0, microsecond = 0\<rparr>\<rparr>
       ([1, 2, 3, 4, 5, 6, 7, 8, 9, 10, 11, 254],
          \<lparr>cdoc_email = ''a@x.com'', cdoc_location = ''here'',
           cdoc_insert_datetime = \<lparr>year = 2024, month = 1, day = 1, hour = 0, minute = 0,
             second = 0, microsecond = 0\<rparr>\<rparr>)
   \<and> filter_clock_in
     \<lparr>items =
        [([1, 2, 3, 4, 5, 6, 7, 8, 9, 10, 11, 255],
          \<lparr>doc_name = ''n'', doc_email = ''a@x.com'', doc_item_name = ''i'',
           doc_quantity = 7,
           doc_expiry_date = \<lparr>year = 2025, month = 1, day = 1, hour = 0, minute = 0,
             second = 0, microsecond = 0\<rparr>,
           doc_insert_date = \<lparr>year = 2024, month = 1, day = 1, hour = 0, minute = 0,
             second = 0, microsecond = 0\<rparr>\<rparr>)],
      clock_in_records =
        [([1, 2, 3, 4, 5, 6, 7, 8, 9, 10, 11, 254],
          \<lparr>cdoc_email = ''a@x.com'', cdoc_location = ''here'',
           cdoc_insert_datetime = \<lparr>year = 2024, month = 1, day = 1, hour = 0, minute = 0,
             second = 0, microsecond = 0\<rparr>\<rparr>)],
      empty_set_rejected = True\<rparr>
     None None (Some ''2025-01-01T00:00:00'') = Inr []"
proof -
  let ?doc = "\<lparr>doc_name = ''n'', doc_email = ''a@x.com'', doc_item_name = ''i'',
            doc_quantity = 7,
            doc_expiry_date = \<lparr>year = 2025, month = 1, day = 1, hour = 0, minute = 0,
              second = 0, microsecond = 0\<rparr>,
            doc_insert_date = \<lparr>year = 2024, month = 1, day = 1, hour = 0, minute = 0,
              second = 0, microsecond = 0\<rparr>\<rparr>"
  let ?coll = "zip (take 101 (List.n_lists 12 [0, 1 :: 8 word])) (replicate 101 ?doc)"
  let ?big = "\<lparr>items = ?coll, clock_in_records = [], empty_set_rejected = True\<rparr>"
  let ?d = "([1, 2, 3, 4, 5, 6, 7, 8, 9, 10, 11, 255 :: 8 word], ?doc)"
  let ?c = "([1, 2, 3, 4, 5, 6, 7, 8, 9, 10, 11, 254 :: 8 word],
          \<lparr>cdoc_email = ''a@x.com'', cdoc_location = ''here'',
           cdoc_insert_datetime = \<lparr>year = 2024, month = 1, day = 1, hour = 0, minute = 0,
             second = 0, microsecond = 0\<rparr>\<rparr>)"
  let ?small = "\<lparr>items = [?d], clock_in_records = [?c], empty_set_rejected = True\<rparr>"
  let ?q = "\<lparr>q_email = Some ''b@x.com'',
         q_expiry_date = Some \<lparr>year = 2025, month = 1, day = 1, hour = 0, minute = 0,
             second = 0, microsecond = 0\<rparr>,
         q_insert_date = None, q_quantity = Some 5\<rparr>"
  let ?cq = "\<lparr>cq_email = None, cq_location = None,
         cq_insert_datetime = Some \<lparr>year = 2025, month = 1, day = 1, hour = 0, minute = 0,
             second = 0, microsecond = 0\<rparr>\<rparr>"
  let ?rs = "map item_serializer (take 100 ?coll)"
  have l: "length (items ?big) = 101"
    by (simp add: length_n_lists_12)
  have "map fst ?coll = take 101 (List.n_lists 12 [0, 1 :: 8 word])"
    by (rule map_fst_zip) (simp add: length_n_lists_12)
  then have u: "unique_ids ?big"
    by (simp add: unique_ids_def distinct_first_ids)
  have r: "filter_items ?big None None None None = Inr ?rs"
    by (simp add: filter_items_no_parameter)
  have l100: "length ?rs = 100"
    by (simp add: length_n_lists_12)
  have q: "filter_items_query (Some ''b@x.com'') (Some ''2025-01-01'') None (Some 5) = Inr ?q"
    by (simp add: filter_items_query_def strptime_date_example)
  have b: "bson_int_ok 5"
    by (simp add: bson_int_ok_def)
  have n: "\<not> item_matches ?q ?d"
    by (simp add: item_matches_def)
  have cq: "filter_clock_in_query None None (Some ''2025-01-01T00:00:00'') = Inr ?cq"
    by (simp add: filter_clock_in_query_def strptime_datetime_example)
  have cn: "\<not> clock_in_matches ?cq ?c"
    by (simp add: clock_in_matches_def datetime_gt_def datetime_key_def)
  note t1 = filter_at_most_100 [of ?big None None None None ?rs ?q ValueError
      None None None "[]" ?cq ValueError]
  note t2 = filter_at_most_100 [of ?small "Some ''b@x.com''" "Some ''2025-01-01''" None
      "Some 5" "[]" ?q ValueError None None "Some ''2025-01-01T00:00:00''" "[]" ?cq ValueError]
  from t1 r have c1: "length ?rs \<le> 100"
    by blast
  have h2: "filter_items_query (Some ''b@x.com'') (Some ''2025-01-01'') None (Some 5) = Inr ?q
      \<and> (\<forall>n. q_quantity ?q = Some n \<longrightarrow> bson_int_ok n)"
    using q b by simp
  have h3: "\<forall>d \<in> set (items ?small). \<not> item_matches ?q d"
    using n by simp
  have h4: "\<forall>d \<in> set (clock_in_records ?small). \<not> clock_in_matches ?cq d"
    using cn by simp
  from t2 h2 h3 have c2: "filter_items ?small (Some ''b@x.com'') (Some ''2025-01-01'') None
      (Some 5) = Inr []"
    by blast
  from t2 cq h4 have c3: "filter_clock_in ?small None None (Some ''2025-01-01T00:00:00'')
      = Inr []"
    by blast
  from l u r c1 l100 q b n c2 cq cn c3 show ?thesis
    by (intro conjI)
qed

section \<open>The constraints of the item filter\<close>

lemma item_matches_meets_filter:
  assumes "filter_items_query e x i q = Inr query"
  shows "item_matches query d = meets_filter e x i q d"
proof -
  have a: "(case q_email query of None \<Rightarrow> True | Some s \<Rightarrow> doc_email (snd d) = s)
      = (case e of None \<Rightarrow> True | Some s \<Rightarrow> s = [] \<or> doc_email (snd d) = s)"
    using filter_items_query_fields(1) [OF assms] by (cases e) simp_all
  have b: "(case q_quantity query of None \<Rightarrow> True | Some n \<Rightarrow> n \<le> doc_quantity (snd d))
      = (case q of None \<Rightarrow> True | Some n \<Rightarrow> n = 0 \<or> n \<le> doc_quantity (snd d))"
    using filter_items_query_fields(2) [OF assms] by (cases q) simp_all
  have c: "(case t of None \<Rightarrow> True | Some t' \<Rightarrow> datetime_gt v t')
      = (case p of None \<Rightarrow> True
         | Some s \<Rightarrow> s = [] \<or> (case strptime_date s of Inl e \<Rightarrow> False
                                  | Inr t' \<Rightarrow> datetime_gt v t'))"
    if "if_date strptime_date p = Inr t" for p t v
    using that by (cases p) (auto split: if_splits sum.splits)
  show ?thesis
    unfolding item_matches_def meets_filter_def a b
      c [OF filter_items_query_fields(3) [OF assms]]
      c [OF filter_items_query_fields(4) [OF assms]]
    by (rule refl)
qed

lemma filter_items_meets_filter:
  assumes "filter_items db e x i q = Inr rs"
  shows "rs = map item_serializer (take 100 (filter (meets_filter e x i q) (items db)))"
proof -
  from assms obtain query where q: "filter_items_query e x i q = Inr query"
    and rs: "rs = map item_serializer (take 100 (filter (item_matches query) (items db)))"
    by (rule filter_items_result)
  have "item_matches query = meets_filter e x i q"
    by (rule ext) (rule item_matches_meets_filter [OF q])
  with rs show ?thesis by simp
qed

section \<open>C6: the quantity threshold of the item filter\<close>

text \<open>
  C6, as stated, fails: a threshold of 0 is a parameter that is provided, but it is
  false and builds no constraint, so an item of negative quantity is returned.
\<close>

theorem quantity_gte_zero_counterexample:
  "map_sum id (map out_quantity)
     (filter_items
        \<lparr>items =
           [([1, 2, 3, 4, 5, 6, 7, 8, 9, 10, 11, 255],
             \<lparr>doc_name = ''n'', doc_email = ''a@x.com'', doc_item_name = ''i'',
              doc_quantity = - 1,
              doc_expiry_date = \<lparr>year = 2025, month = 1, day = 1, hour = 0, minute = 0,
                second = 0, microsecond = 0\<rparr>,
              doc_insert_date = \<lparr>year = 2024, month = 1, day = 1, hour = 0, minute = 0,
                second = 0, microsecond = 0\<rparr>\<rparr>)],
         clock_in_records = [], empty_set_rejected = True\<rparr>
        None None None (Some 0))
   = Inr [- 1]
   \<and> (- 1 :: int) < 0"
  by (simp add: filter_items_zero filter_items_no_parameter item_serializer_def)

text \<open>
  C6, amended. A threshold that is provided and not 0 is respected: every record the
  filter returns has a quantity of at least the threshold. A threshold of 0 imposes no
  constraint: the filter answers as if the threshold were absent. And a parameter that
  is absent imposes no constraint, whichever the other parameters are: the result of the
  filter is the first 100 of the documents that meet the constraints that the request
  states (\<open>meets_filter\<close>), in which an absent parameter states none.
\<close>

theorem quantity_gte_sound:
  "(filter_items db e x i q = Inr rs \<longrightarrow>
      (\<forall>n. q = Some n \<and> n \<noteq> 0 \<longrightarrow> (\<forall>r \<in> set rs. n \<le> out_quantity r))
      \<and> rs = map item_serializer (take 100 (filter (meets_filter e x i q) (items db))))
   \<and> filter_items db e x i (Some 0) = filter_items db e x i None
   \<and> filter_items db None None None None = Inr (map item_serializer (take 100 (items db)))"
proof -
  have a: "(\<forall>n. q = Some n \<and> n \<noteq> 0 \<longrightarrow> (\<forall>r \<in> set rs. n \<le> out_quantity r))
      \<and> rs = map item_serializer (take 100 (filter (meets_filter e x i q) (items db)))"
    if h: "filter_items db e x i q = Inr rs"
  proof -
    have rs: "rs = map item_serializer (take 100 (filter (meets_filter e x i q) (items db)))"
      using h by (rule filter_items_meets_filter)
    have "n \<le> out_quantity r" if "q = Some n" and "n \<noteq> 0" and "r \<in> set rs" for n r
    proof -
      from that(3) rs obtain d where d: "d \<in> set (take 100 (filter (meets_filter e x i q) (items db)))"
        and r: "r = item_serializer d"
        by auto
      from d have "meets_filter e x i q d"
        by (auto dest: in_set_takeD)
      with that(1,2) have "n \<le> doc_quantity (snd d)"
        by (simp add: meets_filter_def)
      with r show ?thesis
        by (simp add: item_serializer_def)
    qed
    with rs show ?thesis
      by blast
  qed
  have b: "filter_items db e x i (Some 0) = filter_items db e x i None"
    by (rule filter_items_zero)
  have c: "filter_items db None None None None
      = Inr (map item_serializer (take 100 (items db)))"
    by (rule filter_items_no_parameter)
  from a b c show ?thesis
    by blast
qed

theorem quantity_gte_sound_witness:
  "filter_items
      \<lparr>items =
         [([1, 2, 3, 4, 5, 6, 7, 8, 9, 10, 11, 255],
           \<lparr>doc_name = ''n'', doc_email = ''a@x.com'', doc_item_name = ''i'',
            doc_quantity = 7,
            doc_expiry_date = \<lparr>year = 2025, month = 1, day = 1, hour = 0, minute = 0,
              second = 0, microsecond = 0\<rparr>,
            doc_insert_date = \<lparr>year = 2024, month = 1, day = 1, hour = 0, minute = 0,
              second = 0, microsecond = 0\<rparr>\<rparr>),
          ([1, 2, 3, 4, 5, 6, 7, 8, 9, 10, 11, 254],
           \<lparr>doc_name = ''m'', doc_email = ''b@x.com'', doc_item_name = ''j'',
            doc_quantity = 9,
            doc_expiry_date = \<lparr>year = 2025, month = 1, day = 1, hour = 0, minute = 0,
              second = 0, microsecond = 0\<rparr>,
            doc_insert_date = \<lparr>year = 2024, month = 1, day = 1, hour = 0, minute = 0,
              second = 0, microsecond = 0\<rparr>\<rparr>),
          ([1, 2, 3, 4, 5, 6, 7, 8, 9, 10, 11, 253],
           \<lparr>doc_name = ''l'', doc_email = ''a@x.com'', doc_item_name = ''k'',
            doc_quantity = 2,
            doc_expiry_date = \<lparr>year = 2025, month = 1, day = 1, hour = 0, minute = 0,
              second = 0, microsecond = 0\<rparr>,
            doc_insert_date = \<lparr>year = 2024, month = 1, day = 1, hour = 0, minute = 0,
              second = 0, microsecond = 0\<rparr>\<rparr>)],
       clock_in_records = [], empty_set_rejected = True\<rparr>
      (Some ''a@x.com'') None None (Some 5)
     = Inr [\<lparr>out_id = ''0102030405060708090a0bff'', out_name = ''n'',
             out_email = ''a@x.com'', out_item_name = ''i'', out_quantity = 7,
             out_expiry_date = \<lparr>year = 2025, month = 1, day = 1, hour = 0, minute = 0,
               second = 0, microsecond = 0\<rparr>,
             out_insert_date = \<lparr>year = 2024, month = 1, day = 1, hour = 0, minute = 0,
               second = 0, microsecond = 0\<rparr>\<rparr>]
   \<and> (5 :: int) \<noteq> 0
   \<and> 5 \<le> out_quantity
       \<lparr>out_id = ''0102030405060708090a0bff'', out_name = ''n'',
        out_email = ''a@x.com'', out_item_name = ''i'', out_quantity = 7,
        out_expiry_date = \<lparr>year = 2025, month = 1, day = 1, hour = 0, minute = 0,
          second = 0, microsecond = 0\<rparr>,
        out_insert_date = \<lparr>year = 2024, month = 1, day = 1, hour = 0, minute = 0,
          second = 0, microsecond = 0\<rparr>\<rparr>"
proof -
  let ?d1 = "([1, 2, 3, 4, 5, 6, 7, 8, 9, 10, 11, 255 :: 8 word],
           \<lparr>doc_name = ''n'', doc_email = ''a@x.com'', doc_item_name = ''i'',
            doc_quantity = 7,
            doc_expiry_date = \<lparr>year = 2025, month = 1, day = 1, hour = 0, minute = 0,
              second = 0, microsecond = 0\<rparr>,
            doc_insert_date = \<lparr>year = 2024, month = 1, day = 1, hour = 0, minute = 0,
              second = 0, microsecond = 0\<rparr>\<rparr>)"
  let ?d2 = "([1, 2, 3, 4, 5, 6, 7, 8, 9, 10, 11, 254 :: 8 word],
           \<lparr>doc_name = ''m'', doc_email = ''b@x.com'', doc_item_name = ''j'',
            doc_quantity = 9,
            doc_expiry_date = \<lparr>year = 2025, month = 1, day = 1, hour = 0, minute = 0,
              second = 0, microsecond = 0\<rparr>,
            doc_insert_date = \<lparr>year = 2024, month = 1, day = 1, hour = 0, minute = 0,
              second = 0, microsecond = 0\<rparr>\<rparr>)"
  let ?d3 = "([1, 2, 3, 4, 5, 6, 7, 8, 9, 10, 11, 253 :: 8 word],
           \<lparr>doc_name = ''l'', doc_email = ''a@x.com'', doc_item_name = ''k'',
            doc_quantity = 2,
            doc_expiry_date = \<lparr>year = 2025, month = 1, day = 1, hour = 0, minute = 0,
              second = 0, microsecond = 0\<rparr>,
            doc_insert_date = \<lparr>year = 2024, month = 1, day = 1, hour = 0, minute = 0,
              second = 0, microsecond = 0\<rparr>\<rparr>)"
  let ?db = "\<lparr>items = [?d1, ?d2, ?d3], clock_in_records = [], empty_set_rejected = True\<rparr>"
  let ?r = "\<lparr>out_id = ''0102030405060708090a0bff'', out_name = ''n'',
             out_email = ''a@x.com'', out_item_name = ''i'', out_quantity = 7,
             out_expiry_date = \<lparr>year = 2025, month = 1, day = 1, hour = 0, minute = 0,
               second = 0, microsecond = 0\<rparr>,
             out_insert_date = \<lparr>year = 2024, month = 1, day = 1, hour = 0, minute = 0,
               second = 0, microsecond = 0\<rparr>\<rparr>"
  have h: "filter_items ?db (Some ''a@x.com'') None None (Some 5) = Inr [?r]"
    by (simp add: filter_items_def filter_items_query_def items_find_def to_list_def
        item_matches_def item_serializer_def str_oid_example bson_int_ok_def)
  have n: "(5 :: int) \<noteq> 0"
    by simp
  from quantity_gte_sound [of ?db "Some ''a@x.com''" None None "Some 5" "[?r]"] h n
  have "\<forall>r \<in> set [?r]. 5 \<le> out_quantity r"
    by blast
  then have c: "5 \<le> out_quantity ?r"
    by simp
  from h n c show ?thesis
    by (intro conjI)
qed

section \<open>The date that a string names\<close>

lemma rng_not_hyphen: "rng lo hi c \<Longrightarrow> c \<noteq> CHR ''-''"
  by (auto simp: rng_def)

lemma digit_space: "digit CHR '' '' = 0"
  by (simp add: digit_def)

lemma one_sound:
  "(v, r) \<in> set (one (rng lo hi) s) \<Longrightarrow>
     \<exists>p. s = p @ r \<and> CHR ''-'' \<notin> set p \<and> v = decimal p"
proof (cases s)
  case Nil
  assume "(v, r) \<in> set (one (rng lo hi) s)"
  with Nil show ?thesis by simp
next
  case (Cons a cs)
  assume "(v, r) \<in> set (one (rng lo hi) s)"
  with Cons have "rng lo hi a" and "v = digit a" and "r = cs"
    by (auto split: if_splits)
  with Cons have "s = [a] @ r \<and> CHR ''-'' \<notin> set [a] \<and> v = decimal [a]"
    by (auto simp: decimal_def dest: rng_not_hyphen)
  then show ?thesis by blast
qed

lemma two_sound:
  assumes "(v, r) \<in> set (two (rng lo hi) (rng lo' hi') s)"
  shows "\<exists>p. s = p @ r \<and> CHR ''-'' \<notin> set p \<and> v = decimal p"
proof (cases s)
  case Nil
  with assms show ?thesis by simp
next
  case (Cons a s')
  show ?thesis
  proof (cases s')
    case Nil
    with Cons assms show ?thesis by simp
  next
    case (Cons b cs)
    with \<open>s = a # s'\<close> assms have "rng lo hi a" and "rng lo' hi' b"
      and "v = 10 * digit a + digit b" and "r = cs"
      by (auto split: if_splits)
    with Cons \<open>s = a # s'\<close>
    have "s = [a, b] @ r \<and> CHR ''-'' \<notin> set [a, b] \<and> v = decimal [a, b]"
      by (auto simp: decimal_def dest: rng_not_hyphen)
    then show ?thesis by blast
  qed
qed

lemma lit_sound: "r \<in> set (lit p s) \<Longrightarrow> \<exists>a. s = a # r \<and> p a"
  by (cases s) (auto split: if_splits)

lemma directive_Y_sound:
  "(y, r) \<in> set (directive_Y s) \<Longrightarrow>
     \<exists>p. s = p @ r \<and> CHR ''-'' \<notin> set p \<and> y = decimal p"
proof (induction s rule: directive_Y.induct)
  case (1 a b c d cs)
  then have "rng 0 9 a" and "rng 0 9 b" and "rng 0 9 c" and "rng 0 9 d"
    and "y = 1000 * digit a + 100 * digit b + 10 * digit c + digit d" and "r = cs"
    by (auto split: if_splits)
  then have "a # b # c # d # cs = [a, b, c, d] @ r \<and> CHR ''-'' \<notin> set [a, b, c, d]
      \<and> y = decimal [a, b, c, d]"
    by (auto simp: decimal_def dest: rng_not_hyphen)
  then show ?case by blast
qed simp_all

lemma directive_m_sound:
  "(m, r) \<in> set (directive_m s) \<Longrightarrow>
     \<exists>p. s = p @ r \<and> CHR ''-'' \<notin> set p \<and> m = decimal p"
  by (auto simp: directive_m_def dest: two_sound one_sound)

lemma directive_d_sound:
  assumes "(d, r) \<in> set (directive_d s)"
  shows "\<exists>p. s = p @ r \<and> CHR ''-'' \<notin> set p \<and> d = decimal p"
proof -
  from assms consider
    "(d, r) \<in> set (two (rng 3 3) (rng 0 1) s)" | "(d, r) \<in> set (two (rng 1 2) (rng 0 9) s)"
    | "(d, r) \<in> set (two (rng 0 0) (rng 1 9) s)" | "(d, r) \<in> set (one (rng 1 9) s)"
    | r' where "r' \<in> set (lit (\<lambda>c. c = CHR '' '') s)" and "(d, r) \<in> set (one (rng 1 9) r')"
    by (auto simp: directive_d_def)
  then show ?thesis
  proof cases
    case 1 then show ?thesis by (rule two_sound)
  next
    case 2 then show ?thesis by (rule two_sound)
  next
    case 3 then show ?thesis by (rule two_sound)
  next
    case 4 then show ?thesis by (rule one_sound)
  next
    case 5
    from 5(1) have s: "s = CHR '' '' # r'"
      by (auto dest: lit_sound)
    from 5(2) obtain p where p: "r' = p @ r" "CHR ''-'' \<notin> set p" "d = decimal p"
      by (auto dest: one_sound)
    have "decimal (CHR '' '' # p) = decimal p"
    proof -
      from 5(2) obtain a where "r' = a # r" and "d = digit a"
        by (cases r') (auto split: if_splits)
      with p(1) have "p = [a]" by simp
      then show ?thesis by (simp add: decimal_def digit_space)
    qed
    with s p have "s = (CHR '' '' # p) @ r \<and> CHR ''-'' \<notin> set (CHR '' '' # p)
        \<and> d = decimal (CHR '' '' # p)"
      by simp
    then show ?thesis by blast
  qed
qed

lemma match_date_sound:
  assumes "(y, m, d, r) \<in> set (match_date s)"
  shows "\<exists>py pm pd. s = py @ CHR ''-'' # pm @ CHR ''-'' # pd @ r
      \<and> CHR ''-'' \<notin> set py \<and> CHR ''-'' \<notin> set pm \<and> CHR ''-'' \<notin> set pd
      \<and> y = decimal py \<and> m = decimal pm \<and> d = decimal pd"
proof -
  from assms obtain r1 r2 r3 r4 where y: "(y, r1) \<in> set (directive_Y s)"
    and h1: "r2 \<in> set (lit hyphen r1)" and m: "(m, r3) \<in> set (directive_m r2)"
    and h2: "r4 \<in> set (lit hyphen r3)" and d: "(d, r) \<in> set (directive_d r4)"
    by (auto simp: match_date_def)
  from y obtain py where py: "s = py @ r1" "CHR ''-'' \<notin> set py" "y = decimal py"
    by (auto dest: directive_Y_sound)
  from h1 have r1: "r1 = CHR ''-'' # r2"
    by (auto simp: hyphen_def dest: lit_sound)
  from m obtain pm where pm: "r2 = pm @ r3" "CHR ''-'' \<notin> set pm" "m = decimal pm"
    by (auto dest: directive_m_sound)
  from h2 have r3: "r3 = CHR ''-'' # r4"
    by (auto simp: hyphen_def dest: lit_sound)
  from d obtain pd where pd: "r4 = pd @ r" "CHR ''-'' \<notin> set pd" "d = decimal pd"
    by (auto dest: directive_d_sound)
  from py r1 pm r3 pd have "s = py @ CHR ''-'' # pm @ CHR ''-'' # pd @ r
      \<and> CHR ''-'' \<notin> set py \<and> CHR ''-'' \<notin> set pm \<and> CHR ''-'' \<notin> set pd
      \<and> y = decimal py \<and> m = decimal pm \<and> d = decimal pd"
    by simp
  then show ?thesis by blast
qed

lemma split_on_none: "c \<notin> set p \<Longrightarrow> split_on c p = [p]"
  by (induction p) auto

lemma split_on_append: "c \<notin> set p \<Longrightarrow> split_on c (p @ c # rest) = p # split_on c rest"
proof (induction p)
  case Nil
  show ?case by simp
next
  case (Cons a p)
  then show ?case by auto
qed

lemma strptime_date_named:
  assumes "strptime_date s = Inr t"
  shows "named_date s = Some (year t, month t, day t)"
proof -
  from assms obtain y m d other where md: "match_date s = (y, m, d, []) # other"
    and mk: "mk_datetime y m d 0 0 0 = Inr t"
    by (auto simp: strptime_date_def split: list.splits if_splits)
  from md have "(y, m, d, []) \<in> set (match_date s)"
    by simp
  then obtain py pm pd where s: "s = py @ CHR ''-'' # pm @ CHR ''-'' # pd @ []"
    and n: "CHR ''-'' \<notin> set py" "CHR ''-'' \<notin> set pm" "CHR ''-'' \<notin> set pd"
    and v: "y = decimal py" "m = decimal pm" "d = decimal pd"
    using match_date_sound by blast
  from n have "split_on CHR ''-'' s = [py, pm, pd]"
    unfolding s by (simp add: split_on_append split_on_none)
  then have "named_date s = Some (y, m, d)"
    by (simp add: named_date_def v)
  with mk_datetime_fields(1-3) [OF mk] show ?thesis
    by simp
qed

lemma named_date_example: "named_date ''2025-03-07'' = Some (2025, 3, 7)"
  by code_simp

lemma strptime_date_example_march:
  "strptime_date ''2025-03-07'' =
     Inr \<lparr>year = 2025, month = 3, day = 7, hour = 0, minute = 0, second = 0, microsecond = 0\<rparr>"
  by code_simp

section \<open>Creating with a quantity beyond 8 bytes\<close>

lemma create_item_overflow:
  assumes "strptime_date (expiry_date item) = Inr t" and "\<not> bson_int_ok (quantity item)"
  shows "create_item db utcnow new_id item = (Inl OverflowError, db)"
  using assms by (simp add: create_item_def items_insert_one_def bson_item_def)

section \<open>C3: create, then get\<close>

text \<open>
  C3, as stated, fails: a body whose quantity is an integer beyond 8 bytes is a valid
  creation input, the model \<open>Item\<close> accepts any integer, and its creation does not
  succeed: the encoder of the driver raises \<open>OverflowError\<close> and nothing is inserted.
\<close>

theorem create_overflow_counterexample:
  "strptime_date
       (expiry_date \<lparr>name = ''n'', email = ''a@x.com'', item_name = ''i'',
          quantity = 9223372036854775808, expiry_date = ''2025-03-07''\<rparr>)
     = Inr \<lparr>year = 2025, month = 3, day = 7, hour = 0, minute = 0, second = 0,
            microsecond = 0\<rparr>
   \<and> create_item \<lparr>items = [], clock_in_records = [], empty_set_rejected = True\<rparr>
       \<lparr>year = 2025, month = 6, day = 1, hour = 12, minute = 0, second = 0,
        microsecond = 123456\<rparr>
       [1, 2, 3, 4, 5, 6, 7, 8, 9, 10, 11, 255]
       \<lparr>name = ''n'', email = ''a@x.com'', item_name = ''i'',
        quantity = 9223372036854775808, expiry_date = ''2025-03-07''\<rparr>
     = (Inl OverflowError, \<lparr>items = [], clock_in_records = [], empty_set_rejected = True\<rparr>)
   \<and> status_code OverflowError = 500"
  by (simp add: strptime_date_example_march create_item_def items_insert_one_def
      bson_item_def bson_int_ok_def)

text \<open>
  C3, amended. A creation input whose expiry date parses (to \<open>t\<close>) and whose quantity
  fits a BSON integer succeeds, with the identifier the driver makes, 12 bytes and new
  to the collection: the identifier it returns fetches the very record it returned, and
  in that record the five fields of the input are as given, the expiry date being the
  calendar date that the input string names (\<open>named_date\<close>), at 00:00:00. When the
  quantity does not fit, the creation fails with \<open>OverflowError\<close> and inserts nothing.
\<close>

theorem create_then_get:
  assumes "strptime_date (expiry_date item) = Inr t"
    and "length new_id = 12" and "new_id \<notin> fst ` set (items db)"
  shows "(bson_int_ok (quantity item) \<longrightarrow>
           fst (create_item db utcnow new_id item) =
             Inr \<lparr>out_id = str_oid new_id, out_name = name item, out_email = email item,
                  out_item_name = item_name item, out_quantity = quantity item,
                  out_expiry_date = t, out_insert_date = bson_datetime utcnow\<rparr>
           \<and> get_item (snd (create_item db utcnow new_id item)) (str_oid new_id) =
               fst (create_item db utcnow new_id item))
       \<and> named_date (expiry_date item) = Some (year t, month t, day t)
       \<and> hour t = 0 \<and> minute t = 0 \<and> second t = 0 \<and> microsecond t = 0
       \<and> (\<not> bson_int_ok (quantity item) \<longrightarrow>
           create_item db utcnow new_id item = (Inl OverflowError, db))"
proof -
  let ?doc = "\<lparr>doc_name = name item, doc_email = email item,
                      doc_item_name = item_name item, doc_quantity = quantity item,
                      doc_expiry_date = t, doc_insert_date = bson_datetime utcnow\<rparr>"
  have ok: "fst (create_item db utcnow new_id item) =
             Inr \<lparr>out_id = str_oid new_id, out_name = name item, out_email = email item,
                  out_item_name = item_name item, out_quantity = quantity item,
                  out_expiry_date = t, out_insert_date = bson_datetime utcnow\<rparr>
           \<and> get_item (snd (create_item db utcnow new_id item)) (str_oid new_id) =
               fst (create_item db utcnow new_id item)"
    if q: "bson_int_ok (quantity item)"
  proof -
    note c = create_item_result [OF assms(1) q assms(3), of utcnow]
    have "find_one new_id (items db @ [(new_id, ?doc)]) = Some (new_id, ?doc)"
      using assms(3) by (rule find_one_append_new)
    then have "get_item (snd (create_item db utcnow new_id item)) (str_oid new_id) =
             fst (create_item db utcnow new_id item)"
      using assms(2) by (simp add: c get_item_def ObjectId_str_oid item_serializer_def)
    then show ?thesis
      by (simp add: c)
  qed
  have nd: "named_date (expiry_date item) = Some (year t, month t, day t)"
    using assms(1) by (rule strptime_date_named)
  have ov: "create_item db utcnow new_id item = (Inl OverflowError, db)"
    if "\<not> bson_int_ok (quantity item)"
    using assms(1) that by (rule create_item_overflow)
  from ok nd ov strptime_date_midnight [OF assms(1)] show ?thesis
    by blast
qed

theorem create_then_get_witness:
  "strptime_date
       (expiry_date \<lparr>name = ''n'', email = ''a@x.com'', item_name = ''i'', quantity = 3,
          expiry_date = ''2025-03-07''\<rparr>)
     = Inr \<lparr>year = 2025, month = 3, day = 7, hour = 0, minute = 0, second = 0,
            microsecond = 0\<rparr>
   \<and> length [1, 2, 3, 4, 5, 6, 7, 8, 9, 10, 11, 255 :: 8 word] = 12
   \<and> [1, 2, 3, 4, 5, 6, 7, 8, 9, 10, 11, 255]
       \<notin> fst ` set (items \<lparr>items = [], clock_in_records = [], empty_set_rejected = True\<rparr>)
   \<and> bson_int_ok
       (quantity \<lparr>name = ''n'', email = ''a@x.com'', item_name = ''i'', quantity = 3,
          expiry_date = ''2025-03-07''\<rparr>)
   \<and> fst (create_item \<lparr>items = [], clock_in_records = [], empty_set_rejected = True\<rparr>
          \<lparr>year = 2025, month = 6, day = 1, hour = 12, minute = 0, second = 0,
           microsecond = 123456\<rparr>
          [1, 2, 3, 4, 5, 6, 7, 8, 9, 10, 11, 255]
          \<lparr>name = ''n'', email = ''a@x.com'', item_name = ''i'', quantity = 3,
           expiry_date = ''2025-03-07''\<rparr>)
     = Inr \<lparr>out_id = ''0102030405060708090a0bff'', out_name = ''n'', out_email = ''a@x.com'',
            out_item_name = ''i'', out_quantity = 3,
            out_expiry_date = \<lparr>year = 2025, month = 3, day = 7, hour = 0, minute = 0,
              second = 0, microsecond = 0\<rparr>,
            out_insert_date = \<lparr>year = 2025, month = 6, day = 1, hour = 12, minute = 0,
              second = 0, microsecond = 123000\<rparr>\<rparr>
   \<and> get_item
        (snd (create_item \<lparr>items = [], clock_in_records = [], empty_set_rejected = True\<rparr>
          \<lparr>year = 2025, month = 6, day = 1, hour = 12, minute = 0, second = 0,
           microsecond = 123456\<rparr>
          [1, 2, 3, 4, 5, 6, 7, 8, 9, 10, 11, 255]
          \<lparr>name = ''n'', email = ''a@x.com'', item_name = ''i'', quantity = 3,
           expiry_date = ''2025-03-07''\<rparr>))
        ''0102030405060708090a0bff''
     = Inr \<lparr>out_id = ''0102030405060708090a0bff'', out_name = ''n'', out_email = ''a@x.com'',
            out_item_name = ''i'', out_quantity = 3,
            out_expiry_date = \<lparr>year = 2025, month = 3, day = 7, hour = 0, minute = 0,
              second = 0, microsecond = 0\<rparr>,
            out_insert_date = \<lparr>year = 2025, month = 6, day = 1, hour = 12, minute = 0,
              second = 0, microsecond = 123000\<rparr>\<rparr>
   \<and> named_date ''2025-03-07'' = Some (2025, 3, 7)"
proof -
  let ?item = "\<lparr>name = ''n'', email = ''a@x.com'', item_name = ''i'', quantity = 3,
           expiry_date = ''2025-03-07''\<rparr>"
  let ?db = "\<lparr>items = [], clock_in_records = [], empty_set_rejected = True\<rparr>"
  let ?now = "\<lparr>year = 2025, month = 6, day = 1, hour = 12, minute = 0, second = 0,
           microsecond = 123456\<rparr>"
  let ?t = "\<lparr>year = 2025, month = 3, day = 7, hour = 0, minute = 0, second = 0,
           microsecond = 0\<rparr>"
  let ?r = "\<lparr>out_id = ''0102030405060708090a0bff'', out_name = ''n'', out_email = ''a@x.com'',
            out_item_name = ''i'', out_quantity = 3,
            out_expiry_date = \<lparr>year = 2025, month = 3, day = 7, hour = 0, minute = 0,
              second = 0, microsecond = 0\<rparr>,
            out_insert_date = \<lparr>year = 2025, month = 6, day = 1, hour = 12, minute = 0,
              second = 0, microsecond = 123000\<rparr>\<rparr>"
  have h1: "strptime_date (expiry_date ?item) = Inr ?t"
    by (simp add: strptime_date_example_march)
  have h2: "bson_int_ok (quantity ?item)"
    by (simp add: bson_int_ok_def)
  have h3: "length [1, 2, 3, 4, 5, 6, 7, 8, 9, 10, 11, 255 :: 8 word] = 12"
    by simp
  have h4: "[1, 2, 3, 4, 5, 6, 7, 8, 9, 10, 11, 255] \<notin> fst ` set (items ?db)"
    by simp
  note t = create_then_get [OF h1 h3 h4, of ?now]
  from t h2 have a: "fst (create_item ?db ?now [1, 2, 3, 4, 5, 6, 7, 8, 9, 10, 11, 255] ?item) =
             Inr \<lparr>out_id = str_oid [1, 2, 3, 4, 5, 6, 7, 8, 9, 10, 11, 255],
                  out_name = name ?item, out_email = email ?item,
                  out_item_name = item_name ?item, out_quantity = quantity ?item,
                  out_expiry_date = ?t, out_insert_date = bson_datetime ?now\<rparr>"
    and b: "get_item (snd (create_item ?db ?now [1, 2, 3, 4, 5, 6, 7, 8, 9, 10, 11, 255] ?item))
             (str_oid [1, 2, 3, 4, 5, 6, 7, 8, 9, 10, 11, 255]) =
               fst (create_item ?db ?now [1, 2, 3, 4, 5, 6, 7, 8, 9, 10, 11, 255] ?item)"
    by blast+
  from t have "named_date (expiry_date ?item) = Some (year ?t, month ?t, day ?t)"
    by blast
  then have n: "named_date ''2025-03-07'' = Some (2025, 3, 7)"
    by simp
  from a have a': "fst (create_item ?db ?now [1, 2, 3, 4, 5, 6, 7, 8, 9, 10, 11, 255] ?item)
      = Inr ?r"
    by (simp add: str_oid_example bson_datetime_def)
  from b have b': "get_item
      (snd (create_item ?db ?now [1, 2, 3, 4, 5, 6, 7, 8, 9, 10, 11, 255] ?item))
      ''0102030405060708090a0bff'' = Inr ?r"
    unfolding a' str_oid_example .
  from h1 h3 h4 h2 a' b' n show ?thesis
    by (intro conjI)
qed

section \<open>The frame of an update\<close>

lemma update_item_state_fields:
  "snd (update_item db s u) = db
   \<or> (\<exists>oid set_doc. update_fields u = Inr set_doc
        \<and> snd (update_item db s u)
            = db\<lparr>items := snd (update_one oid (set_item set_doc) (items db))\<rparr>)"
proof (cases "update_fields u")
  case (Inl e)
  then show ?thesis by (simp add: update_item_def)
next
  case (Inr set_doc)
  show ?thesis
  proof (cases "ObjectId s")
    case (Inl e)
    with Inr show ?thesis by (simp add: update_item_def)
  next
    case oid: (Inr oid)
    show ?thesis
    proof (cases "items_update_one db oid set_doc")
      case (Inl e)
      with Inr oid show ?thesis by (simp add: update_item_def)
    next
      case r: (Inr r)
      obtain n db' where r': "r = (n, db')" by (cases r)
      from r r' have "db' = db\<lparr>items := snd (update_one oid (set_item set_doc) (items db))\<rparr>"
        by (auto simp: items_update_one_def split: if_splits prod.splits)
      moreover have "snd (update_item db s u) = db'"
        using Inr oid r r' by (simp add: update_item_def split: option.splits)
      ultimately show ?thesis using Inr by blast
    qed
  qed
qed

lemma update_item_keeps:
  assumes "\<And>set_doc d. update_fields u = Inr set_doc \<Longrightarrow> g (set_item set_doc d) = g d"
  shows "map (\<lambda>d. (fst d, g (snd d))) (items (snd (update_item db s u)))
       = map (\<lambda>d. (fst d, g (snd d))) (items db)"
proof -
  have "map (\<lambda>d. (fst d, g (snd d))) (snd (update_one oid (set_item set_doc) (items db)))
      = map (\<lambda>d. (fst d, g (snd d))) (items db)"
    if "update_fields u = Inr set_doc" for oid set_doc
    by (rule update_one_keeps) (rule assms [OF that])
  then show ?thesis
    using update_item_state_fields [of db s u] by auto
qed

lemma update_clock_in_keeps:
  assumes "\<And>d. g (set_clock_in u d) = g d"
  shows "map (\<lambda>d. (fst d, g (snd d))) (clock_in_records (snd (update_clock_in db s u)))
       = map (\<lambda>d. (fst d, g (snd d))) (clock_in_records db)"
proof -
  have "map (\<lambda>d. (fst d, g (snd d)))
          (snd (update_one oid (set_clock_in u) (clock_in_records db)))
      = map (\<lambda>d. (fst d, g (snd d))) (clock_in_records db)" for oid
    by (rule update_one_keeps) (rule assms)
  then show ?thesis
    using update_clock_in_state [of db s u] by auto
qed

lemma update_item_other_collection:
  "clock_in_records (snd (update_item db s u)) = clock_in_records db"
  using update_item_state_fields [of db s u] by auto

lemma update_clock_in_other_collection:
  "items (snd (update_clock_in db s u)) = items db"
  using update_clock_in_state [of db s u] by auto

lemma update_one_matched:
  "fst (update_one oid f coll) \<noteq> 0 \<Longrightarrow> \<exists>d. find_one oid coll = Some (oid, d)"
proof -
  assume "fst (update_one oid f coll) \<noteq> 0"
  then have "oid \<in> fst ` set coll"
    by (simp add: update_one_count split: if_splits)
  then have "find_one oid coll \<noteq> None"
    by (simp add: find_one_None)
  then obtain x where x: "find_one oid coll = Some x"
    by blast
  then have "fst x = oid"
    by (auto dest: find_one_Some_fst)
  then have "x = (oid, snd x)"
    by (cases x) simp
  with x show ?thesis
    by metis
qed

lemma update_item_Inr:
  assumes "fst (update_item db s u) = Inr r"
  obtains r0 set_doc where "get_item db s = Inr r0" and "update_fields u = Inr set_doc"
    and "\<forall>q. upd_quantity u = Some q \<longrightarrow> bson_int_ok q"
    and "empty_update u \<longrightarrow> \<not> empty_set_rejected db"
proof -
  from assms obtain set_doc where sd: "update_fields u = Inr set_doc"
    by (cases "update_fields u") (simp_all add: update_item_def)
  from assms sd obtain oid where oid: "ObjectId s = Inr oid"
    by (cases "ObjectId s") (simp_all add: update_item_def)
  from assms sd oid obtain n db' where io: "items_update_one db oid set_doc = Inr (n, db')"
    by (cases "items_update_one db oid set_doc") (auto simp: update_item_def)
  from assms sd oid io have n: "n \<noteq> 0"
    by (auto simp: update_item_def split: if_splits)
  from io have q: "(case upd_quantity set_doc of None \<Rightarrow> False | Some q \<Rightarrow> \<not> bson_int_ok q) = False"
    and e: "\<not> (empty_update set_doc \<and> empty_set_rejected db)"
    and uo: "update_one oid (set_item set_doc) (items db) = (n, items db')"
    by (auto simp: items_update_one_def split: if_splits prod.splits)
  from uo n obtain d where f: "find_one oid (items db) = Some (oid, d)"
    using update_one_matched [of oid "set_item set_doc" "items db"] by auto
  have g: "get_item db s = Inr (item_serializer (oid, d))"
    using oid f by (simp add: get_item_def)
  have a3: "\<forall>q. upd_quantity u = Some q \<longrightarrow> bson_int_ok q"
    using q update_fields_same(4) [OF sd] by (auto split: option.splits)
  have a4: "empty_update u \<longrightarrow> \<not> empty_set_rejected db"
    using e update_fields_empty [OF sd] by simp
  from g sd a3 a4 show ?thesis
    by (rule that)
qed

lemma update_clock_in_Inr:
  assumes "fst (update_clock_in db s u) = Inr c"
  obtains c0 where "get_clock_in db s = Inr c0"
    and "empty_clock_in_update u \<longrightarrow> \<not> empty_set_rejected db"
proof -
  from assms obtain oid where oid: "ObjectId s = Inr oid"
    by (cases "ObjectId s") (simp_all add: update_clock_in_def)
  from assms oid obtain n db' where io: "clock_in_update_one db oid u = Inr (n, db')"
    by (cases "clock_in_update_one db oid u") (auto simp: update_clock_in_def)
  from assms oid io have n: "n \<noteq> 0"
    by (auto simp: update_clock_in_def split: if_splits)
  from io have e: "\<not> (empty_clock_in_update u \<and> empty_set_rejected db)"
    and uo: "update_one oid (set_clock_in u) (clock_in_records db) = (n, clock_in_records db')"
    by (auto simp: clock_in_update_one_def split: if_splits prod.splits)
  from uo n obtain d where f: "find_one oid (clock_in_records db) = Some (oid, d)"
    using update_one_matched [of oid "set_clock_in u" "clock_in_records db"] by auto
  have g: "get_clock_in db s = Inr (clock_in_serializer (oid, d))"
    using oid f by (simp add: get_clock_in_def)
  from e have "empty_clock_in_update u \<longrightarrow> \<not> empty_set_rejected db"
    by simp
  with g show ?thesis
    by (rule that)
qed

lemma update_item_returned:
  assumes "fst (update_item db s u) = Inr r"
  shows "\<exists>r0. get_item db s = Inr r0
        \<and> get_item (snd (update_item db s u)) s = Inr r
        \<and> out_id r = out_id r0 \<and> out_insert_date r = out_insert_date r0
        \<and> out_name r = (case upd_name u of None \<Rightarrow> out_name r0 | Some v \<Rightarrow> v)
        \<and> out_email r = (case upd_email u of None \<Rightarrow> out_email r0 | Some v \<Rightarrow> v)
        \<and> out_item_name r =
            (case upd_item_name u of None \<Rightarrow> out_item_name r0 | Some v \<Rightarrow> v)
        \<and> out_quantity r = (case upd_quantity u of None \<Rightarrow> out_quantity r0 | Some v \<Rightarrow> v)
        \<and> (upd_expiry_date u = None \<longrightarrow> out_expiry_date r = out_expiry_date r0)"
proof -
  from assms obtain r0 set_doc where a1: "get_item db s = Inr r0"
    and a2: "update_fields u = Inr set_doc"
    and a3: "\<forall>q. upd_quantity u = Some q \<longrightarrow> bson_int_ok q"
    and a4: "empty_update u \<longrightarrow> \<not> empty_set_rejected db"
    by (rule update_item_Inr)
  obtain r' where r: "fst (update_item db s u) = Inr r'"
    "get_item (snd (update_item db s u)) s = Inr r'"
    "out_id r' = out_id r0" "out_insert_date r' = out_insert_date r0"
    "out_name r' = (case upd_name u of None \<Rightarrow> out_name r0 | Some v \<Rightarrow> v)"
    "out_email r' = (case upd_email u of None \<Rightarrow> out_email r0 | Some v \<Rightarrow> v)"
    "out_item_name r' = (case upd_item_name u of None \<Rightarrow> out_item_name r0 | Some v \<Rightarrow> v)"
    "out_quantity r' = (case upd_quantity u of None \<Rightarrow> out_quantity r0 | Some v \<Rightarrow> v)"
    "upd_expiry_date u = None \<longrightarrow> out_expiry_date r' = out_expiry_date r0"
    by (rule update_item_frame [OF a1 a2 a3 a4])
  from r(1) assms have eq: "r' = r" by simp
  show ?thesis
    by (intro exI [of _ r0] conjI) (rule a1, (rule r [unfolded eq])+)
qed

lemma update_clock_in_returned:
  assumes "fst (update_clock_in db s u) = Inr c"
  shows "\<exists>c0. get_clock_in db s = Inr c0
        \<and> get_clock_in (snd (update_clock_in db s u)) s = Inr c
        \<and> cout_id c = cout_id c0 \<and> cout_insert_datetime c = cout_insert_datetime c0
        \<and> cout_email c = (case upd_ci_email u of None \<Rightarrow> cout_email c0 | Some v \<Rightarrow> v)
        \<and> cout_location c =
            (case upd_ci_location u of None \<Rightarrow> cout_location c0 | Some v \<Rightarrow> v)"
proof -
  from assms obtain c0 where b1: "get_clock_in db s = Inr c0"
    and b2: "empty_clock_in_update u \<longrightarrow> \<not> empty_set_rejected db"
    by (rule update_clock_in_Inr)
  obtain c' where c: "fst (update_clock_in db s u) = Inr c'"
    "get_clock_in (snd (update_clock_in db s u)) s = Inr c'"
    "cout_id c' = cout_id c0" "cout_insert_datetime c' = cout_insert_datetime c0"
    "cout_email c' = (case upd_ci_email u of None \<Rightarrow> cout_email c0 | Some v \<Rightarrow> v)"
    "cout_location c' = (case upd_ci_location u of None \<Rightarrow> cout_location c0 | Some v \<Rightarrow> v)"
    by (rule update_clock_in_frame [OF b1 b2])
  from c(1) assms have eq: "c' = c" by simp
  show ?thesis
    by (intro exI [of _ c0] conjI) (rule b1, (rule c [unfolded eq])+)
qed

lemma update_item_accepted:
  assumes "get_item db s = Inr r0" and "update_fields u = Inr set_doc"
    and "\<forall>q. upd_quantity u = Some q \<longrightarrow> bson_int_ok q"
    and "empty_update u \<longrightarrow> \<not> empty_set_rejected db"
  shows "\<exists>r. fst (update_item db s u) = Inr r"
  using update_item_frame [OF assms] by metis

lemma update_clock_in_accepted:
  assumes "get_clock_in db s = Inr c0"
    and "empty_clock_in_update u \<longrightarrow> \<not> empty_set_rejected db"
  shows "\<exists>c. fst (update_clock_in db s u) = Inr c"
  using update_clock_in_frame [OF assms] by metis

lemma update_item_store_frame:
  "map (\<lambda>d. (fst d, doc_insert_date (snd d))) (items (snd (update_item db s u)))
     = map (\<lambda>d. (fst d, doc_insert_date (snd d))) (items db)"
  "upd_name u = None \<Longrightarrow>
     map (\<lambda>d. (fst d, doc_name (snd d))) (items (snd (update_item db s u)))
     = map (\<lambda>d. (fst d, doc_name (snd d))) (items db)"
  "upd_email u = None \<Longrightarrow>
     map (\<lambda>d. (fst d, doc_email (snd d))) (items (snd (update_item db s u)))
     = map (\<lambda>d. (fst d, doc_email (snd d))) (items db)"
  "upd_item_name u = None \<Longrightarrow>
     map (\<lambda>d. (fst d, doc_item_name (snd d))) (items (snd (update_item db s u)))
     = map (\<lambda>d. (fst d, doc_item_name (snd d))) (items db)"
  "upd_quantity u = None \<Longrightarrow>
     map (\<lambda>d. (fst d, doc_quantity (snd d))) (items (snd (update_item db s u)))
     = map (\<lambda>d. (fst d, doc_quantity (snd d))) (items db)"
  "upd_expiry_date u = None \<Longrightarrow>
     map (\<lambda>d. (fst d, doc_expiry_date (snd d))) (items (snd (update_item db s u)))
     = map (\<lambda>d. (fst d, doc_expiry_date (snd d))) (items db)"
proof -
  show "map (\<lambda>d. (fst d, doc_insert_date (snd d))) (items (snd (update_item db s u)))
     = map (\<lambda>d. (fst d, doc_insert_date (snd d))) (items db)"
    by (rule update_item_keeps) (simp add: set_item_def)
  show "map (\<lambda>d. (fst d, doc_name (snd d))) (items (snd (update_item db s u)))
     = map (\<lambda>d. (fst d, doc_name (snd d))) (items db)" if "upd_name u = None"
    by (rule update_item_keeps) (simp add: set_item_def update_fields_same that)
  show "map (\<lambda>d. (fst d, doc_email (snd d))) (items (snd (update_item db s u)))
     = map (\<lambda>d. (fst d, doc_email (snd d))) (items db)" if "upd_email u = None"
    by (rule update_item_keeps) (simp add: set_item_def update_fields_same that)
  show "map (\<lambda>d. (fst d, doc_item_name (snd d))) (items (snd (update_item db s u)))
     = map (\<lambda>d. (fst d, doc_item_name (snd d))) (items db)" if "upd_item_name u = None"
    by (rule update_item_keeps) (simp add: set_item_def update_fields_same that)
  show "map (\<lambda>d. (fst d, doc_quantity (snd d))) (items (snd (update_item db s u)))
     = map (\<lambda>d. (fst d, doc_quantity (snd d))) (items db)" if "upd_quantity u = None"
    by (rule update_item_keeps) (simp add: set_item_def update_fields_same that)
  show "map (\<lambda>d. (fst d, doc_expiry_date (snd d))) (items (snd (update_item db s u)))
     = map (\<lambda>d. (fst d, doc_expiry_date (snd d))) (items db)" if n: "upd_expiry_date u = None"
  proof (rule update_item_keeps)
    fix set_doc d
    assume "update_fields u = Inr set_doc"
    then have "upd_expiry_date set_doc = None"
      using n by (simp add: update_fields_same(5))
    then show "doc_expiry_date (set_item set_doc d) = doc_expiry_date d"
      by (simp add: set_item_def)
  qed
qed

lemma update_clock_in_store_frame:
  "map (\<lambda>d. (fst d, cdoc_insert_datetime (snd d)))
       (clock_in_records (snd (update_clock_in db s u)))
     = map (\<lambda>d. (fst d, cdoc_insert_datetime (snd d))) (clock_in_records db)"
  "upd_ci_email u = None \<Longrightarrow>
     map (\<lambda>d. (fst d, cdoc_email (snd d))) (clock_in_records (snd (update_clock_in db s u)))
     = map (\<lambda>d. (fst d, cdoc_email (snd d))) (clock_in_records db)"
  "upd_ci_location u = None \<Longrightarrow>
     map (\<lambda>d. (fst d, cdoc_location (snd d))) (clock_in_records (snd (update_clock_in db s u)))
     = map (\<lambda>d. (fst d, cdoc_location (snd d))) (clock_in_records db)"
  by (rule update_clock_in_keeps, simp add: set_clock_in_def)+

section \<open>C4: an update changes the fields it is given, and no other\<close>

text \<open>
  C4. When \<^verbatim>\<open>update_item\<close> returns a record \<open>r\<close>, the item existed, with the record
  \<open>r0\<close> say, \<open>r\<close> is what \<^verbatim>\<open>get_item\<close> returns from then on, and \<open>r\<close> differs from
  \<open>r0\<close> in the fields that the request gives and in no other: a field that is \<open>None\<close>
  keeps its value (so an update of the quantity alone leaves name, email, item name and
  expiry date), and the identifier and the insert date always do. It does return a
  record for an item that exists and an update that the store accepts. In the store,
  whatever an update does, succeed or fail, every document of the collection keeps its
  insert date and the value of every field that the request does not give, and the
  other collection is as it was. The same holds for clock-in records and their insert
  datetime.
\<close>

theorem update_changes_only_given_fields:
  "(fst (update_item db s u) = Inr r \<longrightarrow>
     (\<exists>r0. get_item db s = Inr r0
        \<and> get_item (snd (update_item db s u)) s = Inr r
        \<and> out_id r = out_id r0 \<and> out_insert_date r = out_insert_date r0
        \<and> out_name r = (case upd_name u of None \<Rightarrow> out_name r0 | Some v \<Rightarrow> v)
        \<and> out_email r = (case upd_email u of None \<Rightarrow> out_email r0 | Some v \<Rightarrow> v)
        \<and> out_item_name r =
            (case upd_item_name u of None \<Rightarrow> out_item_name r0 | Some v \<Rightarrow> v)
        \<and> out_quantity r = (case upd_quantity u of None \<Rightarrow> out_quantity r0 | Some v \<Rightarrow> v)
        \<and> (upd_expiry_date u = None \<longrightarrow> out_expiry_date r = out_expiry_date r0)))
   \<and> (get_item db s = Inr r1 \<and> update_fields u = Inr set_doc
        \<and> (\<forall>q. upd_quantity u = Some q \<longrightarrow> bson_int_ok q)
        \<and> (empty_update u \<longrightarrow> \<not> empty_set_rejected db) \<longrightarrow>
      (\<exists>r'. fst (update_item db s u) = Inr r'))
   \<and> map (\<lambda>d. (fst d, doc_insert_date (snd d))) (items (snd (update_item db s u)))
       = map (\<lambda>d. (fst d, doc_insert_date (snd d))) (items db)
   \<and> (upd_name u = None \<longrightarrow>
        map (\<lambda>d. (fst d, doc_name (snd d))) (items (snd (update_item db s u)))
        = map (\<lambda>d. (fst d, doc_name (snd d))) (items db))
   \<and> (upd_email u = None \<longrightarrow>
        map (\<lambda>d. (fst d, doc_email (snd d))) (items (snd (update_item db s u)))
        = map (\<lambda>d. (fst d, doc_email (snd d))) (items db))
   \<and> (upd_item_name u = None \<longrightarrow>
        map (\<lambda>d. (fst d, doc_item_name (snd d))) (items (snd (update_item db s u)))
        = map (\<lambda>d. (fst d, doc_item_name (snd d))) (items db))
   \<and> (upd_quantity u = None \<longrightarrow>
        map (\<lambda>d. (fst d, doc_quantity (snd d))) (items (snd (update_item db s u)))
        = map (\<lambda>d. (fst d, doc_quantity (snd d))) (items db))
   \<and> (upd_expiry_date u = None \<longrightarrow>
        map (\<lambda>d. (fst d, doc_expiry_date (snd d))) (items (snd (update_item db s u)))
        = map (\<lambda>d. (fst d, doc_expiry_date (snd d))) (items db))
   \<and> clock_in_records (snd (update_item db s u)) = clock_in_records db
   \<and> (fst (update_clock_in db s cu) = Inr c \<longrightarrow>
     (\<exists>c0. get_clock_in db s = Inr c0
        \<and> get_clock_in (snd (update_clock_in db s cu)) s = Inr c
        \<and> cout_id c = cout_id c0 \<and> cout_insert_datetime c = cout_insert_datetime c0
        \<and> cout_email c = (case upd_ci_email cu of None \<Rightarrow> cout_email c0 | Some v \<Rightarrow> v)
        \<and> cout_location c =
            (case upd_ci_location cu of None \<Rightarrow> cout_location c0 | Some v \<Rightarrow> v)))
   \<and> (get_clock_in db s = Inr c1
        \<and> (empty_clock_in_update cu \<longrightarrow> \<not> empty_set_rejected db) \<longrightarrow>
      (\<exists>c'. fst (update_clock_in db s cu) = Inr c'))
   \<and> map (\<lambda>d. (fst d, cdoc_insert_datetime (snd d)))
         (clock_in_records (snd (update_clock_in db s cu)))
       = map (\<lambda>d. (fst d, cdoc_insert_datetime (snd d))) (clock_in_records db)
   \<and> (upd_ci_email cu = None \<longrightarrow>
        map (\<lambda>d. (fst d, cdoc_email (snd d)))
          (clock_in_records (snd (update_clock_in db s cu)))
        = map (\<lambda>d. (fst d, cdoc_email (snd d))) (clock_in_records db))
   \<and> (upd_ci_location cu = None \<longrightarrow>
        map (\<lambda>d. (fst d, cdoc_location (snd d)))
          (clock_in_records (snd (update_clock_in db s cu)))
        = map (\<lambda>d. (fst d, cdoc_location (snd d))) (clock_in_records db))
   \<and> items (snd (update_clock_in db s cu)) = items db"
  apply (intro conjI impI)
                  apply (erule update_item_returned)
                 apply (elim conjE, erule (3) update_item_accepted)
                apply (rule update_item_store_frame(1))
               apply (erule update_item_store_frame(2))
              apply (erule update_item_store_frame(3))
             apply (erule update_item_store_frame(4))
            apply (erule update_item_store_frame(5))
           apply (erule update_item_store_frame(6))
          apply (rule update_item_other_collection)
         apply (erule update_clock_in_returned)
        apply (elim conjE, erule (1) update_clock_in_accepted)
       apply (rule update_clock_in_store_frame(1))
      apply (erule update_clock_in_store_frame(2))
     apply (erule update_clock_in_store_frame(3))
    apply (rule update_clock_in_other_collection)
  done

theorem update_changes_only_given_fields_witness:
  "fst (update_item
     \<lparr>items =
        [([1, 2, 3, 4, 5, 6, 7, 8, 9, 10, 11, 255],
          \<lparr>doc_name = ''n'', doc_email = ''a@x.com'', doc_item_name = ''i'',
           doc_quantity = 3,
           doc_expiry_date = \<lparr>year = 2025, month = 3, day = 7, hour = 0, minute = 0,
             second = 0, microsecond = 0\<rparr>,
           doc_insert_date = \<lparr>year = 2024, month = 1, day = 2, hour = 0, minute = 0,
             second = 0, microsecond = 0\<rparr>\<rparr>)],
      clock_in_records = [], empty_set_rejected = True\<rparr>
     ''0102030405060708090a0bff''
     \<lparr>upd_name = None, upd_email = None, upd_item_name = None, upd_quantity = Some 7,
      upd_expiry_date = None\<rparr>)
   = Inr \<lparr>out_id = ''0102030405060708090a0bff'', out_name = ''n'', out_email = ''a@x.com'',
          out_item_name = ''i'', out_quantity = 7,
          out_expiry_date = \<lparr>year = 2025, month = 3, day = 7, hour = 0, minute = 0,
            second = 0, microsecond = 0\<rparr>,
          out_insert_date = \<lparr>year = 2024, month = 1, day = 2, hour = 0, minute = 0,
            second = 0, microsecond = 0\<rparr>\<rparr>
   \<and> get_item
     \<lparr>items =
        [([1, 2, 3, 4, 5, 6, 7, 8, 9, 10, 11, 255],
          \<lparr>doc_name = ''n'', doc_email = ''a@x.com'', doc_item_name = ''i'',
           doc_quantity = 3,
           doc_expiry_date = \<lparr>year = 2025, month = 3, day = 7, hour = 0, minute = 0,
             second = 0, microsecond = 0\<rparr>,
           doc_insert_date = \<lparr>year = 2024, month = 1, day = 2, hour = 0, minute = 0,
             second = 0, microsecond = 0\<rparr>\<rparr>)],
      clock_in_records = [], empty_set_rejected = True\<rparr>
     ''0102030405060708090a0bff''
   = Inr \<lparr>out_id = ''0102030405060708090a0bff'', out_name = ''n'', out_email = ''a@x.com'',
          out_item_name = ''i'', out_quantity = 3,
          out_expiry_date = \<lparr>year = 2025, month = 3, day = 7, hour = 0, minute = 0,
            second = 0, microsecond = 0\<rparr>,
          out_insert_date = \<lparr>year = 2024, month = 1, day = 2, hour = 0, minute = 0,
            second = 0, microsecond = 0\<rparr>\<rparr>
   \<and> get_item
     (snd (update_item
       \<lparr>items =
          [([1, 2, 3, 4, 5, 6, 7, 8, 9, 10, 11, 255],
            \<lparr>doc_name = ''n'', doc_email = ''a@x.com'', doc_item_name = ''i'',
             doc_quantity = 3,
             doc_expiry_date = \<lparr>year = 2025, month = 3, day = 7, hour = 0, minute = 0,
               second = 0, microsecond = 0\<rparr>,
             doc_insert_date = \<lparr>year = 2024, month = 1, day = 2, hour = 0, minute = 0,
               second = 0, microsecond = 0\<rparr>\<rparr>)],
        clock_in_records = [], empty_set_rejected = True\<rparr>
       ''0102030405060708090a0bff''
       \<lparr>upd_name = None, upd_email = None, upd_item_name = None, upd_quantity = Some 7,
        upd_expiry_date = None\<rparr>))
     ''0102030405060708090a0bff''
   = Inr \<lparr>out_id = ''0102030405060708090a0bff'', out_name = ''n'', out_email = ''a@x.com'',
          out_item_name = ''i'', out_quantity = 7,
          out_expiry_date = \<lparr>year = 2025, month = 3, day = 7, hour = 0, minute = 0,
            second = 0, microsecond = 0\<rparr>,
          out_insert_date = \<lparr>year = 2024, month = 1, day = 2, hour = 0, minute = 0,
            second = 0, microsecond = 0\<rparr>\<rparr>
   \<and> upd_name \<lparr>upd_name = None, upd_email = None, upd_item_name = None,
        upd_quantity = Some (7 :: int), upd_expiry_date = None :: string option\<rparr> = None
   \<and> map (\<lambda>d. (fst d, doc_name (snd d)))
       (items (snd (update_item
         \<lparr>items =
            [([1, 2, 3, 4, 5, 6, 7, 8, 9, 10, 11, 255],
              \<lparr>doc_name = ''n'', doc_email = ''a@x.com'', doc_item_name = ''i'',
               doc_quantity = 3,
               doc_expiry_date = \<lparr>year = 2025, month = 3, day = 7, hour = 0, minute = 0,
                 second = 0, microsecond = 0\<rparr>,
               doc_insert_date = \<lparr>year = 2024, month = 1, day = 2, hour = 0, minute = 0,
                 second = 0, microsecond = 0\<rparr>\<rparr>)],
          clock_in_records = [], empty_set_rejected = True\<rparr>
         ''0102030405060708090a0bff''
         \<lparr>upd_name = None, upd_email = None, upd_item_name = None, upd_quantity = Some 7,
          upd_expiry_date = None\<rparr>)))
     = [([1, 2, 3, 4, 5, 6, 7, 8, 9, 10, 11, 255], ''n'')]"
proof -
  let ?db = "\<lparr>items =
        [([1, 2, 3, 4, 5, 6, 7, 8, 9, 10, 11, 255],
          \<lparr>doc_name = ''n'', doc_email = ''a@x.com'', doc_item_name = ''i'',
           doc_quantity = 3,
           doc_expiry_date = \<lparr>year = 2025, month = 3, day = 7, hour = 0, minute = 0,
             second = 0, microsecond = 0\<rparr>,
           doc_insert_date = \<lparr>year = 2024, month = 1, day = 2, hour = 0, minute = 0,
             second = 0, microsecond = 0\<rparr>\<rparr>)],
      clock_in_records = [], empty_set_rejected = True\<rparr>"
  let ?u = "\<lparr>upd_name = None, upd_email = None, upd_item_name = None,
      upd_quantity = Some (7 :: int), upd_expiry_date = None :: string option\<rparr>"
  let ?ra = "\<lparr>out_id = ''0102030405060708090a0bff'', out_name = ''n'', out_email = ''a@x.com'',
          out_item_name = ''i'', out_quantity = 3,
          out_expiry_date = \<lparr>year = 2025, month = 3, day = 7, hour = 0, minute = 0,
            second = 0, microsecond = 0\<rparr>,
          out_insert_date = \<lparr>year = 2024, month = 1, day = 2, hour = 0, minute = 0,
            second = 0, microsecond = 0\<rparr>\<rparr>"
  let ?rb = "\<lparr>out_id = ''0102030405060708090a0bff'', out_name = ''n'', out_email = ''a@x.com'',
          out_item_name = ''i'', out_quantity = 7,
          out_expiry_date = \<lparr>year = 2025, month = 3, day = 7, hour = 0, minute = 0,
            second = 0, microsecond = 0\<rparr>,
          out_insert_date = \<lparr>year = 2024, month = 1, day = 2, hour = 0, minute = 0,
            second = 0, microsecond = 0\<rparr>\<rparr>"
  let ?cu = "\<lparr>upd_ci_email = None, upd_ci_location = None\<rparr>"
  let ?cz = "\<lparr>cout_id = [], cout_email = [], cout_location = [],
        cout_insert_datetime = \<lparr>year = 2024, month = 1, day = 1, hour = 0, minute = 0,
            second = 0, microsecond = 0\<rparr>\<rparr>"
  have h: "fst (update_item ?db ''0102030405060708090a0bff'' ?u) = Inr ?rb"
    by (simp add: update_item_def update_fields_def ObjectId_example_ff items_update_one_def
        bson_int_ok_def empty_update_def set_item_def find_one_def item_serializer_def
        str_oid_example)
  have g: "get_item ?db ''0102030405060708090a0bff'' = Inr ?ra"
    by (simp add: get_item_def ObjectId_example_ff find_one_def item_serializer_def
        str_oid_example)
  have n: "upd_name ?u = None"
    by simp
  note t = update_changes_only_given_fields
    [of ?db "''0102030405060708090a0bff''" ?u ?rb ?ra
      "\<lparr>upd_name = None, upd_email = None, upd_item_name = None,
        upd_quantity = Some 7, upd_expiry_date = None\<rparr>" ?cu ?cz ?cz]
  from t h have a: "get_item (snd (update_item ?db ''0102030405060708090a0bff'' ?u))
      ''0102030405060708090a0bff'' = Inr ?rb"
    by blast
  from t n have "map (\<lambda>d. (fst d, doc_name (snd d)))
        (items (snd (update_item ?db ''0102030405060708090a0bff'' ?u)))
      = map (\<lambda>d. (fst d, doc_name (snd d))) (items ?db)"
    by blast
  then have b: "map (\<lambda>d. (fst d, doc_name (snd d)))
        (items (snd (update_item ?db ''0102030405060708090a0bff'' ?u)))
      = [([1, 2, 3, 4, 5, 6, 7, 8, 9, 10, 11, 255], ''n'')]"
    by simp
  from h g a n b show ?thesis
    by (intro conjI)
qed

end
